theory Spec2Isabelle
  imports Complex_Main
begin

section \<open>Values and arrays\<close>

text \<open>
  The generators of \<^verbatim>\<open>src/CPSO/chaosGen.py\<close> compute on numpy arrays of float64.
  A float64 is modelled as a real number or one of the three special values; the result
  of an operation on finite operands is taken exact (rounding and overflow are left
  out), and the sign of a zero is dropped, so a finite nonzero value divided by zero has
  the sign of the dividend. numpy's array arithmetic never raises on a division by zero:
  it yields an infinity or NaN.
\<close>

datatype f64 = Fin real | PInf | NInf | NaN

fun inf_of :: "real \<Rightarrow> f64" where
  "inf_of s = (if 0 < s then PInf else if s < 0 then NInf else NaN)"

fun f_sgn :: "f64 \<Rightarrow> real" where
  "f_sgn (Fin x) = sgn x"
| "f_sgn PInf = 1"
| "f_sgn NInf = - 1"
| "f_sgn NaN = 0"

fun f_neg :: "f64 \<Rightarrow> f64" where
  "f_neg (Fin x) = Fin (- x)"
| "f_neg PInf = NInf"
| "f_neg NInf = PInf"
| "f_neg NaN = NaN"

fun f_add :: "f64 \<Rightarrow> f64 \<Rightarrow> f64" where
  "f_add (Fin x) (Fin y) = Fin (x + y)"
| "f_add NaN _ = NaN"
| "f_add _ NaN = NaN"
| "f_add PInf NInf = NaN"
| "f_add NInf PInf = NaN"
| "f_add PInf _ = PInf"
| "f_add _ PInf = PInf"
| "f_add NInf _ = NInf"
| "f_add _ NInf = NInf"

definition f_sub :: "f64 \<Rightarrow> f64 \<Rightarrow> f64" where
  "f_sub a b = f_add a (f_neg b)"

fun f_mul :: "f64 \<Rightarrow> f64 \<Rightarrow> f64" where
  "f_mul (Fin x) (Fin y) = Fin (x * y)"
| "f_mul NaN _ = NaN"
| "f_mul _ NaN = NaN"
| "f_mul a b = inf_of (f_sgn a * f_sgn b)"

fun f_div :: "f64 \<Rightarrow> f64 \<Rightarrow> f64" where
  "f_div (Fin x) (Fin y) = (if y = 0 then inf_of (sgn x) else Fin (x / y))"
| "f_div NaN _ = NaN"
| "f_div _ NaN = NaN"
| "f_div (Fin x) _ = Fin 0"
| "f_div a (Fin y) = inf_of (f_sgn a * (if y < 0 then - 1 else 1))"
| "f_div _ _ = NaN"

text \<open>Comparisons with NaN are false, as in IEEE 754.\<close>

fun f_le :: "f64 \<Rightarrow> f64 \<Rightarrow> bool" where
  "f_le (Fin x) (Fin y) = (x \<le> y)"
| "f_le NaN _ = False"
| "f_le _ NaN = False"
| "f_le NInf _ = True"
| "f_le _ PInf = True"
| "f_le _ _ = False"

definition f_lt :: "f64 \<Rightarrow> f64 \<Rightarrow> bool" where
  "f_lt a b = (f_le a b \<and> \<not> f_le b a)"

definition f_gt :: "f64 \<Rightarrow> f64 \<Rightarrow> bool" where
  "f_gt a b = f_lt b a"

text \<open>
  An array is its shape and its elements in row-major order. \<open>np_map\<close> is an
  elementwise operation; \<open>np_array\<close> is \<^verbatim>\<open>np.array([a0, a1, ...])\<close> on a list of
  arrays, which stacks arrays of one shape along a new leading axis, gives the empty
  array of shape \<open>(0,)\<close> on the empty list, and raises on ragged input.
\<close>

record 'a ndarray =
  shape :: "nat list"
  elems :: "'a list"

datatype py_error = IndexError | ValueError | KeyError

definition np_map :: "('a \<Rightarrow> 'b) \<Rightarrow> 'a ndarray \<Rightarrow> 'b ndarray" where
  "np_map f a = \<lparr>shape = shape a, elems = map f (elems a)\<rparr>"

definition np_array :: "'a ndarray list \<Rightarrow> py_error + 'a ndarray" where
  "np_array rows =
     (case rows of
        [] \<Rightarrow> Inr \<lparr>shape = [0], elems = []\<rparr>
      | a # _ \<Rightarrow>
          if list_all (\<lambda>b. shape b = shape a) rows
          then Inr \<lparr>shape = length rows # shape a, elems = concat (map elems rows)\<rparr>
          else Inl ValueError)"

text \<open>
  Indexing an axis of length \<open>n\<close> with a Python integer: a negative index counts
  from the end, anything outside \<open>-n \<le> i < n\<close> raises IndexError.
\<close>

definition py_index :: "nat \<Rightarrow> int \<Rightarrow> py_error + nat" where
  "py_index n i =
     (if 0 \<le> i \<and> i < int n then Inr (nat i)
      else if - int n \<le> i \<and> i < 0 then Inr (nat (int n + i))
      else Inl IndexError)"

section \<open>The generator engine\<close>

text \<open>
  \<^verbatim>\<open>class ChaosGenerator\<close>: the fields set by \<^verbatim>\<open>__init__\<close>. \<open>cgens\<close> is the State
  Container, an array of shape \<open>(gens,) + gshape\<close>, kept as the list of its \<open>gens\<close>
  slots. The child classes extend the record with their parameters.
\<close>

record 'a ChaosGenerator =
  oshape :: "nat list"
  gshape :: "nat list"
  cascade :: bool
  gens :: nat
  cgens :: "'a ndarray list"

text \<open>
  \<^verbatim>\<open>__init__\<close>: \<open>gshape\<close> is \<open>s[1:]\<close> in cascade mode and \<open>s\<close> otherwise, where
  \<open>s\<close> is the override when given and \<open>oshape\<close> when not. The random draws
  \<^verbatim>\<open>np.random.random_sample(gshape)\<close>, one per generator, are the parameter \<open>draw\<close>.
\<close>

definition ChaosGenerator_init ::
  "nat list \<Rightarrow> nat list option \<Rightarrow> bool \<Rightarrow> nat \<Rightarrow> (nat \<Rightarrow> 'a ndarray) \<Rightarrow> 'a ChaosGenerator" where
  "ChaosGenerator_init osh gsh casc n draw =
     \<lparr>oshape = osh,
      gshape = (\<lambda>s. if casc then tl s else s) (case gsh of None \<Rightarrow> osh | Some s \<Rightarrow> s),
      cascade = casc,
      gens = n,
      cgens = map draw [0..<n]\<rparr>"

text \<open>\<^verbatim>\<open>getCgens\<close>: a copy of the State Container; the generator is not touched.\<close>

definition getCgens :: "('a, 'z) ChaosGenerator_scheme \<Rightarrow> 'a ndarray list \<times> ('a, 'z) ChaosGenerator_scheme" where
  "getCgens g = (cgens g, g)"

text \<open>
  A list comprehension \<^verbatim>\<open>[f(i) for i in xs]\<close> whose body changes the generator: the
  calls are made in the order of \<open>xs\<close>, each on the generator the previous one left,
  and the first exception ends the loop.
\<close>

fun for_each ::
  "('g \<Rightarrow> 'i \<Rightarrow> py_error + ('b \<times> 'g)) \<Rightarrow> 'g \<Rightarrow> 'i list \<Rightarrow> py_error + ('b list \<times> 'g)" where
  "for_each f g [] = Inr ([], g)"
| "for_each f g (i # is) =
     (case f g i of
        Inl e \<Rightarrow> Inl e
      | Inr (x, g') \<Rightarrow>
          (case for_each f g' is of
             Inl e \<Rightarrow> Inl e
           | Inr (xs, g'') \<Rightarrow> Inr (x # xs, g'')))"

text \<open>
  \<^verbatim>\<open>chaosPoints\<close>. The method \<^verbatim>\<open>evolve\<close> of the child class is the parameter \<open>ev\<close>:
  it takes the generator and a slot index and returns the produced array with the
  updated generator, or raises.

  The branch \<^verbatim>\<open>gno != 0\<close>, one generator, indexed from 1: in cascade mode
  \<^verbatim>\<open>np.array([self.evolve(gno-1) for i in range(self.oshape[0])])\<close>, otherwise
  \<^verbatim>\<open>self.evolve(gno-1)\<close>.
\<close>

definition chaosPoints_gno ::
  "(('a, 'z) ChaosGenerator_scheme \<Rightarrow> int \<Rightarrow> py_error + ('b ndarray \<times> ('a, 'z) ChaosGenerator_scheme))
   \<Rightarrow> ('a, 'z) ChaosGenerator_scheme \<Rightarrow> int
   \<Rightarrow> py_error + ('b ndarray \<times> ('a, 'z) ChaosGenerator_scheme)" where
  "chaosPoints_gno ev g gno =
     (if cascade g then
        (case oshape g of
           [] \<Rightarrow> Inl IndexError
         | np # _ \<Rightarrow>
             (case for_each (\<lambda>g' i. ev g' (gno - 1)) g [0..<np] of
                Inl e \<Rightarrow> Inl e
              | Inr (rows, g') \<Rightarrow>
                  (case np_array rows of Inl e \<Rightarrow> Inl e | Inr out \<Rightarrow> Inr (out, g'))))
      else ev g (gno - 1))"

text \<open>
  The whole method. In the branch \<^verbatim>\<open>gno == 0\<close>,
  \<^verbatim>\<open>np.array([self.chaosPoints(i+1) for i in range(self.gens)])\<close>, each recursive call
  has \<open>i + 1 \<noteq> 0\<close> and takes the branch above.
\<close>

definition chaosPoints ::
  "(('a, 'z) ChaosGenerator_scheme \<Rightarrow> int \<Rightarrow> py_error + ('b ndarray \<times> ('a, 'z) ChaosGenerator_scheme))
   \<Rightarrow> ('a, 'z) ChaosGenerator_scheme \<Rightarrow> int
   \<Rightarrow> py_error + ('b ndarray \<times> ('a, 'z) ChaosGenerator_scheme)" where
  "chaosPoints ev g gno =
     (if gno \<noteq> 0 then chaosPoints_gno ev g gno
      else
        (case for_each (\<lambda>g' i. chaosPoints_gno ev g' (int i + 1)) g [0..<gens g] of
           Inl e \<Rightarrow> Inl e
         | Inr (outs, g') \<Rightarrow>
             (case np_array outs of Inl e \<Rightarrow> Inl e | Inr out \<Rightarrow> Inr (out, g'))))"

text \<open>The owner calling \<^verbatim>\<open>chaosPoints\<close> again and again, with the indices \<open>gnos\<close>.\<close>

definition produce_many ::
  "(('a, 'z) ChaosGenerator_scheme \<Rightarrow> int \<Rightarrow> py_error + ('b ndarray \<times> ('a, 'z) ChaosGenerator_scheme))
   \<Rightarrow> ('a, 'z) ChaosGenerator_scheme \<Rightarrow> int list
   \<Rightarrow> py_error + ('b ndarray list \<times> ('a, 'z) ChaosGenerator_scheme)" where
  "produce_many ev g gnos = for_each (chaosPoints ev) g gnos"

section \<open>Logistic map\<close>

record Logistic = "f64 ChaosGenerator" +
  r :: f64

definition Logistic_init :: "nat list \<Rightarrow> bool \<Rightarrow> f64 \<Rightarrow> nat \<Rightarrow> (nat \<Rightarrow> f64 ndarray) \<Rightarrow> Logistic" where
  "Logistic_init osh casc r0 n draw =
     (let b = ChaosGenerator_init osh None casc n draw
      in \<lparr>oshape = oshape b, gshape = gshape b, cascade = cascade b, gens = gens b,
          cgens = cgens b, r = r0\<rparr>)"

text \<open>The lambda \<^verbatim>\<open>r*x*(1-x)\<close>, which Python reads as \<open>(r*x)*(1-x)\<close>.\<close>

definition logistic_map :: "f64 \<Rightarrow> f64 \<Rightarrow> f64" where
  "logistic_map r0 x = f_mul (f_mul r0 x) (f_sub (Fin 1) x)"

definition Logistic_evolve :: "Logistic \<Rightarrow> int \<Rightarrow> py_error + (f64 ndarray \<times> Logistic)" where
  "Logistic_evolve g gind =
     (case py_index (length (cgens g)) gind of
        Inl e \<Rightarrow> Inl e
      | Inr k \<Rightarrow>
          (let ret = cgens g ! k
           in Inr (ret, g\<lparr>cgens := (cgens g)[k := np_map (logistic_map (r g)) (cgens g ! k)]\<rparr>)))"

section \<open>Tent map\<close>

record Tent = "f64 ChaosGenerator" +
  mu :: f64

definition Tent_init :: "nat list \<Rightarrow> bool \<Rightarrow> f64 \<Rightarrow> nat \<Rightarrow> (nat \<Rightarrow> f64 ndarray) \<Rightarrow> Tent" where
  "Tent_init osh casc mu0 n draw =
     (let b = ChaosGenerator_init osh None casc n draw
      in \<lparr>oshape = oshape b, gshape = gshape b, cascade = cascade b, gens = gens b,
          cgens = cgens b, mu = mu0\<rparr>)"

text \<open>
  The lambda \<^verbatim>\<open>np.where(x <= mu, x/mu, (1-x)/(1-mu))\<close>: both quotients are computed
  for every element and the comparison picks one.
\<close>

definition tent_map :: "f64 \<Rightarrow> f64 \<Rightarrow> f64" where
  "tent_map mu0 x =
     (if f_le x mu0 then f_div x mu0 else f_div (f_sub (Fin 1) x) (f_sub (Fin 1) mu0))"

definition Tent_evolve :: "Tent \<Rightarrow> int \<Rightarrow> py_error + (f64 ndarray \<times> Tent)" where
  "Tent_evolve g gind =
     (case py_index (length (cgens g)) gind of
        Inl e \<Rightarrow> Inl e
      | Inr k \<Rightarrow>
          (let ret = cgens g ! k
           in Inr (ret, g\<lparr>cgens := (cgens g)[k := np_map (tent_map (mu g)) (cgens g ! k)]\<rparr>)))"

section \<open>Lorenz flow\<close>

text \<open>
  The state of one trajectory is its three coordinates, so a slot of the State
  Container, of shape \<open>gshape = (..., 3)\<close>, is kept as an array of triples of shape
  \<open>gshape[:-1]\<close>. \<open>limits\<close> is the \<open>(3, 2)\<close> array of \<open>(min, max)\<close> per
  coordinate, and the class attribute \<^verbatim>\<open>Lorenz.lims\<close> is a dictionary from parameter
  tuples to limits, passed to the functions that read or write it.
\<close>

type_synonym vec3 = "f64 \<times> f64 \<times> f64"

type_synonym limits = "(f64 \<times> f64) \<times> (f64 \<times> f64) \<times> (f64 \<times> f64)"

record Lorenz = "vec3 ChaosGenerator" +
  params :: vec3
  comp :: int
  h :: f64

fun nth3 :: "nat \<Rightarrow> 'a \<times> 'a \<times> 'a \<Rightarrow> 'a" where
  "nth3 k (a, b, c) = (if k = 0 then a else if k = 1 then b else c)"

text \<open>\<^verbatim>\<open>Lorenz.lorenz\<close>, the right-hand side of the differential equation.\<close>

fun lorenz :: "vec3 \<Rightarrow> f64 \<Rightarrow> vec3 \<Rightarrow> vec3" where
  "lorenz (x, y, z) t (sigma, beta, rho) =
     (f_mul sigma (f_sub y x), f_sub (f_mul x (f_sub rho z)) y, f_sub (f_mul x y) (f_mul beta z))"

text \<open>
  \<^verbatim>\<open>setLimits\<close>: the bounding box is computed only for a parameter tuple that is not
  in the dictionary yet. The box itself comes from scipy's \<^verbatim>\<open>odeint\<close> on a random start
  and is the parameter \<open>box\<close>.
\<close>

definition setLimits :: "(vec3 \<Rightarrow> limits) \<Rightarrow> (vec3 \<rightharpoonup> limits) \<Rightarrow> vec3 \<Rightarrow> (vec3 \<rightharpoonup> limits)" where
  "setLimits box lims ps = (case lims ps of None \<Rightarrow> lims(ps \<mapsto> box ps) | Some _ \<Rightarrow> lims)"

text \<open>The lambda \<^verbatim>\<open>mn + (mx - mn)*st\<close> of \<^verbatim>\<open>__init__\<close>, on one coordinate.\<close>

definition rescale :: "f64 \<times> f64 \<Rightarrow> f64 \<Rightarrow> f64" where
  "rescale lm st = f_add (fst lm) (f_mul (f_sub (snd lm) (fst lm)) st)"

fun rescale3 :: "limits \<Rightarrow> vec3 \<Rightarrow> vec3" where
  "rescale3 (l0, l1, l2) (x, y, z) = (rescale l0 x, rescale l1 y, rescale l2 z)"

text \<open>
  \<^verbatim>\<open>__init__\<close>: the parent constructor with the override \<open>oshape + (3,)\<close>, then
  \<^verbatim>\<open>setLimits\<close>, then for every generator and every coordinate \<open>j\<close> the assignment
  \<^verbatim>\<open>self.cgens[i,...,j] = mn + (mx - mn)*self.cgens[i,...,j]\<close>. The index \<open>[i,...,j]\<close>
  needs the trailing axis; in cascade mode with an empty owner shape \<open>gshape\<close> is
  \<open>()\<close>, the State Container has one axis only and the first assignment raises
  IndexError. The dictionary keeps what \<^verbatim>\<open>setLimits\<close> stored also when the constructor
  raises, so it is returned beside the result.
\<close>

definition Lorenz_init ::
  "(vec3 \<Rightarrow> limits) \<Rightarrow> (vec3 \<rightharpoonup> limits) \<Rightarrow> nat list \<Rightarrow> bool \<Rightarrow> vec3 \<Rightarrow> int \<Rightarrow> f64 \<Rightarrow> nat
   \<Rightarrow> (nat \<Rightarrow> vec3 ndarray) \<Rightarrow> (py_error + Lorenz) \<times> (vec3 \<rightharpoonup> limits)" where
  "Lorenz_init box lims osh casc ps cmp h0 n draw =
     (let b = ChaosGenerator_init osh (Some (osh @ [3])) casc n draw;
          lims' = setLimits box lims ps
      in (if 0 < n \<and> gshape b = [] then Inl IndexError
          else
            (case lims' ps of
               None \<Rightarrow> Inl KeyError
             | Some lm \<Rightarrow>
                 Inr \<lparr>oshape = oshape b, gshape = gshape b, cascade = cascade b, gens = gens b,
                      cgens = map (np_map (rescale3 lm)) (cgens b),
                      params = ps, comp = cmp, h = h0\<rparr>),
          lims'))"

text \<open>
  \<^verbatim>\<open>evolveT\<close>: for every index \<open>pt\<close> of \<^verbatim>\<open>np.ndindex(self.gshape[:-1])\<close>, in row-major
  order, the triple at \<open>pt\<close> of slot \<open>gind\<close> is replaced by the last row of
  \<^verbatim>\<open>odeint(Lorenz.lorenz, X, np.arange(0, h*(T+1), h), args=params)\<close>. scipy's integrator
  is the parameter \<open>ode\<close>, applied to the parameters, the time step, \<open>T\<close> and the
  triple.
\<close>

fun evolveT_loop :: "(vec3 \<Rightarrow> vec3) \<Rightarrow> nat list \<Rightarrow> Lorenz \<Rightarrow> int \<Rightarrow> py_error + Lorenz" where
  "evolveT_loop f [] g gind = Inr g"
| "evolveT_loop f (pt # pts) g gind =
     (case py_index (length (cgens g)) gind of
        Inl e \<Rightarrow> Inl e
      | Inr k \<Rightarrow>
          (let a = cgens g ! k
           in if pt < length (elems a)
              then evolveT_loop f pts
                     (g\<lparr>cgens := (cgens g)[k := a\<lparr>elems := (elems a)[pt := f (elems a ! pt)]\<rparr>]\<rparr>) gind
              else Inl IndexError))"

definition Lorenz_evolveT ::
  "(vec3 \<Rightarrow> f64 \<Rightarrow> nat \<Rightarrow> vec3 \<Rightarrow> vec3) \<Rightarrow> Lorenz \<Rightarrow> int \<Rightarrow> nat \<Rightarrow> py_error + Lorenz" where
  "Lorenz_evolveT ode g gind T =
     evolveT_loop (ode (params g) (h g) T) [0..<prod_list (butlast (gshape g))] g gind"

text \<open>
  \<^verbatim>\<open>evolve\<close>: the coordinate \<open>comp\<close> of slot \<open>gind\<close> is normalised with the cached
  limits, the two \<^verbatim>\<open>np.where\<close> replace a value below 0 by \<open>eps\<close> and a value above 1
  by \<open>1 - eps\<close>, and then the slot is advanced by \<^verbatim>\<open>evolveT\<close> with \<open>T = 1\<close>.
\<close>

definition eps :: f64 where
  "eps = Fin (1 / 100000)"

definition normalise :: "f64 \<Rightarrow> f64 \<Rightarrow> f64 \<Rightarrow> f64" where
  "normalise mn mx st = f_div (f_sub st mn) (f_sub mx mn)"

definition clamp_low :: "f64 \<Rightarrow> f64" where
  "clamp_low n1 = (if f_lt n1 (Fin 0) then eps else n1)"

definition clamp_high :: "f64 \<Rightarrow> f64" where
  "clamp_high n2 = (if f_gt n2 (Fin 1) then f_sub (Fin 1) eps else n2)"

definition export :: "nat \<Rightarrow> limits \<Rightarrow> vec3 \<Rightarrow> f64" where
  "export c lm v =
     clamp_high (clamp_low (normalise (fst (nth3 c lm)) (snd (nth3 c lm)) (nth3 c v)))"

definition Lorenz_evolve ::
  "(vec3 \<Rightarrow> f64 \<Rightarrow> nat \<Rightarrow> vec3 \<Rightarrow> vec3) \<Rightarrow> (vec3 \<rightharpoonup> limits) \<Rightarrow> Lorenz \<Rightarrow> int
   \<Rightarrow> py_error + (f64 ndarray \<times> Lorenz)" where
  "Lorenz_evolve ode lims g gind =
     (case py_index (length (cgens g)) gind of
        Inl e \<Rightarrow> Inl e
      | Inr k \<Rightarrow>
          (case py_index 3 (comp g) of
             Inl e \<Rightarrow> Inl e
           | Inr c \<Rightarrow>
               (case lims (params g) of
                  None \<Rightarrow> Inl KeyError
                | Some lm \<Rightarrow>
                    (let ret = np_map (export c lm) (cgens g ! k)
                     in case Lorenz_evolveT ode g gind 1 of
                          Inl e \<Rightarrow> Inl e
                        | Inr g' \<Rightarrow> Inr (ret, g')))))"

section \<open>The State Container as the constructors leave it\<close>

text \<open>
  One call of \<^verbatim>\<open>evolve\<close> returns an array of the shape \<open>cell_shape\<close>: the owner shape
  without its leading axis in cascade mode, the owner shape otherwise. A generator is
  well formed when it has \<open>gens\<close> slots and every slot has that shape and as many
  elements as the shape says.
\<close>

definition cell_shape :: "('a, 'z) ChaosGenerator_scheme \<Rightarrow> nat list" where
  "cell_shape g = (if cascade g then tl (oshape g) else oshape g)"

definition wf_slot :: "nat list \<Rightarrow> 'a ndarray \<Rightarrow> bool" where
  "wf_slot s a = (shape a = s \<and> length (elems a) = prod_list s)"

definition wf_gen :: "('a, 'z) ChaosGenerator_scheme \<Rightarrow> bool" where
  "wf_gen g = (length (cgens g) = gens g \<and> list_all (wf_slot (cell_shape g)) (cgens g))"

text \<open>Every element of every slot of a generator, or of an array, satisfies \<open>P\<close>.\<close>

definition all_elems :: "('a \<Rightarrow> bool) \<Rightarrow> 'a ndarray \<Rightarrow> bool" where
  "all_elems P a = list_all P (elems a)"

definition all_state :: "('a \<Rightarrow> bool) \<Rightarrow> ('a, 'z) ChaosGenerator_scheme \<Rightarrow> bool" where
  "all_state P g = list_all (all_elems P) (cgens g)"

definition in_unit :: "f64 \<Rightarrow> bool" where
  "in_unit v = (case v of Fin x \<Rightarrow> 0 \<le> x \<and> x \<le> 1 | _ \<Rightarrow> False)"

definition finite64 :: "f64 \<Rightarrow> bool" where
  "finite64 v = (case v of Fin _ \<Rightarrow> True | _ \<Rightarrow> False)"

fun the_real :: "f64 \<Rightarrow> real" where
  "the_real (Fin x) = x"
| "the_real _ = 0"

text \<open>
  \<open>np_nth a i\<close> is \<^verbatim>\<open>a[i]\<close>, the sub-array at position \<open>i\<close> of the leading axis, for
  \<open>i\<close> below the length of that axis.
\<close>

definition np_nth :: "'a ndarray \<Rightarrow> nat \<Rightarrow> 'a ndarray" where
  "np_nth a i =
     (let n = prod_list (tl (shape a))
      in \<lparr>shape = tl (shape a), elems = take n (drop (i * n) (elems a))\<rparr>)"

text \<open>
  Closed forms for what one call of \<^verbatim>\<open>chaosPoints\<close> with \<open>gno \<noteq> 0\<close> makes of a slot
  \<open>a\<close>, when \<open>evolve\<close> returns \<open>e\<close> of every element and replaces every element by
  \<open>f\<close> of it. In cascade mode with \<open>np\<close> particles the produced array has the rows
  \<open>e (f\<^sup>p x)\<close> for \<open>p = 0, ..., np - 1\<close> and the slot ends as \<open>f\<^sup>n\<^sup>p x\<close>; otherwise the
  produced array is \<open>e x\<close> and the slot ends as \<open>f x\<close>. The lemmas below prove that
  \<open>chaosPoints\<close> computes them.
\<close>

definition cascade_out :: "nat \<Rightarrow> ('a \<Rightarrow> 'b) \<Rightarrow> ('a \<Rightarrow> 'a) \<Rightarrow> 'a ndarray \<Rightarrow> 'b ndarray" where
  "cascade_out np e f a =
     \<lparr>shape = (if np = 0 then [0] else np # shape a),
      elems = concat (map (\<lambda>p. map (\<lambda>x. e ((f ^^ p) x)) (elems a)) [0..<np])\<rparr>"

definition slot_out :: "bool \<Rightarrow> nat list \<Rightarrow> ('a \<Rightarrow> 'b) \<Rightarrow> ('a \<Rightarrow> 'a) \<Rightarrow> 'a ndarray \<Rightarrow> 'b ndarray" where
  "slot_out casc osh e f a = (if casc then cascade_out (hd osh) e f a else np_map e a)"

definition slot_next :: "bool \<Rightarrow> nat list \<Rightarrow> ('a \<Rightarrow> 'a) \<Rightarrow> 'a ndarray \<Rightarrow> 'a ndarray" where
  "slot_next casc osh f a = (if casc then np_map (f ^^ hd osh) a else np_map f a)"

text \<open>
  What \<^verbatim>\<open>chaosPoints(0)\<close> has to do. \<open>out_shape\<close> is the shape of the array one call
  with \<open>gno \<noteq> 0\<close> returns: the owner shape, but \<open>(0,)\<close> in cascade mode without
  particles, where \<^verbatim>\<open>np.array([])\<close> is returned. \<open>all_generators_once ev g\<close> says that
  \<^verbatim>\<open>chaosPoints(0)\<close> returns; that its array has the shape \<open>(gens,) + out_shape\<close>
  (\<open>(0,)\<close> without generators); that calling \<^verbatim>\<open>chaosPoints(1)\<close>, ...,
  \<^verbatim>\<open>chaosPoints(gens)\<close> in this order on the same generator returns the rows of that
  array and leaves the same generator; and that each \<^verbatim>\<open>chaosPoints(i+1)\<close> alone, on the
  starting generator, returns row \<open>i\<close> and changes slot \<open>i\<close> into what
  \<^verbatim>\<open>chaosPoints(0)\<close> leaves there.
\<close>

definition out_shape :: "('a, 'z) ChaosGenerator_scheme \<Rightarrow> nat list" where
  "out_shape g = (if cascade g \<and> hd (oshape g) = 0 then [0] else oshape g)"

definition all_generators_once ::
  "(('a, 'z) ChaosGenerator_scheme \<Rightarrow> int \<Rightarrow> py_error + ('b ndarray \<times> ('a, 'z) ChaosGenerator_scheme))
   \<Rightarrow> ('a, 'z) ChaosGenerator_scheme \<Rightarrow> bool" where
  "all_generators_once ev g =
     (case chaosPoints ev g 0 of
        Inl e \<Rightarrow> False
      | Inr (out, g') \<Rightarrow>
          shape out = (if gens g = 0 then [0] else gens g # out_shape g)
          \<and> length (cgens g') = gens g
          \<and> produce_many ev g (map (\<lambda>i. int i + 1) [0..<gens g])
              = Inr (map (np_nth out) [0..<gens g], g')
          \<and> list_all (\<lambda>i. chaosPoints ev g (int i + 1)
                             = Inr (np_nth out i, g\<lparr>cgens := (cgens g)[i := cgens g' ! i]\<rparr>))
               [0..<gens g])"

section \<open>Example generators\<close>

text \<open>
  A Logistic and a Tent generator with the default parameters, owner shape \<open>(2, 2)\<close>,
  cascade mode and two slots, built by the constructors from fixed draws.
\<close>

definition ex_draw :: "nat \<Rightarrow> f64 ndarray" where
  "ex_draw i =
     (if i = 0 then \<lparr>shape = [2], elems = [Fin (1 / 2), Fin (1 / 4)]\<rparr>
      else \<lparr>shape = [2], elems = [Fin 0, Fin (3 / 4)]\<rparr>)"

definition ex_logistic :: Logistic where
  "ex_logistic = Logistic_init [2, 2] True (Fin 4) 2 ex_draw"

definition ex_tent :: Tent where
  "ex_tent = Tent_init [2, 2] True (Fin (49999 / 100000)) 2 ex_draw"

text \<open>
  A Lorenz generator with the default parameters, owner shape \<open>(2, 1)\<close>, cascade mode and
  two slots, as the constructor leaves it on an empty limits dictionary. The first draw
  has \<open>0.0\<close> for its first coordinate, which \<^verbatim>\<open>random_sample\<close> can return. One
  explicit Euler step of \<open>lorenz\<close> stands in for scipy's integrator where a concrete
  one is needed.
\<close>

definition euler_step :: "vec3 \<Rightarrow> f64 \<Rightarrow> nat \<Rightarrow> vec3 \<Rightarrow> vec3" where
  "euler_step ps h0 T X =
     (case (X, lorenz X (Fin 0) ps) of
        ((x, y, z), (dx, dy, dz)) \<Rightarrow>
          (let dt = f_mul h0 (Fin (real T))
           in (f_add x (f_mul dt dx), f_add y (f_mul dt dy), f_add z (f_mul dt dz))))"

definition ex_params :: vec3 where
  "ex_params = (Fin 10, Fin (8 / 3), Fin 28)"

definition ex_box :: "vec3 \<Rightarrow> limits" where
  "ex_box ps = ((Fin (- 20), Fin 20), (Fin (- 30), Fin 30), (Fin 0, Fin 50))"

definition ex_draw3 :: "nat \<Rightarrow> vec3 ndarray" where
  "ex_draw3 i =
     \<lparr>shape = [1],
      elems = [if i = 0 then (Fin 0, Fin (1 / 2), Fin (1 / 2))
               else (Fin (3 / 4), Fin (1 / 2), Fin (1 / 4))]\<rparr>"

definition ex_lims :: "vec3 \<rightharpoonup> limits" where
  "ex_lims = [ex_params \<mapsto> ex_box ex_params]"

definition ex_lorenz :: Lorenz where
  "ex_lorenz =
     \<lparr>oshape = [2, 1], gshape = [1, 3], cascade = True, gens = 2,
      cgens = [\<lparr>shape = [1], elems = [(Fin (- 20), Fin 0, Fin 25)]\<rparr>,
               \<lparr>shape = [1], elems = [(Fin 10, Fin 0, Fin (25 / 2))]\<rparr>],
      params = ex_params, comp = 0, h = Fin (1 / 100)\<rparr>"

text \<open>
  The same generator for parameters with \<open>sigma = 0\<close>, for which the first coordinate
  of the flow is constant and the bounding box has \<open>min = max\<close> there.
\<close>

definition flat_params :: vec3 where
  "flat_params = (Fin 0, Fin (8 / 3), Fin 28)"

definition flat_box :: "vec3 \<Rightarrow> limits" where
  "flat_box ps = ((Fin (1 / 2), Fin (1 / 2)), (Fin (- 30), Fin 30), (Fin 0, Fin 50))"

definition flat_lims :: "vec3 \<rightharpoonup> limits" where
  "flat_lims = [flat_params \<mapsto> flat_box flat_params]"

definition flat_lorenz :: Lorenz where
  "flat_lorenz =
     \<lparr>oshape = [2, 1], gshape = [1, 3], cascade = True, gens = 2,
      cgens = [\<lparr>shape = [1], elems = [(Fin (1 / 2), Fin 0, Fin 25)]\<rparr>,
               \<lparr>shape = [1], elems = [(Fin (1 / 2), Fin 0, Fin (25 / 2))]\<rparr>],
      params = flat_params, comp = 0, h = Fin (1 / 100)\<rparr>"

text \<open>
  A Logistic generator outside cascade mode, owner shape \<open>(1, 2)\<close>, whose second slot
  holds only fixed points of \<open>4x(1-x)\<close>.
\<close>

definition plain_draw :: "nat \<Rightarrow> f64 ndarray" where
  "plain_draw i =
     (if i = 0 then \<lparr>shape = [1, 2], elems = [Fin (1 / 2), Fin (1 / 4)]\<rparr>
      else \<lparr>shape = [1, 2], elems = [Fin (3 / 4), Fin 0]\<rparr>)"

definition plain_logistic :: Logistic where
  "plain_logistic = Logistic_init [1, 2] False (Fin 4) 2 plain_draw"

text \<open>
  A Logistic generator in cascade mode for an owner with no particle: owner shape
  \<open>(0, 2)\<close>, so each slot has shape \<open>(2,)\<close>.
\<close>

definition empty_logistic :: Logistic where
  "empty_logistic = Logistic_init [0, 2] True (Fin 4) 2 ex_draw"

text \<open>
  Generators in cascade mode whose State Container holds only fixed points of the
  update: 0.75 and 0 for the Logistic map with \<open>r = 4\<close>, 0 for the Tent map, the
  origin for the Lorenz flow (and for its Euler step). On these values the float64
  operations of the two maps are exact.
\<close>

definition fixed_draw :: "nat \<Rightarrow> f64 ndarray" where
  "fixed_draw i = \<lparr>shape = [2], elems = [Fin (3 / 4), Fin 0]\<rparr>"

definition fixed_logistic :: Logistic where
  "fixed_logistic = Logistic_init [2, 2] True (Fin 4) 2 fixed_draw"

definition fixed_tent_draw :: "nat \<Rightarrow> f64 ndarray" where
  "fixed_tent_draw i = \<lparr>shape = [2], elems = [Fin 0, Fin 0]\<rparr>"

definition fixed_tent :: Tent where
  "fixed_tent = Tent_init [2, 2] True (Fin (49999 / 100000)) 2 fixed_tent_draw"

definition fixed_draw3 :: "nat \<Rightarrow> vec3 ndarray" where
  "fixed_draw3 i = \<lparr>shape = [1], elems = [(Fin (1 / 2), Fin (1 / 2), Fin 0)]\<rparr>"

definition fixed_lorenz :: Lorenz where
  "fixed_lorenz =
     \<lparr>oshape = [2, 1], gshape = [1, 3], cascade = True, gens = 2,
      cgens = [\<lparr>shape = [1], elems = [(Fin 0, Fin 0, Fin 0)]\<rparr>,
               \<lparr>shape = [1], elems = [(Fin 0, Fin 0, Fin 0)]\<rparr>],
      params = ex_params, comp = 0, h = Fin (1 / 100)\<rparr>"

section \<open>Auxiliary facts\<close>

lemma upt2: "[0..<2] = [0, Suc 0]"
  by (simp add: numeral_2_eq_2)

lemma ex_logistic_eq:
  "ex_logistic = \<lparr>oshape = [2, 2], gshape = [2], cascade = True, gens = 2,
     cgens = [\<lparr>shape = [2], elems = [Fin (1 / 2), Fin (1 / 4)]\<rparr>,
              \<lparr>shape = [2], elems = [Fin 0, Fin (3 / 4)]\<rparr>],
     r = Fin 4\<rparr>"
  by (simp add: ex_logistic_def Logistic_init_def ChaosGenerator_init_def ex_draw_def upt2)

lemma ex_tent_eq:
  "ex_tent = \<lparr>oshape = [2, 2], gshape = [2], cascade = True, gens = 2,
     cgens = [\<lparr>shape = [2], elems = [Fin (1 / 2), Fin (1 / 4)]\<rparr>,
              \<lparr>shape = [2], elems = [Fin 0, Fin (3 / 4)]\<rparr>],
     mu = Fin (49999 / 100000)\<rparr>"
  by (simp add: ex_tent_def Tent_init_def ChaosGenerator_init_def ex_draw_def upt2)

lemma ex_lorenz_init:
  "Lorenz_init ex_box Map.empty [2, 1] True ex_params 0 (Fin (1 / 100)) 2 ex_draw3
     = (Inr ex_lorenz, ex_lims)"
  by (simp add: Lorenz_init_def ChaosGenerator_init_def setLimits_def ex_box_def ex_draw3_def
      ex_lorenz_def ex_lims_def upt2 np_map_def rescale_def f_sub_def)

lemma flat_lorenz_init:
  "Lorenz_init flat_box Map.empty [2, 1] True flat_params 0 (Fin (1 / 100)) 2 ex_draw3
     = (Inr flat_lorenz, flat_lims)"
  by (simp add: Lorenz_init_def ChaosGenerator_init_def setLimits_def flat_box_def ex_draw3_def
      flat_lorenz_def flat_lims_def upt2 np_map_def rescale_def f_sub_def)

lemma py_index_bound: "py_index n i = Inr k \<Longrightarrow> k < n"
  by (auto simp: py_index_def split: if_splits)

lemma np_map_shape [simp]: "shape (np_map f a) = shape a"
  by (simp add: np_map_def)

lemma np_map_elems [simp]: "elems (np_map f a) = map f (elems a)"
  by (simp add: np_map_def)

lemma np_map_update: "a\<lparr>elems := map f (elems a)\<rparr> = np_map f (a :: 'a ndarray)"
  by (simp add: np_map_def)

lemma Logistic_init_wf:
  assumes "\<And>i. i < n \<Longrightarrow> wf_slot (if casc then tl osh else osh) (draw i)"
  shows "wf_gen (Logistic_init osh casc r0 n draw)"
  using assms
  by (auto simp: wf_gen_def Logistic_init_def ChaosGenerator_init_def cell_shape_def list_all_iff
      split: if_splits)

lemma Tent_init_wf:
  assumes "\<And>i. i < n \<Longrightarrow> wf_slot (if casc then tl osh else osh) (draw i)"
  shows "wf_gen (Tent_init osh casc mu0 n draw)"
  using assms
  by (auto simp: wf_gen_def Tent_init_def ChaosGenerator_init_def cell_shape_def list_all_iff
      split: if_splits)

lemma setLimits_defined: "setLimits box lims ps ps \<noteq> None"
  by (cases "lims ps") (simp_all add: setLimits_def del: not_None_eq)

lemma Lorenz_init_wf:
  assumes "Lorenz_init box lims osh casc ps cmp h0 n draw = (Inr g, lims')"
    and "\<And>i. i < n \<Longrightarrow> wf_slot (if casc then tl osh else osh) (draw i)"
    and "casc \<longrightarrow> osh \<noteq> []"
  shows "wf_gen g \<and> gshape g = cell_shape g @ [3] \<and> lims' (params g) \<noteq> None"
proof -
  obtain lm where lm: "setLimits box lims ps ps = Some lm"
    using setLimits_defined [of box lims ps] by blast
  from assms(1) lm have l: "lims' = setLimits box lims ps"
    and g: "g = \<lparr>oshape = osh, gshape = (if casc then tl (osh @ [3]) else osh @ [3]),
        cascade = casc, gens = n, cgens = map (np_map (rescale3 lm)) (map draw [0..<n]),
        params = ps, comp = cmp, h = h0\<rparr>"
    by (auto simp: Lorenz_init_def ChaosGenerator_init_def Let_def split: if_splits)
  have "wf_gen g"
    using assms(2) by (auto simp: g wf_gen_def wf_slot_def cell_shape_def list_all_iff)
  moreover have "gshape g = cell_shape g @ [3]"
    using assms(3) by (cases osh) (simp_all add: g cell_shape_def)
  moreover have "lims' (params g) \<noteq> None"
    using lm by (simp add: l g)
  ultimately show ?thesis by blast
qed

lemma Lorenz_init_empty_cascade:
  "Lorenz_init box lims [] True ps cmp h0 (Suc n) draw = (Inl IndexError, setLimits box lims ps)"
  by (simp add: Lorenz_init_def ChaosGenerator_init_def Let_def)

lemma evolveT_loop_upt:
  assumes "py_index (length (cgens g)) gind = Inr k"
    and "length (elems (cgens g ! k)) = N" and "j \<le> N"
  shows "evolveT_loop f [j..<N] g gind =
     Inr (g\<lparr>cgens := (cgens g)[k := (cgens g ! k)\<lparr>elems :=
        take j (elems (cgens g ! k)) @ map f (drop j (elems (cgens g ! k)))\<rparr>]\<rparr>)"
  using assms
proof (induction "N - j" arbitrary: g j)
  case 0
  then show ?case by simp
next
  case (Suc d)
  then have jN: "j < N" by simp
  have k: "k < length (cgens g)" using Suc.prems(1) by (rule py_index_bound)
  let ?a = "cgens g ! k"
  let ?g' = "g\<lparr>cgens := (cgens g)[k := ?a\<lparr>elems := (elems ?a)[j := f (elems ?a ! j)]\<rparr>]\<rparr>"
  have step: "evolveT_loop f [j..<N] g gind = evolveT_loop f [Suc j..<N] ?g' gind"
    using jN Suc.prems by (simp add: upt_conv_Cons Let_def)
  have IH: "evolveT_loop f [Suc j..<N] ?g' gind = Inr (?g'\<lparr>cgens := (cgens ?g')[k := (cgens ?g' ! k)\<lparr>elems :=
        take (Suc j) (elems (cgens ?g' ! k)) @ map f (drop (Suc j) (elems (cgens ?g' ! k)))\<rparr>]\<rparr>)"
    apply (rule Suc.hyps(1))
    using Suc.hyps(2) Suc.prems jN k by auto
  have "take (Suc j) ((elems ?a)[j := f (elems ?a ! j)]) @ map f (drop (Suc j) ((elems ?a)[j := f (elems ?a ! j)]))
      = take j (elems ?a) @ map f (drop j (elems ?a))"
    using jN Suc.prems(2)
    by (simp add: take_Suc_conv_app_nth Cons_nth_drop_Suc[symmetric])
  then show ?case using step IH k by simp
qed

lemma Logistic_evolve_eq:
  "py_index (length (cgens g)) gind = Inr k \<Longrightarrow>
   Logistic_evolve g gind =
     Inr (cgens g ! k, g\<lparr>cgens := (cgens g)[k := np_map (logistic_map (r g)) (cgens g ! k)]\<rparr>)"
  by (simp add: Logistic_evolve_def)

lemma Tent_evolve_eq:
  "py_index (length (cgens g)) gind = Inr k \<Longrightarrow>
   Tent_evolve g gind =
     Inr (cgens g ! k, g\<lparr>cgens := (cgens g)[k := np_map (tent_map (mu g)) (cgens g ! k)]\<rparr>)"
  by (simp add: Tent_evolve_def)

lemma Lorenz_evolveT_eq:
  assumes "py_index (length (cgens g)) gind = Inr k"
    and "length (elems (cgens g ! k)) = prod_list (butlast (gshape g))"
  shows "Lorenz_evolveT ode g gind T =
     Inr (g\<lparr>cgens := (cgens g)[k := np_map (ode (params g) (h g) T) (cgens g ! k)]\<rparr>)"
  using evolveT_loop_upt [OF assms(1) assms(2), of 0 "ode (params g) (h g) T"]
  by (simp add: Lorenz_evolveT_def np_map_update)

lemma Lorenz_evolve_eq:
  assumes "py_index (length (cgens g)) gind = Inr k"
    and "py_index 3 (comp g) = Inr c"
    and "lims (params g) = Some lm"
    and "length (elems (cgens g ! k)) = prod_list (butlast (gshape g))"
  shows "Lorenz_evolve ode lims g gind =
     Inr (np_map (export c lm) (cgens g ! k),
          g\<lparr>cgens := (cgens g)[k := np_map (ode (params g) (h g) 1) (cgens g ! k)]\<rparr>)"
  using assms Lorenz_evolveT_eq [OF assms(1) assms(4), of ode 1]
  by (simp add: Lorenz_evolve_def)

lemma map_upt_shift: "f 0 # map (\<lambda>p. f (Suc p)) [0..<m] = map f [0..<Suc m]"
proof -
  have "[0..<Suc m] = 0 # map Suc [0..<m]"
    by (subst upt_rec) (simp add: map_Suc_upt del: upt_Suc)
  then show ?thesis by (simp add: o_def del: upt_Suc)
qed

lemma for_each_slot:
  assumes ev: "\<And>cs. I cs \<Longrightarrow>
      ev (g\<lparr>cgens := cs\<rparr>) gind = Inr (obs (cs ! k), g\<lparr>cgens := cs[k := step (cs ! k)]\<rparr>)
      \<and> I (cs[k := step (cs ! k)])"
    and len: "\<And>cs. I cs \<Longrightarrow> k < length cs"
  shows "I cs \<Longrightarrow> for_each (\<lambda>g' i. ev g' gind) (g\<lparr>cgens := cs\<rparr>) [j..<j + m] =
      Inr (map (\<lambda>p. obs ((step ^^ p) (cs ! k))) [0..<m],
           g\<lparr>cgens := cs[k := (step ^^ m) (cs ! k)]\<rparr>)"
proof (induction m arbitrary: cs j)
  case 0
  from len [OF 0] show ?case by (simp add: list_update_same_conv)
next
  case (Suc m)
  let ?cs = "cs[k := step (cs ! k)]"
  from ev [OF Suc.prems] have e: "ev (g\<lparr>cgens := cs\<rparr>) gind = Inr (obs (cs ! k), g\<lparr>cgens := ?cs\<rparr>)"
    and I: "I ?cs" by simp_all
  have k: "k < length cs" by (rule len [OF Suc.prems])
  have nk: "?cs ! k = step (cs ! k)" using k by simp
  have rows: "obs (cs ! k) # map (\<lambda>p. obs ((step ^^ p) (step (cs ! k)))) [0..<m]
      = map (\<lambda>p. obs ((step ^^ p) (cs ! k))) [0..<Suc m]"
    using map_upt_shift [of "\<lambda>p. obs ((step ^^ p) (cs ! k))" m]
    by (simp add: funpow_swap1 del: upt_Suc)
  have u: "[j..<j + Suc m] = j # [Suc j..<Suc (j + m)]"
    by (simp add: upt_conv_Cons del: upt_Suc)
  have ih: "for_each (\<lambda>g' i. ev g' gind) (g\<lparr>cgens := ?cs\<rparr>) [Suc j..<Suc (j + m)] =
      Inr (map (\<lambda>p. obs ((step ^^ p) (?cs ! k))) [0..<m],
           g\<lparr>cgens := ?cs[k := (step ^^ m) (?cs ! k)]\<rparr>)"
    using Suc.IH [OF I, of "Suc j"] by simp
  show ?case
    unfolding u using rows by (simp add: e ih nk funpow_swap1 del: upt_Suc)
qed

lemma np_array_uniform:
  "list_all (\<lambda>b. shape b = s) rows \<Longrightarrow>
   np_array rows =
     Inr \<lparr>shape = (if rows = [] then [0] else length rows # s), elems = concat (map elems rows)\<rparr>"
  by (cases rows) (auto simp: np_array_def list_all_iff)

lemma funpow_shape:
  assumes "\<And>a. shape (step a) = shape (a :: 'a ndarray)"
  shows "shape (((step :: 'a ndarray \<Rightarrow> 'a ndarray) ^^ p) a) = shape a"
  by (induction p) (simp_all add: assms)

lemma funpow_np_map: "(np_map f ^^ p) a = np_map ((f :: 'a \<Rightarrow> 'a) ^^ p) (a :: 'a ndarray)"
  by (induction p) (simp_all add: np_map_def)

lemma chaosPoints_gno_cascade:
  assumes ev: "\<And>cs. I cs \<Longrightarrow>
      ev (g\<lparr>cgens := cs\<rparr>) (gno - 1) = Inr (obs (cs ! k), g\<lparr>cgens := cs[k := step (cs ! k)]\<rparr>)
      \<and> I (cs[k := step (cs ! k)])"
    and len: "\<And>cs. I cs \<Longrightarrow> k < length cs"
    and obs: "\<And>a. shape (obs a) = shape a"
    and step: "\<And>a. shape (step a) = shape a"
    and casc: "cascade g" "oshape g = P # rest"
    and I: "I cs"
  shows "chaosPoints_gno ev (g\<lparr>cgens := cs\<rparr>) gno =
     Inr (\<lparr>shape = (if P = 0 then [0] else P # shape (cs ! k)),
           elems = concat (map (\<lambda>p. elems (obs ((step ^^ p) (cs ! k)))) [0..<P])\<rparr>,
          g\<lparr>cgens := cs[k := (step ^^ P) (cs ! k)]\<rparr>)"
proof -
  let ?rows = "map (\<lambda>p. obs ((step ^^ p) (cs ! k))) [0..<P]"
  have t: "for_each (\<lambda>g' i. ev g' (gno - 1)) (g\<lparr>cgens := cs\<rparr>) [0..<P] =
      Inr (?rows, g\<lparr>cgens := cs[k := (step ^^ P) (cs ! k)]\<rparr>)"
    using for_each_slot [of I ev g "gno - 1" obs k step cs 0 P, OF ev len I] by simp
  have "list_all (\<lambda>b. shape b = shape (cs ! k)) ?rows"
    by (simp add: list_all_iff obs funpow_shape [of step, OF step])
  from np_array_uniform [OF this]
  have a: "np_array ?rows = Inr \<lparr>shape = (if P = 0 then [0] else P # shape (cs ! k)),
      elems = concat (map (\<lambda>p. elems (obs ((step ^^ p) (cs ! k)))) [0..<P])\<rparr>"
    by (simp add: o_def)
  show ?thesis
    by (simp add: chaosPoints_gno_def casc t a)
qed

lemma chaosPoints_gno_plain:
  "\<not> cascade g \<Longrightarrow> chaosPoints_gno ev g gno = ev g (gno - 1)"
  by (simp add: chaosPoints_gno_def)

lemma for_each_all_slots:
  assumes one: "\<And>cs i. I cs \<Longrightarrow> i < n \<Longrightarrow>
      chaosPoints_gno ev (g\<lparr>cgens := cs\<rparr>) (int i + 1) =
        Inr (out (cs ! i), g\<lparr>cgens := cs[i := adv (cs ! i)]\<rparr>)
      \<and> I (cs[i := adv (cs ! i)])"
    and len: "\<And>cs. I cs \<Longrightarrow> length cs = n"
  shows "I cs \<Longrightarrow> j \<le> n \<Longrightarrow>
      for_each (\<lambda>g' i. chaosPoints_gno ev g' (int i + 1)) (g\<lparr>cgens := cs\<rparr>) [j..<n] =
      Inr (map out (drop j cs), g\<lparr>cgens := take j cs @ map adv (drop j cs)\<rparr>)"
proof (induction "n - j" arbitrary: cs j)
  case 0
  then show ?case using len [of cs] by simp
next
  case (Suc d)
  then have jn: "j < n" by simp
  have l: "length cs = n" by (rule len [OF Suc.prems(1)])
  let ?cs = "cs[j := adv (cs ! j)]"
  from one [OF Suc.prems(1) jn]
  have e: "chaosPoints_gno ev (g\<lparr>cgens := cs\<rparr>) (int j + 1) = Inr (out (cs ! j), g\<lparr>cgens := ?cs\<rparr>)"
    and I: "I ?cs" by simp_all
  have IH: "for_each (\<lambda>g' i. chaosPoints_gno ev g' (int i + 1)) (g\<lparr>cgens := ?cs\<rparr>) [Suc j..<n] =
      Inr (map out (drop (Suc j) ?cs), g\<lparr>cgens := take (Suc j) ?cs @ map adv (drop (Suc j) ?cs)\<rparr>)"
    using Suc.hyps(2) jn by (intro Suc.hyps(1) I) simp_all
  have d: "drop j cs = cs ! j # drop (Suc j) cs"
    using jn l by (simp add: Cons_nth_drop_Suc)
  have t: "take (Suc j) ?cs = take j cs @ [adv (cs ! j)]"
    using jn l by (simp add: take_Suc_conv_app_nth)
  show ?case
    using jn by (simp add: upt_conv_Cons e IH d t)
qed

lemma Lorenz_evolve_ret:
  assumes "Lorenz_evolve ode lims g gind = Inr (ret, g')"
  shows "\<exists>k c lm. py_index (length (cgens g)) gind = Inr k \<and> py_index 3 (comp g) = Inr c
     \<and> lims (params g) = Some lm \<and> ret = np_map (export c lm) (cgens g ! k)"
  using assms
  by (auto simp: Lorenz_evolve_def split: sum.splits option.splits)

lemma export_finite:
  assumes "nth3 c lm = (Fin mn, Fin mx)" and "mn < mx" and "nth3 c v = Fin s"
  shows "export c lm v =
     Fin (if (s - mn) / (mx - mn) < 0 then 1 / 100000
          else if 1 < (s - mn) / (mx - mn) then 1 - 1 / 100000
          else (s - mn) / (mx - mn))"
proof -
  define n where "n = (s - mn) / (mx - mn)"
  have "normalise (Fin mn) (Fin mx) (Fin s) = Fin n"
    using assms(2) by (simp add: normalise_def f_sub_def n_def)
  moreover have "clamp_low (Fin n) = Fin (if n < 0 then 1 / 100000 else n)"
    by (auto simp: clamp_low_def f_lt_def eps_def)
  moreover have "clamp_high (Fin (if n < 0 then 1 / 100000 else n)) =
      Fin (if n < 0 then 1 / 100000 else if 1 < n then 1 - 1 / 100000 else n)"
    by (auto simp: clamp_high_def f_gt_def f_lt_def f_sub_def eps_def)
  ultimately show ?thesis
    using assms(1,3) by (simp add: export_def n_def)
qed

lemma export_finite_unit:
  assumes "nth3 c lm = (Fin mn, Fin mx)" and "mn < mx" and "nth3 c v = Fin s"
  shows "in_unit (export c lm v)"
  unfolding export_finite [OF assms]
  by (simp add: in_unit_def)

lemma export_degenerate:
  assumes "nth3 c lm = (Fin m, Fin m)"
  shows "export c lm v =
     (if f_lt (nth3 c v) (Fin m) then eps
      else if f_gt (nth3 c v) (Fin m) then f_sub (Fin 1) eps
      else NaN)"
  using assms
  by (cases "nth3 c v")
    (auto simp: export_def normalise_def clamp_low_def clamp_high_def f_sub_def f_lt_def f_gt_def eps_def sgn_real_def)

lemma ex_lorenz_step:
  "Lorenz_evolve euler_step ex_lims ex_lorenz 0 =
     Inr (\<lparr>shape = [1], elems = [Fin 0]\<rparr>,
          ex_lorenz\<lparr>cgens := [\<lparr>shape = [1], elems = [(Fin (- 18), Fin (- (3 / 5)), Fin (73 / 3))]\<rparr>,
                               \<lparr>shape = [1], elems = [(Fin 10, Fin 0, Fin (25 / 2))]\<rparr>]\<rparr>)"
  by (simp add: Lorenz_evolve_def Lorenz_evolveT_def py_index_def ex_lorenz_def ex_lims_def
      ex_box_def ex_params_def np_map_def export_def normalise_def clamp_low_def clamp_high_def
      f_sub_def f_lt_def f_gt_def eps_def euler_step_def)

lemma flat_lorenz_step:
  "Lorenz_evolve euler_step flat_lims flat_lorenz 0 =
     Inr (\<lparr>shape = [1], elems = [NaN]\<rparr>,
          flat_lorenz\<lparr>cgens := [\<lparr>shape = [1], elems = [(Fin (1 / 2), Fin (3 / 200), Fin (73 / 3))]\<rparr>,
                                 \<lparr>shape = [1], elems = [(Fin (1 / 2), Fin 0, Fin (25 / 2))]\<rparr>]\<rparr>)"
  by (simp add: Lorenz_evolve_def Lorenz_evolveT_def py_index_def flat_lorenz_def flat_lims_def
      flat_box_def flat_params_def np_map_def export_def normalise_def clamp_low_def clamp_high_def
      f_sub_def f_lt_def f_gt_def eps_def euler_step_def)

lemma tent_map_finite_le:
  "x \<le> m \<Longrightarrow> m \<noteq> 0 \<Longrightarrow> tent_map (Fin m) (Fin x) = Fin (x / m)"
  by (simp add: tent_map_def)

lemma tent_map_finite_gt:
  "m < x \<Longrightarrow> m \<noteq> 1 \<Longrightarrow> tent_map (Fin m) (Fin x) = Fin ((1 - x) / (1 - m))"
  by (simp add: tent_map_def f_sub_def)

lemma evolveT_loop_frame:
  assumes "evolveT_loop f pts g gind = Inr g'" and "py_index (length (cgens g)) gind = Inr k"
  shows "g' = g\<lparr>cgens := (cgens g)[k := cgens g' ! k]\<rparr>"
  using assms
proof (induction pts arbitrary: g)
  case Nil
  then show ?case by (simp add: list_update_id)
next
  case (Cons pt pts)
  let ?a = "cgens g ! k"
  let ?g1 = "g\<lparr>cgens := (cgens g)[k := ?a\<lparr>elems := (elems ?a)[pt := f (elems ?a ! pt)]\<rparr>]\<rparr>"
  from Cons.prems have pt: "pt < length (elems ?a)" and r: "evolveT_loop f pts ?g1 gind = Inr g'"
    by (auto simp: Let_def split: if_splits)
  have "py_index (length (cgens ?g1)) gind = Inr k" using Cons.prems(2) by simp
  from Cons.IH [OF r this] have "g' = ?g1\<lparr>cgens := (cgens ?g1)[k := cgens g' ! k]\<rparr>" .
  then show ?case by simp
qed

lemma Lorenz_evolve_frame:
  assumes "Lorenz_evolve ode lims g gind = Inr (ret, g')"
  shows "\<exists>k c lm. py_index (length (cgens g)) gind = Inr k \<and> py_index 3 (comp g) = Inr c
     \<and> lims (params g) = Some lm \<and> ret = np_map (export c lm) (cgens g ! k)
     \<and> g' = g\<lparr>cgens := (cgens g)[k := cgens g' ! k]\<rparr>"
proof -
  from Lorenz_evolve_ret [OF assms] obtain k c lm where
    k: "py_index (length (cgens g)) gind = Inr k" and c: "py_index 3 (comp g) = Inr c"
    and lm: "lims (params g) = Some lm" and ret: "ret = np_map (export c lm) (cgens g ! k)"
    by blast
  from assms k c lm have "Lorenz_evolveT ode g gind 1 = Inr g'"
    by (simp add: Lorenz_evolve_def split: sum.splits)
  then have "g' = g\<lparr>cgens := (cgens g)[k := cgens g' ! k]\<rparr>"
    unfolding Lorenz_evolveT_def using k by (rule evolveT_loop_frame)
  with k c lm ret show ?thesis by blast
qed

lemma ex_logistic_step:
  "Logistic_evolve ex_logistic 0 =
     Inr (\<lparr>shape = [2], elems = [Fin (1 / 2), Fin (1 / 4)]\<rparr>,
          ex_logistic\<lparr>cgens := [\<lparr>shape = [2], elems = [Fin 1, Fin (3 / 4)]\<rparr>,
                                \<lparr>shape = [2], elems = [Fin 0, Fin (3 / 4)]\<rparr>]\<rparr>)"
  by (simp add: Logistic_evolve_def py_index_def ex_logistic_eq np_map_def logistic_map_def f_sub_def)

lemma ex_tent_step:
  "Tent_evolve ex_tent 0 =
     Inr (\<lparr>shape = [2], elems = [Fin (1 / 2), Fin (1 / 4)]\<rparr>,
          ex_tent\<lparr>cgens := [\<lparr>shape = [2], elems = [Fin (50000 / 50001), Fin (25000 / 49999)]\<rparr>,
                            \<lparr>shape = [2], elems = [Fin 0, Fin (3 / 4)]\<rparr>]\<rparr>)"
  by (simp add: Tent_evolve_def py_index_def ex_tent_eq np_map_def tent_map_def f_sub_def)

lemma logistic_unit: "in_unit x \<Longrightarrow> in_unit (logistic_map (Fin 4) x)"
proof (cases x)
  case (Fin v)
  assume "in_unit x"
  with Fin have v: "0 \<le> v" "v \<le> 1" by (simp_all add: in_unit_def)
  have "0 \<le> (2 * v - 1)\<^sup>2" by simp
  then have "4 * v * (1 - v) \<le> 1" by (simp add: power2_eq_square algebra_simps)
  moreover have "0 \<le> 4 * v * (1 - v)" using v by simp
  ultimately show ?thesis using Fin by (simp add: logistic_map_def f_sub_def in_unit_def)
qed (simp_all add: in_unit_def)

lemma tent_unit: "in_unit x \<Longrightarrow> in_unit (tent_map (Fin (49999 / 100000)) x)"
proof (cases x)
  case (Fin v)
  assume "in_unit x"
  with Fin have v: "0 \<le> v" "v \<le> 1" by (simp_all add: in_unit_def)
  show ?thesis
  proof (cases "v \<le> 49999 / 100000")
    case True
    with v Fin show ?thesis by (simp add: tent_map_def in_unit_def)
  next
    case False
    with v Fin show ?thesis by (simp add: tent_map_def in_unit_def f_sub_def)
  qed
qed (simp_all add: in_unit_def)

lemma for_each_invariant:
  assumes step: "\<And>g i x g'. Q g \<Longrightarrow> f g i = Inr (x, g') \<Longrightarrow> P x \<and> Q g'"
  shows "Q g \<Longrightarrow> for_each f g is = Inr (xs, g') \<Longrightarrow> list_all P xs \<and> Q g'"
proof (induction "is" arbitrary: g xs)
  case Nil
  then show ?case by simp
next
  case (Cons i "is")
  from Cons.prems(2) obtain x g1 ys where
    a: "f g i = Inr (x, g1)" and b: "for_each f g1 is = Inr (ys, g')" and c: "xs = x # ys"
    by (auto split: sum.splits)
  from step [OF Cons.prems(1) a] have "P x" "Q g1" by simp_all
  with Cons.IH [OF \<open>Q g1\<close> b] c show ?case by simp
qed

lemma np_array_all_elems:
  assumes "np_array rows = Inr out" and "list_all (all_elems P) rows"
  shows "all_elems P out"
  using assms
  by (cases rows) (auto simp: np_array_def all_elems_def list_all_iff split: if_splits)

lemma chaosPoints_gno_invariant:
  assumes step: "\<And>g i x g'. Q g \<Longrightarrow> ev g i = Inr (x, g') \<Longrightarrow> all_elems P x \<and> Q g'"
    and "Q g" and "chaosPoints_gno ev g gno = Inr (out, g')"
  shows "all_elems P out \<and> Q g'"
proof (cases "cascade g")
  case False
  with assms(3) have "ev g (gno - 1) = Inr (out, g')" by (simp add: chaosPoints_gno_def)
  from step [OF assms(2) this] show ?thesis .
next
  case True
  with assms(3) obtain np rest rows where
    r: "for_each (\<lambda>g' i. ev g' (gno - 1)) g [0..<np] = Inr (rows, g')"
    and o: "np_array rows = Inr out"
    by (auto simp: chaosPoints_gno_def split: list.splits sum.splits)
  have "list_all (all_elems P) rows \<and> Q g'"
    using assms(2) r
    by (rule for_each_invariant [where Q = Q and f = "\<lambda>g' i. ev g' (gno - 1)", rotated 1])
      (rule step)
  with np_array_all_elems [OF o] show ?thesis by simp
qed

lemma chaosPoints_invariant:
  assumes step: "\<And>g i x g'. Q g \<Longrightarrow> ev g i = Inr (x, g') \<Longrightarrow> all_elems P x \<and> Q g'"
    and "Q g" and "chaosPoints ev g gno = Inr (out, g')"
  shows "all_elems P out \<and> Q g'"
proof (cases "gno = 0")
  case False
  with assms(3) have "chaosPoints_gno ev g gno = Inr (out, g')" by (simp add: chaosPoints_def)
  from chaosPoints_gno_invariant [of Q ev P, OF step assms(2) this] show ?thesis .
next
  case True
  with assms(3) obtain outs where
    r: "for_each (\<lambda>g' i. chaosPoints_gno ev g' (int i + 1)) g [0..<gens g] = Inr (outs, g')"
    and o: "np_array outs = Inr out"
    by (auto simp: chaosPoints_def split: sum.splits)
  have "list_all (all_elems P) outs \<and> Q g'"
    using assms(2) r
    by (rule for_each_invariant [where Q = Q and f = "\<lambda>g' i. chaosPoints_gno ev g' (int i + 1)", rotated 1])
      (rule chaosPoints_gno_invariant [of Q ev P, OF step])
  with np_array_all_elems [OF o] show ?thesis by simp
qed

lemma produce_many_invariant:
  assumes step: "\<And>g i x g'. Q g \<Longrightarrow> ev g i = Inr (x, g') \<Longrightarrow> all_elems P x \<and> Q g'"
    and "Q g" and "produce_many ev g gnos = Inr (outs, g')"
  shows "list_all (all_elems P) outs \<and> Q g'"
  using assms(2) assms(3) unfolding produce_many_def
  by (rule for_each_invariant [where Q = Q and f = "chaosPoints ev", rotated 1])
    (rule chaosPoints_invariant [of Q ev P, OF step])

lemma all_state_update:
  assumes "all_state P g" and "k < length (cgens g)" and "\<And>x. P x \<Longrightarrow> P (f x)"
  shows "all_elems P (cgens g ! k)
     \<and> all_state P (g\<lparr>cgens := (cgens g)[k := np_map f (cgens g ! k)]\<rparr>)"
proof -
  have a: "all_elems P (cgens g ! k)"
    using assms(1,2) by (simp add: all_state_def list_all_length)
  then have "all_elems P (np_map f (cgens g ! k))"
    using assms(3) by (auto simp: all_elems_def list_all_iff)
  with assms(1,2) have "all_state P (g\<lparr>cgens := (cgens g)[k := np_map f (cgens g ! k)]\<rparr>)"
    by (auto simp: all_state_def list_all_length nth_list_update)
  with a show ?thesis by simp
qed

lemma Logistic_evolve_unit:
  assumes "r g = Fin 4 \<and> all_state in_unit g" and "Logistic_evolve g i = Inr (x, g')"
  shows "all_elems in_unit x \<and> (r g' = Fin 4 \<and> all_state in_unit g')"
proof -
  from assms(2) obtain k where k: "py_index (length (cgens g)) i = Inr k"
    by (auto simp: Logistic_evolve_def split: sum.splits)
  have "Inr (x, g') = (Inr (cgens g ! k,
      g\<lparr>cgens := (cgens g)[k := np_map (logistic_map (r g)) (cgens g ! k)]\<rparr>) :: py_error + _)"
    by (rule trans [OF assms(2) [symmetric] Logistic_evolve_eq [OF k]])
  then have x: "x = cgens g ! k"
    and g': "g' = g\<lparr>cgens := (cgens g)[k := np_map (logistic_map (r g)) (cgens g ! k)]\<rparr>"
    by simp_all
  from all_state_update [of in_unit g k "logistic_map (Fin 4)"] assms(1) py_index_bound [OF k]
  show ?thesis unfolding x g' by (simp add: logistic_unit)
qed

lemma Tent_evolve_unit:
  assumes "mu g = Fin (49999 / 100000) \<and> all_state in_unit g" and "Tent_evolve g i = Inr (x, g')"
  shows "all_elems in_unit x \<and> (mu g' = Fin (49999 / 100000) \<and> all_state in_unit g')"
proof -
  from assms(2) obtain k where k: "py_index (length (cgens g)) i = Inr k"
    by (auto simp: Tent_evolve_def split: sum.splits)
  have "Inr (x, g') = (Inr (cgens g ! k,
      g\<lparr>cgens := (cgens g)[k := np_map (tent_map (mu g)) (cgens g ! k)]\<rparr>) :: py_error + _)"
    by (rule trans [OF assms(2) [symmetric] Tent_evolve_eq [OF k]])
  then have x: "x = cgens g ! k"
    and g': "g' = g\<lparr>cgens := (cgens g)[k := np_map (tent_map (mu g)) (cgens g ! k)]\<rparr>"
    by simp_all
  from all_state_update [of in_unit g k "tent_map (Fin (49999 / 100000))"] assms(1) py_index_bound [OF k]
  show ?thesis unfolding x g' by (simp add: tent_unit)
qed

lemma ex_logistic_run:
  "produce_many Logistic_evolve ex_logistic [1, 2] =
     Inr ([\<lparr>shape = [2, 2], elems = [Fin (1 / 2), Fin (1 / 4), Fin 1, Fin (3 / 4)]\<rparr>,
           \<lparr>shape = [2, 2], elems = [Fin 0, Fin (3 / 4), Fin 0, Fin (3 / 4)]\<rparr>],
          ex_logistic\<lparr>cgens := [\<lparr>shape = [2], elems = [Fin 0, Fin (3 / 4)]\<rparr>,
                                \<lparr>shape = [2], elems = [Fin 0, Fin (3 / 4)]\<rparr>]\<rparr>)"
  by (simp add: produce_many_def chaosPoints_def chaosPoints_gno_def Logistic_evolve_def
      py_index_def ex_logistic_eq np_map_def np_array_def logistic_map_def f_sub_def upt2)

lemma ex_tent_run:
  "produce_many Tent_evolve ex_tent [1, 2] =
     Inr ([\<lparr>shape = [2, 2],
            elems = [Fin (1 / 2), Fin (1 / 4), Fin (50000 / 50001), Fin (25000 / 49999)]\<rparr>,
           \<lparr>shape = [2, 2], elems = [Fin 0, Fin (3 / 4), Fin 0, Fin (25000 / 50001)]\<rparr>],
          ex_tent\<lparr>cgens :=
            [\<lparr>shape = [2], elems = [Fin (100000 / 2500100001), Fin (833300000 / 833333333)]\<rparr>,
             \<lparr>shape = [2], elems = [Fin 0, Fin (2500100000 / 2500100001)]\<rparr>]\<rparr>)"
  by (simp add: produce_many_def chaosPoints_def chaosPoints_gno_def Tent_evolve_def py_index_def
      ex_tent_eq np_map_def np_array_def tent_map_def f_sub_def upt2)

lemma ex_unit:
  "r ex_logistic = Fin 4" "all_state in_unit ex_logistic"
  "mu ex_tent = Fin (49999 / 100000)" "all_state in_unit ex_tent"
  by (simp_all add: ex_logistic_eq ex_tent_eq all_state_def all_elems_def in_unit_def)

lemma chaosPoints_gno_np:
  assumes ev: "\<And>cs. I cs \<Longrightarrow>
      ev (g\<lparr>cgens := cs\<rparr>) (gno - 1) =
        Inr (np_map e (cs ! k), g\<lparr>cgens := cs[k := np_map f (cs ! k)]\<rparr>)
      \<and> I (cs[k := np_map f (cs ! k)])"
    and len: "\<And>cs. I cs \<Longrightarrow> k < length cs"
    and osh: "cascade g \<longrightarrow> oshape g \<noteq> []"
    and I: "I cs"
  shows "chaosPoints_gno ev (g\<lparr>cgens := cs\<rparr>) gno =
     Inr (slot_out (cascade g) (oshape g) e f (cs ! k),
          g\<lparr>cgens := cs[k := slot_next (cascade g) (oshape g) f (cs ! k)]\<rparr>)"
proof (cases "cascade g")
  case False
  then show ?thesis
    using ev [OF I] by (simp add: chaosPoints_gno_def slot_out_def slot_next_def)
next
  case True
  with osh obtain np rest where o: "oshape g = np # rest" by (cases "oshape g") auto
  have "chaosPoints_gno ev (g\<lparr>cgens := cs\<rparr>) gno =
     Inr (\<lparr>shape = (if np = 0 then [0] else np # shape (cs ! k)),
           elems = concat (map (\<lambda>p. elems (np_map e ((np_map f ^^ p) (cs ! k)))) [0..<np])\<rparr>,
          g\<lparr>cgens := cs[k := (np_map f ^^ np) (cs ! k)]\<rparr>)"
    using ev len _ _ True o I
    by (rule chaosPoints_gno_cascade [where obs = "np_map e" and step = "np_map f"]) simp_all
  then show ?thesis
    using True o by (simp add: slot_out_def slot_next_def cascade_out_def funpow_np_map o_def)
qed

lemma Logistic_I:
  assumes "py_index n gind = Inr k" and "length cs = n"
  shows "Logistic_evolve (g\<lparr>cgens := cs\<rparr>) gind =
        Inr (np_map (\<lambda>x. x) (cs ! k), g\<lparr>cgens := cs[k := np_map (logistic_map (r g)) (cs ! k)]\<rparr>)
      \<and> length (cs[k := np_map (logistic_map (r g)) (cs ! k)]) = n"
  using assms Logistic_evolve_eq [of "g\<lparr>cgens := cs\<rparr>" gind k]
  by (simp add: np_map_def)

lemma Tent_I:
  assumes "py_index n gind = Inr k" and "length cs = n"
  shows "Tent_evolve (g\<lparr>cgens := cs\<rparr>) gind =
        Inr (np_map (\<lambda>x. x) (cs ! k), g\<lparr>cgens := cs[k := np_map (tent_map (mu g)) (cs ! k)]\<rparr>)
      \<and> length (cs[k := np_map (tent_map (mu g)) (cs ! k)]) = n"
  using assms Tent_evolve_eq [of "g\<lparr>cgens := cs\<rparr>" gind k]
  by (simp add: np_map_def)

lemma Logistic_chaosPoints_gno:
  assumes "py_index (length (cgens g)) (gno - 1) = Inr k" and "cascade g \<longrightarrow> oshape g \<noteq> []"
  shows "chaosPoints_gno Logistic_evolve g gno =
     Inr (slot_out (cascade g) (oshape g) (\<lambda>x. x) (logistic_map (r g)) (cgens g ! k),
          g\<lparr>cgens := (cgens g)[k := slot_next (cascade g) (oshape g) (logistic_map (r g)) (cgens g ! k)]\<rparr>)"
  using chaosPoints_gno_np [where I = "\<lambda>cs. length cs = length (cgens g)" and ev = Logistic_evolve
      and g = g and gno = gno and e = "\<lambda>x. x" and f = "logistic_map (r g)" and k = k and cs = "cgens g"]
    Logistic_I [OF assms(1)] py_index_bound [OF assms(1)] assms(2)
  by simp

lemma Tent_chaosPoints_gno:
  assumes "py_index (length (cgens g)) (gno - 1) = Inr k" and "cascade g \<longrightarrow> oshape g \<noteq> []"
  shows "chaosPoints_gno Tent_evolve g gno =
     Inr (slot_out (cascade g) (oshape g) (\<lambda>x. x) (tent_map (mu g)) (cgens g ! k),
          g\<lparr>cgens := (cgens g)[k := slot_next (cascade g) (oshape g) (tent_map (mu g)) (cgens g ! k)]\<rparr>)"
  using chaosPoints_gno_np [where I = "\<lambda>cs. length cs = length (cgens g)" and ev = Tent_evolve
      and g = g and gno = gno and e = "\<lambda>x. x" and f = "tent_map (mu g)" and k = k and cs = "cgens g"]
    Tent_I [OF assms(1)] py_index_bound [OF assms(1)] assms(2)
  by simp

lemma Lorenz_I:
  assumes "py_index n gind = Inr k" and "py_index 3 (comp g) = Inr c"
    and "lims (params g) = Some lm"
    and "length cs = n \<and> list_all (\<lambda>a. length (elems a) = prod_list (butlast (gshape g))) cs"
  shows "Lorenz_evolve ode lims (g\<lparr>cgens := cs\<rparr>) gind =
        Inr (np_map (export c lm) (cs ! k),
             g\<lparr>cgens := cs[k := np_map (ode (params g) (h g) 1) (cs ! k)]\<rparr>)
      \<and> (length (cs[k := np_map (ode (params g) (h g) 1) (cs ! k)]) = n
         \<and> list_all (\<lambda>a. length (elems a) = prod_list (butlast (gshape g)))
             (cs[k := np_map (ode (params g) (h g) 1) (cs ! k)]))"
proof -
  have k: "k < length cs" using assms(1,4) py_index_bound by blast
  then have l: "length (elems (cs ! k)) = prod_list (butlast (gshape g))"
    using assms(4) by (simp add: list_all_length)
  have "Lorenz_evolve ode lims (g\<lparr>cgens := cs\<rparr>) gind =
        Inr (np_map (export c lm) (cs ! k),
             g\<lparr>cgens := cs[k := np_map (ode (params g) (h g) 1) (cs ! k)]\<rparr>)"
    using Lorenz_evolve_eq [where g = "g\<lparr>cgens := cs\<rparr>" and gind = gind and k = k and c = c
        and lims = lims and lm = lm and ode = ode] assms l
    by simp
  moreover have "list_all (\<lambda>a. length (elems a) = prod_list (butlast (gshape g)))
             (cs[k := np_map (ode (params g) (h g) 1) (cs ! k)])"
    using assms(4) k l by (auto simp: list_all_length nth_list_update)
  ultimately show ?thesis using assms(4) by simp
qed

lemma Lorenz_chaosPoints_gno:
  assumes "py_index (length (cgens g)) (gno - 1) = Inr k" and "py_index 3 (comp g) = Inr c"
    and "lims (params g) = Some lm"
    and "list_all (\<lambda>a. length (elems a) = prod_list (butlast (gshape g))) (cgens g)"
    and "cascade g \<longrightarrow> oshape g \<noteq> []"
  shows "chaosPoints_gno (Lorenz_evolve ode lims) g gno =
     Inr (slot_out (cascade g) (oshape g) (export c lm) (ode (params g) (h g) 1) (cgens g ! k),
          g\<lparr>cgens := (cgens g)[k := slot_next (cascade g) (oshape g) (ode (params g) (h g) 1) (cgens g ! k)]\<rparr>)"
proof -
  let ?I = "\<lambda>cs. length cs = length (cgens g)
     \<and> list_all (\<lambda>a. length (elems a) = prod_list (butlast (gshape g))) cs"
  have "chaosPoints_gno (Lorenz_evolve ode lims) (g\<lparr>cgens := cgens g\<rparr>) gno =
     Inr (slot_out (cascade g) (oshape g) (export c lm) (ode (params g) (h g) 1) (cgens g ! k),
          g\<lparr>cgens := (cgens g)[k := slot_next (cascade g) (oshape g) (ode (params g) (h g) 1) (cgens g ! k)]\<rparr>)"
  proof (rule chaosPoints_gno_np [where I = ?I])
    fix cs :: "vec3 ndarray list" assume "?I cs"
    with Lorenz_I [where ode = ode and lims = lims and g = g, OF assms(1,2,3)]
    show "Lorenz_evolve ode lims (g\<lparr>cgens := cs\<rparr>) (gno - 1) =
        Inr (np_map (export c lm) (cs ! k),
             g\<lparr>cgens := cs[k := np_map (ode (params g) (h g) 1) (cs ! k)]\<rparr>)
      \<and> ?I (cs[k := np_map (ode (params g) (h g) 1) (cs ! k)])"
      by blast
  next
    fix cs :: "vec3 ndarray list" assume "?I cs"
    then show "k < length cs" using py_index_bound [OF assms(1)] by simp
  next
    show "cascade g \<longrightarrow> oshape g \<noteq> []" by (rule assms(5))
  next
    show "?I (cgens g)" using assms(4) by simp
  qed
  then show ?thesis by simp
qed

lemma concat_block:
  assumes "\<And>x. x \<in> set xs \<Longrightarrow> length (F x) = n" and "i < length xs"
  shows "take n (drop (i * n) (concat (map F xs))) = F (xs ! i)"
  using assms
proof (induction xs arbitrary: i)
  case Nil
  then show ?case by simp
next
  case (Cons x xs)
  have lx: "length (F x) = n" using Cons.prems(1) by simp
  show ?case
  proof (cases i)
    case 0
    then show ?thesis using lx by simp
  next
    case (Suc j)
    have "drop (Suc j * n) (F x @ concat (map F xs)) = drop (j * n) (concat (map F xs))"
      using lx by simp
    moreover have "take n (drop (j * n) (concat (map F xs))) = F (xs ! j)"
      using Cons.prems Suc by (intro Cons.IH) simp_all
    ultimately show ?thesis using Suc by simp
  qed
qed

lemma np_nth_cascade_out:
  assumes "length (elems a) = prod_list (shape a)" and "p < np"
  shows "np_nth (cascade_out np e f a) p = np_map (\<lambda>x. e ((f ^^ p) x)) a"
proof -
  have "take (prod_list (shape a)) (drop (p * prod_list (shape a))
      (concat (map (\<lambda>p. map (\<lambda>x. e ((f ^^ p) x)) (elems a)) [0..<np])))
      = map (\<lambda>x. e ((f ^^ p) x)) (elems a)"
    using concat_block [of "[0..<np]" "\<lambda>p. map (\<lambda>x. e ((f ^^ p) x)) (elems a)" "prod_list (shape a)" p]
      assms by simp
  then show ?thesis
    using assms(2) by (simp add: np_nth_def cascade_out_def np_map_def)
qed

lemma wf_gen_slot:
  assumes "wf_gen g" and "k < length (cgens g)"
  shows "shape (cgens g ! k) = cell_shape g"
    and "length (elems (cgens g ! k)) = prod_list (shape (cgens g ! k))"
  using assms by (simp_all add: wf_gen_def wf_slot_def list_all_length)

lemma cascade_out_shape:
  assumes "wf_gen g" and "cascade g" and "oshape g \<noteq> []" and "0 < hd (oshape g)"
    and "k < length (cgens g)"
  shows "shape (cascade_out (hd (oshape g)) e f (cgens g ! k)) = oshape g"
  using assms wf_gen_slot(1) [OF assms(1,5)]
  by (cases "oshape g") (simp_all add: cascade_out_def cell_shape_def)

lemma py_index_pos: "1 \<le> gno \<Longrightarrow> gno \<le> int n \<Longrightarrow> py_index n (gno - 1) = Inr (nat (gno - 1))"
  by (simp add: py_index_def)

lemma ex_wf:
  "wf_gen ex_logistic" "cascade ex_logistic" "oshape ex_logistic \<noteq> []"
  "0 < hd (oshape ex_logistic)" "1 \<le> int (gens ex_logistic)"
  "wf_gen ex_tent" "cascade ex_tent" "oshape ex_tent \<noteq> []"
  "0 < hd (oshape ex_tent)" "1 \<le> int (gens ex_tent)"
  "wf_gen ex_lorenz" "cascade ex_lorenz" "oshape ex_lorenz \<noteq> []"
  "0 < hd (oshape ex_lorenz)" "1 \<le> int (gens ex_lorenz)"
  "gshape ex_lorenz = cell_shape ex_lorenz @ [3]" "py_index 3 (comp ex_lorenz) = Inr 0"
  "ex_lims (params ex_lorenz) = Some (ex_box ex_params)"
  by (simp_all add: ex_logistic_eq ex_tent_eq ex_lorenz_def ex_lims_def wf_gen_def wf_slot_def
      cell_shape_def py_index_def)

lemma for_each_map: "for_each f g (map idx xs) = for_each (\<lambda>g x. f g (idx x)) g xs"
  by (induction xs arbitrary: g) (simp_all split: sum.splits)

lemma length_concat_const:
  "length (concat (map (\<lambda>p. map (F p) xs) [0..<n])) = n * length xs"
  by (induction n) simp_all

lemma slot_out_wf:
  assumes "wf_slot (cell_shape g) a" and "cascade g \<longrightarrow> oshape g \<noteq> []"
  shows "shape (slot_out (cascade g) (oshape g) e f a) = out_shape g
     \<and> length (elems (slot_out (cascade g) (oshape g) e f a)) = prod_list (out_shape g)"
proof (cases "cascade g")
  case False
  with assms show ?thesis
    by (simp add: slot_out_def out_shape_def wf_slot_def cell_shape_def)
next
  case True
  with assms(2) obtain np rest where o: "oshape g = np # rest" by (cases "oshape g") auto
  with True assms(1) have a: "shape a = rest" "length (elems a) = prod_list rest"
    by (simp_all add: wf_slot_def cell_shape_def)
  show ?thesis
    using True o a
    by (simp add: slot_out_def out_shape_def cascade_out_def length_concat_const)
qed

lemma chaosPoints_zero:
  assumes one: "\<And>cs i. I cs \<Longrightarrow> i < gens g \<Longrightarrow>
      chaosPoints_gno ev (g\<lparr>cgens := cs\<rparr>) (int i + 1) =
        Inr (out (cs ! i), g\<lparr>cgens := cs[i := adv (cs ! i)]\<rparr>)
      \<and> I (cs[i := adv (cs ! i)])"
    and len: "\<And>cs. I cs \<Longrightarrow> length cs = gens g"
    and I: "I (cgens g)"
    and sh: "list_all (\<lambda>a. shape (out a) = out_shape g
                \<and> length (elems (out a)) = prod_list (out_shape g)) (cgens g)"
  shows "all_generators_once ev g"
proof -
  let ?n = "gens g"
  let ?cs = "cgens g"
  let ?g' = "g\<lparr>cgens := map adv ?cs\<rparr>"
  let ?res = "\<lparr>shape = (if ?n = 0 then [0] else ?n # out_shape g),
               elems = concat (map (\<lambda>a. elems (out a)) ?cs)\<rparr>"
  have l: "length ?cs = ?n" by (rule len [OF I])
  have fe: "for_each (\<lambda>g' i. chaosPoints_gno ev g' (int i + 1)) g [0..<?n] =
      Inr (map out ?cs, ?g')"
    using for_each_all_slots [where I = I and n = ?n and ev = ev and g = g and out = out
        and adv = adv and cs = ?cs and j = 0, OF one len I]
    by simp
  have "list_all (\<lambda>b. shape b = out_shape g) (map out ?cs)"
    using sh by (simp add: list_all_iff)
  from np_array_uniform [OF this] l
  have na: "np_array (map out ?cs) = Inr ?res" by (auto simp: o_def)
  have zero: "chaosPoints ev g 0 = Inr (?res, ?g')"
    by (simp add: chaosPoints_def fe na)
  have row: "np_nth ?res i = out (?cs ! i)" if "i < ?n" for i
  proof -
    have "take (prod_list (out_shape g)) (drop (i * prod_list (out_shape g))
        (concat (map (\<lambda>a. elems (out a)) ?cs))) = elems (out (?cs ! i))"
      using sh that l
      by (intro concat_block [of ?cs "\<lambda>a. elems (out a)" "prod_list (out_shape g)" i])
        (auto simp: list_all_iff)
    moreover have "shape (out (?cs ! i)) = out_shape g"
      using sh that l by (simp add: list_all_length)
    ultimately show ?thesis using that by (simp add: np_nth_def)
  qed
  have rows: "map (np_nth ?res) [0..<?n] = map out ?cs"
    using row l by (intro nth_equalityI) simp_all
  have same: "(\<lambda>g' i. chaosPoints ev g' (int i + 1)) = (\<lambda>g' i. chaosPoints_gno ev g' (int i + 1))"
    by (intro ext) (simp add: chaosPoints_def)
  have pm: "produce_many ev g (map (\<lambda>i. int i + 1) [0..<?n]) = Inr (map (np_nth ?res) [0..<?n], ?g')"
  proof -
    have "produce_many ev g (map (\<lambda>i. int i + 1) [0..<?n])
        = for_each (\<lambda>g' i. chaosPoints ev g' (int i + 1)) g [0..<?n]"
      unfolding produce_many_def by (rule for_each_map)
    also have "\<dots> = Inr (map out ?cs, ?g')"
      unfolding same by (rule fe)
    finally show ?thesis unfolding rows .
  qed
  have each: "chaosPoints ev g (int i + 1) =
      Inr (np_nth ?res i, g\<lparr>cgens := ?cs[i := cgens ?g' ! i]\<rparr>)" if "i < ?n" for i
  proof -
    have "chaosPoints ev g (int i + 1) = chaosPoints_gno ev (g\<lparr>cgens := ?cs\<rparr>) (int i + 1)"
      by (simp add: chaosPoints_def)
    also have "\<dots> = Inr (out (?cs ! i), g\<lparr>cgens := ?cs[i := adv (?cs ! i)]\<rparr>)"
      using one [OF I that] by simp
    finally show ?thesis using row [OF that] that l by simp
  qed
  show ?thesis
    unfolding all_generators_once_def zero
    using l pm each by (simp add: list_all_iff)
qed

lemma py_index_nat: "i < n \<Longrightarrow> py_index n (int i) = Inr i"
  by (simp add: py_index_def)

lemma wf_gen_sh:
  assumes "wf_gen g" and "cascade g \<longrightarrow> oshape g \<noteq> []"
  shows "list_all (\<lambda>a. shape (slot_out (cascade g) (oshape g) e f a) = out_shape g
     \<and> length (elems (slot_out (cascade g) (oshape g) e f a)) = prod_list (out_shape g)) (cgens g)"
  using assms slot_out_wf [of g _ e f]
  by (simp add: wf_gen_def list_all_iff)

lemma ex_logistic_all:
  "chaosPoints Logistic_evolve ex_logistic 0 =
     Inr (\<lparr>shape = [2, 2, 2],
           elems = [Fin (1 / 2), Fin (1 / 4), Fin 1, Fin (3 / 4),
                    Fin 0, Fin (3 / 4), Fin 0, Fin (3 / 4)]\<rparr>,
          ex_logistic\<lparr>cgens := [\<lparr>shape = [2], elems = [Fin 0, Fin (3 / 4)]\<rparr>,
                                \<lparr>shape = [2], elems = [Fin 0, Fin (3 / 4)]\<rparr>]\<rparr>)"
  by (simp add: chaosPoints_def chaosPoints_gno_def Logistic_evolve_def
      py_index_def ex_logistic_eq np_map_def np_array_def logistic_map_def f_sub_def upt2)

lemma plain_logistic_eq:
  "plain_logistic = \<lparr>oshape = [1, 2], gshape = [1, 2], cascade = False, gens = 2,
     cgens = [\<lparr>shape = [1, 2], elems = [Fin (1 / 2), Fin (1 / 4)]\<rparr>,
              \<lparr>shape = [1, 2], elems = [Fin (3 / 4), Fin 0]\<rparr>],
     r = Fin 4\<rparr>"
  by (simp add: plain_logistic_def Logistic_init_def ChaosGenerator_init_def plain_draw_def upt2)

lemma plain_logistic_two:
  "chaosPoints Logistic_evolve plain_logistic 2 =
     Inr (\<lparr>shape = [1, 2], elems = [Fin (3 / 4), Fin 0]\<rparr>, plain_logistic)"
  by (simp add: chaosPoints_def chaosPoints_gno_def Logistic_evolve_def py_index_def
      plain_logistic_eq np_map_def logistic_map_def f_sub_def)

lemma plain_logistic_one:
  "chaosPoints Logistic_evolve plain_logistic 1 =
     Inr (\<lparr>shape = [1, 2], elems = [Fin (1 / 2), Fin (1 / 4)]\<rparr>,
          plain_logistic\<lparr>cgens := [\<lparr>shape = [1, 2], elems = [Fin 1, Fin (3 / 4)]\<rparr>,
                                  \<lparr>shape = [1, 2], elems = [Fin (3 / 4), Fin 0]\<rparr>]\<rparr>)"
  by (simp add: chaosPoints_def chaosPoints_gno_def Logistic_evolve_def py_index_def
      plain_logistic_eq np_map_def logistic_map_def f_sub_def)

lemma np_map_fixed: "(np_map f a = a) = (\<forall>x\<in>set (elems a). f x = x)" for a :: "'a ndarray"
proof -
  have "(np_map f a = a) = (map f (elems a) = elems a)"
    by (cases a) (simp add: np_map_def)
  also have "\<dots> = (map f (elems a) = map (\<lambda>x. x) (elems a))"
    by simp
  also have "\<dots> = (\<forall>x\<in>set (elems a). f x = x)"
    by (rule map_eq_conv)
  finally show ?thesis .
qed


lemma py_index_low: "i < - int n \<Longrightarrow> py_index n i = Inl IndexError"
  by (simp add: py_index_def)

lemma chaosPoints_gno_empty: "cascade g \<Longrightarrow> oshape g = [] \<Longrightarrow> chaosPoints_gno ev g gno = Inl IndexError"
  by (simp add: chaosPoints_gno_def)

lemma ex_logistic_one:
  "chaosPoints Logistic_evolve ex_logistic 1 =
     Inr (\<lparr>shape = [2, 2], elems = [Fin (1 / 2), Fin (1 / 4), Fin 1, Fin (3 / 4)]\<rparr>,
          ex_logistic\<lparr>cgens := [\<lparr>shape = [2], elems = [Fin 0, Fin (3 / 4)]\<rparr>,
                                \<lparr>shape = [2], elems = [Fin 0, Fin (3 / 4)]\<rparr>]\<rparr>)"
  by (simp add: chaosPoints_def chaosPoints_gno_def Logistic_evolve_def
      py_index_def ex_logistic_eq np_map_def np_array_def logistic_map_def f_sub_def upt2)

lemma ex_lorenz_one:
  "chaosPoints (Lorenz_evolve euler_step ex_lims) ex_lorenz 1 =
     Inr (\<lparr>shape = [2, 1], elems = [Fin 0, Fin (1 / 20)]\<rparr>,
          ex_lorenz\<lparr>cgens :=
            [\<lparr>shape = [1],
              elems = [(Fin (- (813 / 50)), Fin (- (627 / 500)), Fin (53533 / 2250))]\<rparr>,
             \<lparr>shape = [1], elems = [(Fin 10, Fin 0, Fin (25 / 2))]\<rparr>]\<rparr>)"
  by (simp add: chaosPoints_def chaosPoints_gno_def Lorenz_evolve_def Lorenz_evolveT_def
      py_index_def ex_lorenz_def ex_lims_def ex_box_def ex_params_def np_map_def np_array_def
      export_def normalise_def clamp_low_def clamp_high_def f_sub_def f_lt_def f_gt_def eps_def
      euler_step_def upt2)

lemma fixed_logistic_eq:
  "fixed_logistic = \<lparr>oshape = [2, 2], gshape = [2], cascade = True, gens = 2,
     cgens = [\<lparr>shape = [2], elems = [Fin (3 / 4), Fin 0]\<rparr>,
              \<lparr>shape = [2], elems = [Fin (3 / 4), Fin 0]\<rparr>],
     r = Fin 4\<rparr>"
  by (simp add: fixed_logistic_def Logistic_init_def ChaosGenerator_init_def fixed_draw_def upt2)

lemma fixed_tent_eq:
  "fixed_tent = \<lparr>oshape = [2, 2], gshape = [2], cascade = True, gens = 2,
     cgens = [\<lparr>shape = [2], elems = [Fin 0, Fin 0]\<rparr>,
              \<lparr>shape = [2], elems = [Fin 0, Fin 0]\<rparr>],
     mu = Fin (49999 / 100000)\<rparr>"
  by (simp add: fixed_tent_def Tent_init_def ChaosGenerator_init_def fixed_tent_draw_def upt2)

lemma fixed_lorenz_init:
  "Lorenz_init ex_box Map.empty [2, 1] True ex_params 0 (Fin (1 / 100)) 2 fixed_draw3
     = (Inr fixed_lorenz, ex_lims)"
  by (simp add: Lorenz_init_def ChaosGenerator_init_def setLimits_def ex_box_def fixed_draw3_def
      fixed_lorenz_def ex_lims_def upt2 np_map_def rescale_def f_sub_def)

lemma for_each_at:
  assumes step: "\<And>g i x g'. Q g \<Longrightarrow> f g i = Inr (x, g') \<Longrightarrow> Q g'"
  shows "Q g \<Longrightarrow> for_each f g is = Inr (xs, g') \<Longrightarrow> Q g'"
  using for_each_invariant [of Q f "\<lambda>_. True" g "is" xs g'] step by blast

lemma chaosPoints_gno_at:
  assumes step: "\<And>g x g'. Q g \<Longrightarrow> ev g (gno - 1) = Inr (x, g') \<Longrightarrow> Q g'"
    and "Q g" and "chaosPoints_gno ev g gno = Inr (out, g')"
  shows "Q g'"
proof (cases "cascade g")
  case False
  with assms(3) have "ev g (gno - 1) = Inr (out, g')" by (simp add: chaosPoints_gno_def)
  from step [OF assms(2) this] show ?thesis .
next
  case True
  with assms(3) obtain np rows where
    r: "for_each (\<lambda>g' i. ev g' (gno - 1)) g [0..<np] = Inr (rows, g')"
    by (auto simp: chaosPoints_gno_def split: list.splits sum.splits)
  show ?thesis
    using assms(2) r
    by (rule for_each_at [where Q = Q and f = "\<lambda>g' i. ev g' (gno - 1)", rotated 1]) (rule step)
qed

lemma chaosPoints_at:
  assumes step: "\<And>g i x g'. Q g \<Longrightarrow> ev g i = Inr (x, g') \<Longrightarrow> Q g'"
    and "Q g" and "chaosPoints ev g gno = Inr (out, g')"
  shows "Q g'"
  using chaosPoints_invariant [of Q ev "\<lambda>_. True" g gno out g'] step assms(2,3)
  by (simp add: all_elems_def list_all_iff)

lemma Logistic_evolve_result:
  assumes "Logistic_evolve g i = Inr (x, g')"
  shows "\<exists>k. py_index (length (cgens g)) i = Inr k \<and> x = cgens g ! k
     \<and> g' = g\<lparr>cgens := (cgens g)[k := np_map (logistic_map (r g)) (cgens g ! k)]\<rparr>"
proof -
  from assms obtain k where k: "py_index (length (cgens g)) i = Inr k"
    by (auto simp: Logistic_evolve_def split: sum.splits)
  have "Inr (x, g') = (Inr (cgens g ! k,
      g\<lparr>cgens := (cgens g)[k := np_map (logistic_map (r g)) (cgens g ! k)]\<rparr>) :: py_error + _)"
    by (rule trans [OF assms [symmetric] Logistic_evolve_eq [OF k]])
  with k show ?thesis by simp
qed

lemma Tent_evolve_result:
  assumes "Tent_evolve g i = Inr (x, g')"
  shows "\<exists>k. py_index (length (cgens g)) i = Inr k \<and> x = cgens g ! k
     \<and> g' = g\<lparr>cgens := (cgens g)[k := np_map (tent_map (mu g)) (cgens g ! k)]\<rparr>"
proof -
  from assms obtain k where k: "py_index (length (cgens g)) i = Inr k"
    by (auto simp: Tent_evolve_def split: sum.splits)
  have "Inr (x, g') = (Inr (cgens g ! k,
      g\<lparr>cgens := (cgens g)[k := np_map (tent_map (mu g)) (cgens g ! k)]\<rparr>) :: py_error + _)"
    by (rule trans [OF assms [symmetric] Tent_evolve_eq [OF k]])
  with k show ?thesis by simp
qed

lemma slot_frame:
  assumes "g' = g\<lparr>cgens := (cgens g)[k := a]\<rparr>" and "k < length (cgens g)"
  shows "g' = g\<lparr>cgens := (cgens g)[k := cgens g' ! k]\<rparr>"
  using assms by simp

lemma Logistic_evolve_slot:
  assumes "Logistic_evolve g i = Inr (x, g')"
  shows "\<exists>k. py_index (length (cgens g)) i = Inr k
     \<and> g' = g\<lparr>cgens := (cgens g)[k := cgens g' ! k]\<rparr>"
proof -
  from Logistic_evolve_result [OF assms] obtain k where
    k: "py_index (length (cgens g)) i = Inr k"
    and g': "g' = g\<lparr>cgens := (cgens g)[k := np_map (logistic_map (r g)) (cgens g ! k)]\<rparr>"
    by blast
  from slot_frame [OF g' py_index_bound [OF k]] k show ?thesis by blast
qed

lemma Tent_evolve_slot:
  assumes "Tent_evolve g i = Inr (x, g')"
  shows "\<exists>k. py_index (length (cgens g)) i = Inr k
     \<and> g' = g\<lparr>cgens := (cgens g)[k := cgens g' ! k]\<rparr>"
proof -
  from Tent_evolve_result [OF assms] obtain k where
    k: "py_index (length (cgens g)) i = Inr k"
    and g': "g' = g\<lparr>cgens := (cgens g)[k := np_map (tent_map (mu g)) (cgens g ! k)]\<rparr>"
    by blast
  from slot_frame [OF g' py_index_bound [OF k]] k show ?thesis by blast
qed

lemma Lorenz_evolve_slot:
  assumes "Lorenz_evolve ode lims g i = Inr (x, g')"
  shows "\<exists>k. py_index (length (cgens g)) i = Inr k
     \<and> g' = g\<lparr>cgens := (cgens g)[k := cgens g' ! k]\<rparr>"
  using Lorenz_evolve_frame [OF assms] by blast

lemma chaosPoints_gno_frame:
  assumes fr: "\<And>g1 x g2. ev g1 (gno - 1) = Inr (x, g2) \<Longrightarrow>
      \<exists>k. py_index (length (cgens g1)) (gno - 1) = Inr k
        \<and> g2 = g1\<lparr>cgens := (cgens g1)[k := cgens g2 ! k]\<rparr>"
    and k: "py_index (length (cgens g)) (gno - 1) = Inr k"
    and run: "chaosPoints_gno ev g gno = Inr (out, g')"
  shows "g' = g\<lparr>cgens := (cgens g)[k := cgens g' ! k]\<rparr>"
proof -
  let ?Q = "\<lambda>g1. g1 = g\<lparr>cgens := (cgens g)[k := cgens g1 ! k]\<rparr>"
  have q0: "?Q g" by (simp add: list_update_id)
  have step: "?Q g2" if q: "?Q g1" and e: "ev g1 (gno - 1) = Inr (x, g2)" for g1 x g2
  proof -
    from q have c: "cgens g1 = (cgens g)[k := cgens g1 ! k]"
      by (metis ChaosGenerator.select_convs(5) ChaosGenerator.surjective
          ChaosGenerator.update_convs(5))
    then have l: "length (cgens g1) = length (cgens g)"
      by (metis length_list_update)
    from fr [OF e] obtain k' where k': "py_index (length (cgens g1)) (gno - 1) = Inr k'"
      and g2: "g2 = g1\<lparr>cgens := (cgens g1)[k' := cgens g2 ! k']\<rparr>" by blast
    from k k' l have kk: "k' = k" by simp
    have "g2 = (g\<lparr>cgens := (cgens g)[k := cgens g1 ! k]\<rparr>)
        \<lparr>cgens := ((cgens g)[k := cgens g1 ! k])[k := cgens g2 ! k]\<rparr>"
      using g2 q c unfolding kk by metis
    then show ?thesis by simp
  qed
  show ?thesis
    using step q0 run by (rule chaosPoints_gno_at [where Q = ?Q])
qed

lemma np_map_fixed_elems:
  "all_elems (\<lambda>x. f x = x) a \<Longrightarrow> np_map f a = (a :: 'a ndarray)"
  by (simp add: np_map_fixed all_elems_def list_all_iff)

lemma Logistic_evolve_fixed:
  assumes "Logistic_evolve g i = Inr (x, g')" and "py_index (length (cgens g)) i = Inr k"
    and "all_elems (\<lambda>v. logistic_map (r g) v = v) (cgens g ! k)"
  shows "g' = g"
proof -
  from Logistic_evolve_result [OF assms(1)] assms(2)
  have "g' = g\<lparr>cgens := (cgens g)[k := np_map (logistic_map (r g)) (cgens g ! k)]\<rparr>" by simp
  then show ?thesis by (simp add: np_map_fixed_elems [OF assms(3)] list_update_id)
qed

lemma Tent_evolve_fixed:
  assumes "Tent_evolve g i = Inr (x, g')" and "py_index (length (cgens g)) i = Inr k"
    and "all_elems (\<lambda>v. tent_map (mu g) v = v) (cgens g ! k)"
  shows "g' = g"
proof -
  from Tent_evolve_result [OF assms(1)] assms(2)
  have "g' = g\<lparr>cgens := (cgens g)[k := np_map (tent_map (mu g)) (cgens g ! k)]\<rparr>" by simp
  then show ?thesis by (simp add: np_map_fixed_elems [OF assms(3)] list_update_id)
qed

lemma evolveT_loop_fixed:
  assumes "evolveT_loop f pts g gind = Inr g'" and "py_index (length (cgens g)) gind = Inr k"
    and "all_elems (\<lambda>v. f v = v) (cgens g ! k)"
  shows "g' = g"
  using assms
proof (induction pts arbitrary: g)
  case Nil
  then show ?case by simp
next
  case (Cons pt pts)
  let ?a = "cgens g ! k"
  from Cons.prems(1,2) have pt: "pt < length (elems ?a)"
    by (auto simp: Let_def split: if_splits)
  then have "f (elems ?a ! pt) = elems ?a ! pt"
    using Cons.prems(3) by (simp add: all_elems_def list_all_length)
  then have same: "g\<lparr>cgens := (cgens g)[k := ?a\<lparr>elems := (elems ?a)[pt := f (elems ?a ! pt)]\<rparr>]\<rparr> = g"
    by (simp add: list_update_id)
  from Cons.prems(1,2) pt have "evolveT_loop f pts g gind = Inr g'"
    by (simp add: Let_def same)
  from Cons.IH [OF this Cons.prems(2,3)] show ?case .
qed

lemma Lorenz_evolve_fixed:
  assumes "Lorenz_evolve ode lims g i = Inr (x, g')" and "py_index (length (cgens g)) i = Inr k"
    and "all_elems (\<lambda>v. ode (params g) (h g) 1 v = v) (cgens g ! k)"
  shows "g' = g"
proof -
  from assms(1,2) have "Lorenz_evolveT ode g i 1 = Inr g'"
    by (auto simp: Lorenz_evolve_def split: sum.splits option.splits)
  then show ?thesis
    unfolding Lorenz_evolveT_def using assms(2,3) by (rule evolveT_loop_fixed)
qed

lemma all_state_slot:
  "all_state P g \<Longrightarrow> k < length (cgens g) \<Longrightarrow> all_elems P (cgens g ! k)"
  by (simp add: all_state_def list_all_length)

lemma produce_snapshot:
  assumes fr: "\<And>g1 i x g2. ev g1 i = Inr (x, g2) \<Longrightarrow>
      \<exists>k. py_index (length (cgens g1)) i = Inr k
        \<and> g2 = g1\<lparr>cgens := (cgens g1)[k := cgens g2 ! k]\<rparr>"
    and fx: "\<And>i x g2 k. ev g i = Inr (x, g2) \<Longrightarrow> py_index (length (cgens g)) i = Inr k \<Longrightarrow>
      all_elems Fx (cgens g ! k) \<Longrightarrow> g2 = g"
    and run: "chaosPoints ev g gno = Inr (out, g')"
  shows "(gno \<noteq> 0 \<longrightarrow> py_index (length (cgens g)) (gno - 1) = Inr k \<longrightarrow>
        length (cgens g') = length (cgens g)
        \<and> (\<forall>j. j \<noteq> k \<longrightarrow> cgens g' ! j = cgens g ! j)
        \<and> (all_elems Fx (cgens g ! k) \<longrightarrow> cgens g' = cgens g))
     \<and> (all_state Fx g \<longrightarrow> cgens g' = cgens g)"
proof (intro conjI impI)
  assume nz: "gno \<noteq> 0" and k: "py_index (length (cgens g)) (gno - 1) = Inr k"
  from run nz have run1: "chaosPoints_gno ev g gno = Inr (out, g')"
    by (simp add: chaosPoints_def)
  have "g' = g\<lparr>cgens := (cgens g)[k := cgens g' ! k]\<rparr>"
    using fr k run1 by (rule chaosPoints_gno_frame)
  then have c: "cgens g' = (cgens g)[k := cgens g' ! k]"
    by (metis ChaosGenerator.select_convs(5) ChaosGenerator.surjective
        ChaosGenerator.update_convs(5))
  show "length (cgens g') = length (cgens g)"
    using c by (metis length_list_update)
  show "\<forall>j. j \<noteq> k \<longrightarrow> cgens g' ! j = cgens g ! j"
    using c by (metis nth_list_update_neq)
  { assume f: "all_elems Fx (cgens g ! k)"
    have "g' = g"
    proof (rule chaosPoints_gno_at [where Q = "\<lambda>g1. g1 = g" and ev = ev and gno = gno, OF _ refl run1])
      fix g1 x g2 assume "g1 = g" and "ev g1 (gno - 1) = Inr (x, g2)"
      then show "g2 = g" using fx k f by blast
    qed
    then show "cgens g' = cgens g" by simp }
next
  assume a: "all_state Fx g"
  have "g' = g"
  proof (rule chaosPoints_at [where Q = "\<lambda>g1. g1 = g" and ev = ev and gno = gno, OF _ refl run])
    fix g1 i x g2 assume g1: "g1 = g" and e: "ev g1 i = Inr (x, g2)"
    from fr [OF e] g1 obtain k' where k': "py_index (length (cgens g)) i = Inr k'" by blast
    from all_state_slot [OF a py_index_bound [OF k']] have "all_elems Fx (cgens g ! k')" .
    with fx e g1 k' show "g2 = g" by blast
  qed
  then show "cgens g' = cgens g" by simp
qed

lemma fixed_logistic_one:
  "chaosPoints Logistic_evolve fixed_logistic 1 =
     Inr (\<lparr>shape = [2, 2], elems = [Fin (3 / 4), Fin 0, Fin (3 / 4), Fin 0]\<rparr>,
          fixed_logistic\<lparr>cgens := [\<lparr>shape = [2], elems = [Fin (3 / 4), Fin 0]\<rparr>,
                                  \<lparr>shape = [2], elems = [Fin (3 / 4), Fin 0]\<rparr>]\<rparr>)"
  by (simp add: chaosPoints_def chaosPoints_gno_def Logistic_evolve_def
      py_index_def fixed_logistic_eq np_map_def np_array_def logistic_map_def f_sub_def upt2)

lemma fixed_tent_one:
  "chaosPoints Tent_evolve fixed_tent 1 =
     Inr (\<lparr>shape = [2, 2],
           elems = [Fin 0, Fin 0, Fin 0, Fin 0]\<rparr>,
          fixed_tent\<lparr>cgens := [\<lparr>shape = [2], elems = [Fin 0, Fin 0]\<rparr>,
                              \<lparr>shape = [2], elems = [Fin 0, Fin 0]\<rparr>]\<rparr>)"
  by (simp add: chaosPoints_def chaosPoints_gno_def Tent_evolve_def
      py_index_def fixed_tent_eq np_map_def np_array_def tent_map_def f_sub_def upt2)

lemma fixed_lorenz_one:
  "chaosPoints (Lorenz_evolve euler_step ex_lims) fixed_lorenz 1 =
     Inr (\<lparr>shape = [2, 1], elems = [Fin (1 / 2), Fin (1 / 2)]\<rparr>,
          fixed_lorenz\<lparr>cgens := [\<lparr>shape = [1], elems = [(Fin 0, Fin 0, Fin 0)]\<rparr>,
                                \<lparr>shape = [1], elems = [(Fin 0, Fin 0, Fin 0)]\<rparr>]\<rparr>)"
  by (simp add: chaosPoints_def chaosPoints_gno_def Lorenz_evolve_def Lorenz_evolveT_def
      py_index_def fixed_lorenz_def ex_lims_def ex_box_def ex_params_def np_map_def np_array_def
      export_def normalise_def clamp_low_def clamp_high_def f_sub_def f_lt_def f_gt_def eps_def
      euler_step_def upt2 Let_def)

lemma fixed_points:
  "py_index (length (cgens fixed_logistic)) (1 - 1) = Inr 0"
  "all_elems (\<lambda>x. logistic_map (r fixed_logistic) x = x) (cgens fixed_logistic ! 0)"
  "all_state (\<lambda>x. logistic_map (r fixed_logistic) x = x) fixed_logistic"
  "py_index (length (cgens fixed_tent)) (1 - 1) = Inr 0"
  "all_elems (\<lambda>x. tent_map (mu fixed_tent) x = x) (cgens fixed_tent ! 0)"
  "all_state (\<lambda>x. tent_map (mu fixed_tent) x = x) fixed_tent"
  "py_index (length (cgens fixed_lorenz)) (1 - 1) = Inr 0"
  "all_elems (\<lambda>v. euler_step (params fixed_lorenz) (h fixed_lorenz) 1 v = v) (cgens fixed_lorenz ! 0)"
  "all_state (\<lambda>v. euler_step (params fixed_lorenz) (h fixed_lorenz) 1 v = v) fixed_lorenz"
  by (simp_all add: fixed_logistic_eq fixed_tent_eq fixed_lorenz_def ex_params_def py_index_def
      all_state_def all_elems_def logistic_map_def tent_map_def euler_step_def f_sub_def)

lemma empty_logistic_eq:
  "empty_logistic = \<lparr>oshape = [0, 2], gshape = [2], cascade = True, gens = 2,
     cgens = [\<lparr>shape = [2], elems = [Fin (1 / 2), Fin (1 / 4)]\<rparr>,
              \<lparr>shape = [2], elems = [Fin 0, Fin (3 / 4)]\<rparr>],
     r = Fin 4\<rparr>"
  by (simp add: empty_logistic_def Logistic_init_def ChaosGenerator_init_def ex_draw_def upt2)

lemma empty_logistic_wf:
  "cascade empty_logistic" "oshape empty_logistic \<noteq> []" "hd (oshape empty_logistic) = 0"
  by (simp_all add: empty_logistic_eq)

lemma chaosPoints_no_particles:
  "cascade g \<Longrightarrow> oshape g \<noteq> [] \<Longrightarrow> hd (oshape g) = 0 \<Longrightarrow> gno \<noteq> 0 \<Longrightarrow>
     chaosPoints ev g gno = Inr (\<lparr>shape = [0], elems = []\<rparr>, g)"
  by (cases "oshape g") (simp_all add: chaosPoints_def chaosPoints_gno_def np_array_def)

lemma chaosPoints_zero_state:
  assumes one: "\<And>cs i. I cs \<Longrightarrow> i < gens g \<Longrightarrow>
      chaosPoints_gno ev (g\<lparr>cgens := cs\<rparr>) (int i + 1) =
        Inr (out (cs ! i), g\<lparr>cgens := cs[i := adv (cs ! i)]\<rparr>)
      \<and> I (cs[i := adv (cs ! i)])"
    and len: "\<And>cs. I cs \<Longrightarrow> length cs = gens g"
    and I: "I (cgens g)"
    and run: "chaosPoints ev g 0 = Inr (res, g')"
  shows "cgens g' = map adv (cgens g)"
proof -
  have fe: "for_each (\<lambda>g' i. chaosPoints_gno ev g' (int i + 1)) g [0..<gens g] =
      Inr (map out (cgens g), g\<lparr>cgens := map adv (cgens g)\<rparr>)"
    using for_each_all_slots [where I = I and n = "gens g" and ev = ev and g = g and out = out
        and adv = adv and cs = "cgens g" and j = 0, OF one len I]
    by simp
  from run show ?thesis
    by (auto simp: chaosPoints_def fe split: sum.splits)
qed

lemma chaosPoints_gno_state:
  assumes cp: "cascade g \<longrightarrow> oshape g \<noteq> [] \<Longrightarrow>
      chaosPoints_gno ev g gno = Inr (o1, g\<lparr>cgens := cs'\<rparr>)"
    and run: "chaosPoints ev g gno = Inr (res, g')" and nz: "gno \<noteq> 0"
  shows "cgens g' = cs'"
proof -
  from run nz have r1: "chaosPoints_gno ev g gno = Inr (res, g')"
    by (simp add: chaosPoints_def)
  then have "cascade g \<longrightarrow> oshape g \<noteq> []"
    using chaosPoints_gno_empty [of g ev gno] by auto
  from cp [OF this] r1 show ?thesis by auto
qed

lemma Logistic_zero_state:
  assumes wf: "wf_gen g" and o: "cascade g \<longrightarrow> oshape g \<noteq> []"
    and run: "chaosPoints Logistic_evolve g 0 = Inr (res, g')"
  shows "cgens g' = map (slot_next (cascade g) (oshape g) (logistic_map (r g))) (cgens g)"
proof (rule chaosPoints_zero_state [where I = "\<lambda>cs. length cs = gens g"
      and out = "slot_out (cascade g) (oshape g) (\<lambda>x. x) (logistic_map (r g))"
      and adv = "slot_next (cascade g) (oshape g) (logistic_map (r g))", OF _ _ _ run])
  fix cs :: "f64 ndarray list" and i
  assume "length cs = gens g" and "i < gens g"
  then have "py_index (length (cgens (g\<lparr>cgens := cs\<rparr>))) (int i + 1 - 1) = Inr i"
    by (simp add: py_index_nat)
  from Logistic_chaosPoints_gno [OF this] o \<open>length cs = gens g\<close>
  show "chaosPoints_gno Logistic_evolve (g\<lparr>cgens := cs\<rparr>) (int i + 1) =
      Inr (slot_out (cascade g) (oshape g) (\<lambda>x. x) (logistic_map (r g)) (cs ! i),
           g\<lparr>cgens := cs[i := slot_next (cascade g) (oshape g) (logistic_map (r g)) (cs ! i)]\<rparr>)
    \<and> length (cs[i := slot_next (cascade g) (oshape g) (logistic_map (r g)) (cs ! i)]) = gens g"
    by simp
next
  show "length (cgens g) = gens g" using wf by (simp add: wf_gen_def)
qed simp

lemma Tent_zero_state:
  assumes wf: "wf_gen g" and o: "cascade g \<longrightarrow> oshape g \<noteq> []"
    and run: "chaosPoints Tent_evolve g 0 = Inr (res, g')"
  shows "cgens g' = map (slot_next (cascade g) (oshape g) (tent_map (mu g))) (cgens g)"
proof (rule chaosPoints_zero_state [where I = "\<lambda>cs. length cs = gens g"
      and out = "slot_out (cascade g) (oshape g) (\<lambda>x. x) (tent_map (mu g))"
      and adv = "slot_next (cascade g) (oshape g) (tent_map (mu g))", OF _ _ _ run])
  fix cs :: "f64 ndarray list" and i
  assume "length cs = gens g" and "i < gens g"
  then have "py_index (length (cgens (g\<lparr>cgens := cs\<rparr>))) (int i + 1 - 1) = Inr i"
    by (simp add: py_index_nat)
  from Tent_chaosPoints_gno [OF this] o \<open>length cs = gens g\<close>
  show "chaosPoints_gno Tent_evolve (g\<lparr>cgens := cs\<rparr>) (int i + 1) =
      Inr (slot_out (cascade g) (oshape g) (\<lambda>x. x) (tent_map (mu g)) (cs ! i),
           g\<lparr>cgens := cs[i := slot_next (cascade g) (oshape g) (tent_map (mu g)) (cs ! i)]\<rparr>)
    \<and> length (cs[i := slot_next (cascade g) (oshape g) (tent_map (mu g)) (cs ! i)]) = gens g"
    by simp
next
  show "length (cgens g) = gens g" using wf by (simp add: wf_gen_def)
qed simp

lemma Lorenz_zero_state:
  assumes wf: "wf_gen g" and o: "cascade g \<longrightarrow> oshape g \<noteq> []"
    and z: "gshape g = cell_shape g @ [3]" "py_index 3 (comp g) = Inr c"
      "lims (params g) = Some lm"
    and run: "chaosPoints (Lorenz_evolve ode lims) g 0 = Inr (res, g')"
  shows "cgens g' = map (slot_next (cascade g) (oshape g) (ode (params g) (h g) 1)) (cgens g)"
proof -
  let ?N = "prod_list (butlast (gshape g))"
  let ?f = "ode (params g) (h g) 1"
  let ?I = "\<lambda>cs. length cs = gens g \<and> list_all (\<lambda>a. length (elems a) = ?N) cs"
  show ?thesis
  proof (rule chaosPoints_zero_state [where I = ?I
        and out = "slot_out (cascade g) (oshape g) (export c lm) ?f"
        and adv = "slot_next (cascade g) (oshape g) ?f", OF _ _ _ run])
    fix cs :: "vec3 ndarray list" and i
    assume I: "?I cs" and i: "i < gens g"
    then have p: "py_index (length (cgens (g\<lparr>cgens := cs\<rparr>))) (int i + 1 - 1) = Inr i"
      by (simp add: py_index_nat)
    have "chaosPoints_gno (Lorenz_evolve ode lims) (g\<lparr>cgens := cs\<rparr>) (int i + 1) =
        Inr (slot_out (cascade g) (oshape g) (export c lm) ?f (cs ! i),
             g\<lparr>cgens := cs[i := slot_next (cascade g) (oshape g) ?f (cs ! i)]\<rparr>)"
      using Lorenz_chaosPoints_gno [where ode = ode and lims = lims and g = "g\<lparr>cgens := cs\<rparr>"
          and c = c and lm = lm, OF p] z(2,3) o I
      by simp
    moreover have "list_all (\<lambda>a. length (elems a) = ?N)
        (cs[i := slot_next (cascade g) (oshape g) ?f (cs ! i)])"
      using I i by (auto simp: list_all_length nth_list_update slot_next_def)
    ultimately show "chaosPoints_gno (Lorenz_evolve ode lims) (g\<lparr>cgens := cs\<rparr>) (int i + 1) =
        Inr (slot_out (cascade g) (oshape g) (export c lm) ?f (cs ! i),
             g\<lparr>cgens := cs[i := slot_next (cascade g) (oshape g) ?f (cs ! i)]\<rparr>)
      \<and> ?I (cs[i := slot_next (cascade g) (oshape g) ?f (cs ! i)])"
      using I by simp
  next
    fix cs :: "vec3 ndarray list" assume "?I cs"
    then show "length cs = gens g" by simp
  next
    show "?I (cgens g)"
      using wf z(1) by (simp add: wf_gen_def wf_slot_def list_all_iff)
  qed
qed

lemma Logistic_gno_state:
  assumes k: "py_index (length (cgens g)) (gno - 1) = Inr k"
    and run: "chaosPoints Logistic_evolve g gno = Inr (res, g')" and nz: "gno \<noteq> 0"
  shows "cgens g' = (cgens g)[k := slot_next (cascade g) (oshape g) (logistic_map (r g)) (cgens g ! k)]"
  using Logistic_chaosPoints_gno [OF k] run nz by (rule chaosPoints_gno_state)

lemma Tent_gno_state:
  assumes k: "py_index (length (cgens g)) (gno - 1) = Inr k"
    and run: "chaosPoints Tent_evolve g gno = Inr (res, g')" and nz: "gno \<noteq> 0"
  shows "cgens g' = (cgens g)[k := slot_next (cascade g) (oshape g) (tent_map (mu g)) (cgens g ! k)]"
  using Tent_chaosPoints_gno [OF k] run nz by (rule chaosPoints_gno_state)

lemma Lorenz_gno_state:
  assumes k: "py_index (length (cgens g)) (gno - 1) = Inr k"
    and run: "chaosPoints (Lorenz_evolve ode lims) g gno = Inr (res, g')" and nz: "gno \<noteq> 0"
    and wf: "wf_gen g"
    and z: "gshape g = cell_shape g @ [3]" "py_index 3 (comp g) = Inr c"
      "lims (params g) = Some lm"
  shows "cgens g' =
    (cgens g)[k := slot_next (cascade g) (oshape g) (ode (params g) (h g) 1) (cgens g ! k)]"
proof -
  have ls: "list_all (\<lambda>a. length (elems a) = prod_list (butlast (gshape g))) (cgens g)"
    using wf z(1) by (simp add: wf_gen_def wf_slot_def list_all_iff)
  show ?thesis
    using Lorenz_chaosPoints_gno [where ode = ode and lims = lims and g = g, OF k z(2,3) ls]
      run nz
    by (rule chaosPoints_gno_state)
qed

lemma fixed_logistic_zero:
  "chaosPoints Logistic_evolve fixed_logistic 0 =
     Inr (\<lparr>shape = [2, 2, 2],
           elems = [Fin (3 / 4), Fin 0, Fin (3 / 4), Fin 0, Fin (3 / 4), Fin 0, Fin (3 / 4), Fin 0]\<rparr>,
          fixed_logistic\<lparr>cgens := [\<lparr>shape = [2], elems = [Fin (3 / 4), Fin 0]\<rparr>,
                                  \<lparr>shape = [2], elems = [Fin (3 / 4), Fin 0]\<rparr>]\<rparr>)"
  by (simp add: chaosPoints_def chaosPoints_gno_def Logistic_evolve_def
      py_index_def fixed_logistic_eq np_map_def np_array_def logistic_map_def f_sub_def upt2)

lemma fixed_tent_zero:
  "chaosPoints Tent_evolve fixed_tent 0 =
     Inr (\<lparr>shape = [2, 2, 2],
           elems = [Fin 0, Fin 0, Fin 0, Fin 0, Fin 0, Fin 0, Fin 0, Fin 0]\<rparr>,
          fixed_tent\<lparr>cgens := [\<lparr>shape = [2], elems = [Fin 0, Fin 0]\<rparr>,
                              \<lparr>shape = [2], elems = [Fin 0, Fin 0]\<rparr>]\<rparr>)"
  by (simp add: chaosPoints_def chaosPoints_gno_def Tent_evolve_def
      py_index_def fixed_tent_eq np_map_def np_array_def tent_map_def f_sub_def upt2)

lemma fixed_lorenz_zero:
  "chaosPoints (Lorenz_evolve euler_step ex_lims) fixed_lorenz 0 =
     Inr (\<lparr>shape = [2, 2, 1], elems = [Fin (1 / 2), Fin (1 / 2), Fin (1 / 2), Fin (1 / 2)]\<rparr>,
          fixed_lorenz\<lparr>cgens := [\<lparr>shape = [1], elems = [(Fin 0, Fin 0, Fin 0)]\<rparr>,
                                \<lparr>shape = [1], elems = [(Fin 0, Fin 0, Fin 0)]\<rparr>]\<rparr>)"
  by (simp add: chaosPoints_def chaosPoints_gno_def Lorenz_evolve_def Lorenz_evolveT_def
      py_index_def fixed_lorenz_def ex_lims_def ex_box_def ex_params_def np_map_def np_array_def
      export_def normalise_def clamp_low_def clamp_high_def f_sub_def f_lt_def f_gt_def eps_def
      euler_step_def upt2 Let_def)

lemma fixed_wf:
  "wf_gen fixed_logistic" "oshape fixed_logistic \<noteq> []"
  "wf_gen fixed_tent" "oshape fixed_tent \<noteq> []"
  "wf_gen fixed_lorenz" "oshape fixed_lorenz \<noteq> []"
  "gshape fixed_lorenz = cell_shape fixed_lorenz @ [3]"
  "py_index 3 (comp fixed_lorenz) = Inr 0"
  "ex_lims (params fixed_lorenz) = Some (ex_box ex_params)"
  by (simp_all add: fixed_logistic_eq fixed_tent_eq fixed_lorenz_def wf_gen_def wf_slot_def
      cell_shape_def py_index_def ex_lims_def)

section \<open>The claims\<close>

text \<open>
  C4. For every Logistic generator and every slot index that selects a slot \<open>k\<close>,
  \<open>evolve\<close> returns the array held in slot \<open>k\<close> before the call and leaves in slot
  \<open>k\<close> the array with the same shape whose elements are \<open>r*x*(1-x)\<close> of the old
  ones; on finite values that is the real number \<open>r*x*(1-x)\<close>, so \<open>4x(1-x)\<close>
  for \<open>r = 4\<close>.
\<close>

theorem Logistic_evolve_pre_image:
  assumes "py_index (length (cgens g)) gind = Inr k"
  shows "Logistic_evolve g gind =
       Inr (cgens g ! k, g\<lparr>cgens := (cgens g)[k := np_map (logistic_map (r g)) (cgens g ! k)]\<rparr>)
     \<and> (cgens g)[k := np_map (logistic_map (r g)) (cgens g ! k)] ! k
         = \<lparr>shape = shape (cgens g ! k), elems = map (logistic_map (r g)) (elems (cgens g ! k))\<rparr>
     \<and> logistic_map (Fin rr) (Fin x) = Fin (rr * x * (1 - x))
     \<and> logistic_map (Fin 4) (Fin x) = Fin (4 * x * (1 - x))"
  using py_index_bound [OF assms]
  by (simp add: Logistic_evolve_eq [OF assms] logistic_map_def f_sub_def np_map_def)

theorem Logistic_evolve_pre_image_witness:
  "py_index (length (cgens ex_logistic)) 0 = Inr 0
   \<and> Logistic_evolve ex_logistic 0 =
       Inr (\<lparr>shape = [2], elems = [Fin (1 / 2), Fin (1 / 4)]\<rparr>,
            ex_logistic\<lparr>cgens := [\<lparr>shape = [2], elems = [Fin 1, Fin (3 / 4)]\<rparr>,
                                  \<lparr>shape = [2], elems = [Fin 0, Fin (3 / 4)]\<rparr>]\<rparr>)"
proof -
  have i: "py_index (length (cgens ex_logistic)) 0 = Inr 0"
    by (simp add: ex_logistic_eq py_index_def)
  from Logistic_evolve_pre_image [OF i, of 4 "1 / 2"] i show ?thesis
    by (simp add: ex_logistic_eq logistic_map_def f_sub_def np_map_def)
qed

text \<open>
  C1, as the specification states it: every value returned by the Lorenz \<open>evolve\<close> is at
  least \<open>eps\<close>. It fails on the generator the constructor builds from a draw of
  \<open>0.0\<close>: the coordinate sits on the cached minimum, the normalised value is 0, the
  test \<open>n1 < 0\<close> does not fire and 0 is returned.
\<close>

theorem Lorenz_evolve_returns_zero:
  "Lorenz_evolve euler_step ex_lims ex_lorenz 0 =
     Inr (\<lparr>shape = [1], elems = [Fin 0]\<rparr>,
          ex_lorenz\<lparr>cgens := [\<lparr>shape = [1], elems = [(Fin (- 18), Fin (- (3 / 5)), Fin (73 / 3))]\<rparr>,
                               \<lparr>shape = [1], elems = [(Fin 10, Fin 0, Fin (25 / 2))]\<rparr>]\<rparr>)
   \<and> \<not> f_le eps (Fin 0)"
  using ex_lorenz_step by (simp add: eps_def)

text \<open>
  C1, amended. When the cached bounds of the exported coordinate are finite with
  \<open>min < max\<close> and the coordinate is finite in every cell of the slot, every value
  returned by the Lorenz \<open>evolve\<close> lies in \<open>[0, 1]\<close>: a normalised value below 0 is
  replaced by \<open>eps\<close>, one above 1 by \<open>1 - eps\<close>, and one inside \<open>[0, 1]\<close> is returned
  as it is, also when it is below \<open>eps\<close> or above \<open>1 - eps\<close>.
\<close>

theorem Lorenz_evolve_unit_interval:
  assumes "Lorenz_evolve ode lims g gind = Inr (ret, g')"
    and "py_index (length (cgens g)) gind = Inr k"
    and "py_index 3 (comp g) = Inr c"
    and "lims (params g) = Some lm"
    and "nth3 c lm = (Fin mn, Fin mx)" and "mn < mx"
    and "all_elems (\<lambda>v. finite64 (nth3 c v)) (cgens g ! k)"
  shows "all_elems in_unit ret
     \<and> elems ret =
         map (\<lambda>v. let n = (the_real (nth3 c v) - mn) / (mx - mn)
                  in Fin (if n < 0 then 1 / 100000 else if 1 < n then 1 - 1 / 100000 else n))
           (elems (cgens g ! k))"
proof -
  from Lorenz_evolve_ret [OF assms(1)] assms(2-4)
  have ret: "ret = np_map (export c lm) (cgens g ! k)" by auto
  have fin: "\<exists>s. nth3 c v = Fin s" if "v \<in> set (elems (cgens g ! k))" for v
    using assms(7) that by (cases "nth3 c v") (auto simp: all_elems_def list_all_iff finite64_def)
  have "\<forall>v \<in> set (elems (cgens g ! k)). in_unit (export c lm v)"
    using fin export_finite_unit [OF assms(5,6)] by blast
  moreover have "\<forall>v \<in> set (elems (cgens g ! k)). export c lm v =
      (let n = (the_real (nth3 c v) - mn) / (mx - mn)
       in Fin (if n < 0 then 1 / 100000 else if 1 < n then 1 - 1 / 100000 else n))"
  proof
    fix v assume "v \<in> set (elems (cgens g ! k))"
    then obtain s where s: "nth3 c v = Fin s" using fin by blast
    show "export c lm v =
      (let n = (the_real (nth3 c v) - mn) / (mx - mn)
       in Fin (if n < 0 then 1 / 100000 else if 1 < n then 1 - 1 / 100000 else n))"
      unfolding export_finite [OF assms(5,6) s] by (simp add: s Let_def)
  qed
  ultimately show ?thesis
    by (simp add: ret all_elems_def list_all_iff)
qed

theorem Lorenz_evolve_unit_interval_witness:
  "Lorenz_evolve euler_step ex_lims ex_lorenz 0 =
     Inr (\<lparr>shape = [1], elems = [Fin 0]\<rparr>,
          ex_lorenz\<lparr>cgens := [\<lparr>shape = [1], elems = [(Fin (- 18), Fin (- (3 / 5)), Fin (73 / 3))]\<rparr>,
                               \<lparr>shape = [1], elems = [(Fin 10, Fin 0, Fin (25 / 2))]\<rparr>]\<rparr>)
   \<and> py_index (length (cgens ex_lorenz)) 0 = Inr 0
   \<and> py_index 3 (comp ex_lorenz) = Inr 0
   \<and> ex_lims (params ex_lorenz) = Some (ex_box ex_params)
   \<and> nth3 0 (ex_box ex_params) = (Fin (- 20), Fin 20)
   \<and> all_elems (\<lambda>v. finite64 (nth3 0 v)) (cgens ex_lorenz ! 0)
   \<and> all_elems in_unit \<lparr>shape = [1], elems = [Fin 0]\<rparr>"
proof -
  have a: "py_index (length (cgens ex_lorenz)) 0 = Inr 0"
    and b: "py_index 3 (comp ex_lorenz) = Inr 0"
    and c: "ex_lims (params ex_lorenz) = Some (ex_box ex_params)"
    and d: "nth3 0 (ex_box ex_params) = (Fin (- 20), Fin 20)"
    and e: "all_elems (\<lambda>v. finite64 (nth3 0 v)) (cgens ex_lorenz ! 0)"
    by (simp_all add: py_index_def ex_lorenz_def ex_lims_def ex_box_def all_elems_def finite64_def)
  have f: "(- 20 :: real) < 20" by simp
  from Lorenz_evolve_unit_interval [where lims = ex_lims, OF ex_lorenz_step a b c d f e]
  have "all_elems in_unit \<lparr>shape = [1], elems = [Fin 0]\<rparr>"
    by (rule conjunct1)
  with ex_lorenz_step a b c d e show ?thesis
    by (intro conjI)
qed

text \<open>
  C2, as the specification states it: a cached \<open>min = max\<close> is detected by \<open>evolve\<close>
  and signalled as an error. It fails on the generator the constructor builds for
  \<open>sigma = 0\<close>: \<open>evolve\<close> divides by zero, raises nothing and returns NaN.
\<close>

theorem Lorenz_evolve_returns_nan:
  "Lorenz_evolve euler_step flat_lims flat_lorenz 0 =
     Inr (\<lparr>shape = [1], elems = [NaN]\<rparr>,
          flat_lorenz\<lparr>cgens := [\<lparr>shape = [1], elems = [(Fin (1 / 2), Fin (3 / 200), Fin (73 / 3))]\<rparr>,
                                 \<lparr>shape = [1], elems = [(Fin (1 / 2), Fin 0, Fin (25 / 2))]\<rparr>]\<rparr>)"
  by (rule flat_lorenz_step)

text \<open>
  C2, amended. When the cached bounds of the exported coordinate are one finite number
  \<open>m\<close>, the Lorenz \<open>evolve\<close> does not detect it: on a well-formed slot it raises no
  error, performs the division and returns \<open>eps\<close> where the coordinate is below \<open>m\<close>,
  \<open>1 - eps\<close> where it is above, and NaN where it equals \<open>m\<close> (or is NaN itself); the
  slot is advanced as usual.
\<close>

theorem Lorenz_evolve_degenerate_box:
  assumes "py_index (length (cgens g)) gind = Inr k"
    and "py_index 3 (comp g) = Inr c"
    and "lims (params g) = Some lm"
    and "length (elems (cgens g ! k)) = prod_list (butlast (gshape g))"
    and "nth3 c lm = (Fin m, Fin m)"
  shows "Lorenz_evolve ode lims g gind =
     Inr (np_map (\<lambda>v. if f_lt (nth3 c v) (Fin m) then eps
                       else if f_gt (nth3 c v) (Fin m) then f_sub (Fin 1) eps
                       else NaN) (cgens g ! k),
          g\<lparr>cgens := (cgens g)[k := np_map (ode (params g) (h g) 1) (cgens g ! k)]\<rparr>)"
proof -
  have "export c lm = (\<lambda>v. if f_lt (nth3 c v) (Fin m) then eps
                       else if f_gt (nth3 c v) (Fin m) then f_sub (Fin 1) eps
                       else NaN)"
    using export_degenerate [OF assms(5)] by (intro ext) simp
  then show ?thesis
    using Lorenz_evolve_eq [where lims = lims and ode = ode, OF assms(1-4)] by simp
qed

theorem Lorenz_evolve_degenerate_box_witness:
  "py_index (length (cgens flat_lorenz)) 0 = Inr 0
   \<and> py_index 3 (comp flat_lorenz) = Inr 0
   \<and> flat_lims (params flat_lorenz) = Some (flat_box flat_params)
   \<and> length (elems (cgens flat_lorenz ! 0)) = prod_list (butlast (gshape flat_lorenz))
   \<and> nth3 0 (flat_box flat_params) = (Fin (1 / 2), Fin (1 / 2))
   \<and> Lorenz_evolve euler_step flat_lims flat_lorenz 0 =
       Inr (\<lparr>shape = [1], elems = [NaN]\<rparr>,
            flat_lorenz\<lparr>cgens := [\<lparr>shape = [1], elems = [(Fin (1 / 2), Fin (3 / 200), Fin (73 / 3))]\<rparr>,
                                   \<lparr>shape = [1], elems = [(Fin (1 / 2), Fin 0, Fin (25 / 2))]\<rparr>]\<rparr>)"
proof -
  have a: "py_index (length (cgens flat_lorenz)) 0 = Inr 0"
    and b: "py_index 3 (comp flat_lorenz) = Inr 0"
    and c: "flat_lims (params flat_lorenz) = Some (flat_box flat_params)"
    and d: "length (elems (cgens flat_lorenz ! 0)) = prod_list (butlast (gshape flat_lorenz))"
    and e: "nth3 0 (flat_box flat_params) = (Fin (1 / 2), Fin (1 / 2))"
    by (simp_all add: py_index_def flat_lorenz_def flat_lims_def flat_box_def)
  from Lorenz_evolve_degenerate_box [where lims = flat_lims and ode = euler_step, OF a b c d e]
  have "Lorenz_evolve euler_step flat_lims flat_lorenz 0 =
       Inr (\<lparr>shape = [1], elems = [NaN]\<rparr>,
            flat_lorenz\<lparr>cgens := [\<lparr>shape = [1], elems = [(Fin (1 / 2), Fin (3 / 200), Fin (73 / 3))]\<rparr>,
                                   \<lparr>shape = [1], elems = [(Fin (1 / 2), Fin 0, Fin (25 / 2))]\<rparr>]\<rparr>)"
    by (simp add: flat_lorenz_def flat_params_def np_map_def euler_step_def f_lt_def f_gt_def f_sub_def)
  with a b c d e show ?thesis by simp
qed

text \<open>
  C5. For every Tent generator and every slot index that selects a slot \<open>k\<close>, \<open>evolve\<close>
  returns the array held in slot \<open>k\<close> before the call and leaves in slot \<open>k\<close> the
  array of the same shape whose elements are the tent map of the old ones. On finite
  values, with \<open>mu\<close> not 0, an entry \<open>x \<le> mu\<close> becomes \<open>x/mu\<close>; with \<open>mu\<close> not 1, an
  entry \<open>x > mu\<close> becomes \<open>(1-x)/(1-mu)\<close>; an entry equal to a nonzero \<open>mu\<close>
  becomes 1.
\<close>

theorem Tent_evolve_pre_image:
  assumes "py_index (length (cgens g)) gind = Inr k"
  shows "Tent_evolve g gind =
       Inr (cgens g ! k, g\<lparr>cgens := (cgens g)[k := np_map (tent_map (mu g)) (cgens g ! k)]\<rparr>)
     \<and> (cgens g)[k := np_map (tent_map (mu g)) (cgens g ! k)] ! k
         = \<lparr>shape = shape (cgens g ! k), elems = map (tent_map (mu g)) (elems (cgens g ! k))\<rparr>
     \<and> (x1 \<le> m \<longrightarrow> m \<noteq> 0 \<longrightarrow> tent_map (Fin m) (Fin x1) = Fin (x1 / m))
     \<and> (m < x2 \<longrightarrow> m \<noteq> 1 \<longrightarrow> tent_map (Fin m) (Fin x2) = Fin ((1 - x2) / (1 - m)))
     \<and> (m \<noteq> 0 \<longrightarrow> tent_map (Fin m) (Fin m) = Fin 1)"
  using py_index_bound [OF assms] tent_map_finite_le [of m m]
  by (simp add: Tent_evolve_eq [OF assms] tent_map_finite_le tent_map_finite_gt np_map_def)

theorem Tent_evolve_pre_image_witness:
  "py_index (length (cgens ex_tent)) 0 = Inr 0
   \<and> (1 / 4 :: real) \<le> 49999 / 100000 \<and> (49999 / 100000 :: real) \<noteq> 0
   \<and> (49999 / 100000 :: real) < 1 / 2 \<and> (49999 / 100000 :: real) \<noteq> 1
   \<and> Tent_evolve ex_tent 0 =
       Inr (\<lparr>shape = [2], elems = [Fin (1 / 2), Fin (1 / 4)]\<rparr>,
            ex_tent\<lparr>cgens := [\<lparr>shape = [2], elems = [Fin (50000 / 50001), Fin (25000 / 49999)]\<rparr>,
                              \<lparr>shape = [2], elems = [Fin 0, Fin (3 / 4)]\<rparr>]\<rparr>)
   \<and> tent_map (Fin (49999 / 100000)) (Fin (49999 / 100000)) = Fin 1"
proof -
  have i: "py_index (length (cgens ex_tent)) 0 = Inr 0"
    by (simp add: ex_tent_eq py_index_def)
  from Tent_evolve_pre_image [OF i, of "1 / 4" "49999 / 100000" "1 / 2"] i show ?thesis
    by (simp add: ex_tent_eq np_map_def)
qed

text \<open>
  C8. For each of the three variants, a call of \<open>evolve\<close> that returns has selected a
  slot \<open>k\<close>, and the generator it leaves is the old one with slot \<open>k\<close> replaced: every
  other slot and every other field is unchanged. The Logistic and Tent \<open>evolve\<close> return
  the array that slot \<open>k\<close> held before the call; the Lorenz \<open>evolve\<close> returns the
  normalised and clamped coordinate \<open>comp\<close> of the state that slot \<open>k\<close> held before
  the call.
\<close>

theorem evolve_frame:
  "(Logistic_evolve gl gind = Inr (retl, gl') \<longrightarrow>
      (\<exists>k. py_index (length (cgens gl)) gind = Inr k \<and> retl = cgens gl ! k
         \<and> gl' = gl\<lparr>cgens := (cgens gl)[k := cgens gl' ! k]\<rparr>
         \<and> (\<forall>j. j \<noteq> k \<longrightarrow> cgens gl' ! j = cgens gl ! j)))
   \<and> (Tent_evolve gt gind = Inr (rett, gt') \<longrightarrow>
      (\<exists>k. py_index (length (cgens gt)) gind = Inr k \<and> rett = cgens gt ! k
         \<and> gt' = gt\<lparr>cgens := (cgens gt)[k := cgens gt' ! k]\<rparr>
         \<and> (\<forall>j. j \<noteq> k \<longrightarrow> cgens gt' ! j = cgens gt ! j)))
   \<and> (Lorenz_evolve ode lims gz gind = Inr (retz, gz') \<longrightarrow>
      (\<exists>k c lm. py_index (length (cgens gz)) gind = Inr k \<and> py_index 3 (comp gz) = Inr c
         \<and> lims (params gz) = Some lm \<and> retz = np_map (export c lm) (cgens gz ! k)
         \<and> gz' = gz\<lparr>cgens := (cgens gz)[k := cgens gz' ! k]\<rparr>
         \<and> (\<forall>j. j \<noteq> k \<longrightarrow> cgens gz' ! j = cgens gz ! j)))"
proof (intro conjI impI)
  assume a: "Logistic_evolve gl gind = Inr (retl, gl')"
  then obtain k where k: "py_index (length (cgens gl)) gind = Inr k"
    by (auto simp: Logistic_evolve_def split: sum.splits)
  from a Logistic_evolve_eq [OF k] py_index_bound [OF k]
  have "retl = cgens gl ! k \<and> gl' = gl\<lparr>cgens := (cgens gl)[k := cgens gl' ! k]\<rparr>"
    by auto
  moreover from this have "\<forall>j. j \<noteq> k \<longrightarrow> cgens gl' ! j = cgens gl ! j"
    by (metis (no_types, lifting) ChaosGenerator.select_convs(5) ChaosGenerator.surjective
        ChaosGenerator.update_convs(5) nth_list_update_neq)
  ultimately show "\<exists>k. py_index (length (cgens gl)) gind = Inr k \<and> retl = cgens gl ! k
         \<and> gl' = gl\<lparr>cgens := (cgens gl)[k := cgens gl' ! k]\<rparr>
         \<and> (\<forall>j. j \<noteq> k \<longrightarrow> cgens gl' ! j = cgens gl ! j)"
    using k by blast
next
  assume a: "Tent_evolve gt gind = Inr (rett, gt')"
  then obtain k where k: "py_index (length (cgens gt)) gind = Inr k"
    by (auto simp: Tent_evolve_def split: sum.splits)
  from a Tent_evolve_eq [OF k] py_index_bound [OF k]
  have "rett = cgens gt ! k \<and> gt' = gt\<lparr>cgens := (cgens gt)[k := cgens gt' ! k]\<rparr>"
    by auto
  moreover from this have "\<forall>j. j \<noteq> k \<longrightarrow> cgens gt' ! j = cgens gt ! j"
    by (metis (no_types, lifting) ChaosGenerator.select_convs(5) ChaosGenerator.surjective
        ChaosGenerator.update_convs(5) nth_list_update_neq)
  ultimately show "\<exists>k. py_index (length (cgens gt)) gind = Inr k \<and> rett = cgens gt ! k
         \<and> gt' = gt\<lparr>cgens := (cgens gt)[k := cgens gt' ! k]\<rparr>
         \<and> (\<forall>j. j \<noteq> k \<longrightarrow> cgens gt' ! j = cgens gt ! j)"
    using k by blast
next
  assume a: "Lorenz_evolve ode lims gz gind = Inr (retz, gz')"
  from Lorenz_evolve_frame [OF a] obtain k c lm where
    *: "py_index (length (cgens gz)) gind = Inr k" "py_index 3 (comp gz) = Inr c"
       "lims (params gz) = Some lm" "retz = np_map (export c lm) (cgens gz ! k)"
       "gz' = gz\<lparr>cgens := (cgens gz)[k := cgens gz' ! k]\<rparr>"
    by blast
  from *(5) have "\<forall>j. j \<noteq> k \<longrightarrow> cgens gz' ! j = cgens gz ! j"
    by (metis (no_types, lifting) ChaosGenerator.select_convs(5) ChaosGenerator.surjective
        ChaosGenerator.update_convs(5) nth_list_update_neq)
  with * show "\<exists>k c lm. py_index (length (cgens gz)) gind = Inr k \<and> py_index 3 (comp gz) = Inr c
         \<and> lims (params gz) = Some lm \<and> retz = np_map (export c lm) (cgens gz ! k)
         \<and> gz' = gz\<lparr>cgens := (cgens gz)[k := cgens gz' ! k]\<rparr>
         \<and> (\<forall>j. j \<noteq> k \<longrightarrow> cgens gz' ! j = cgens gz ! j)"
    by blast
qed

theorem evolve_frame_witness:
  "Logistic_evolve ex_logistic 0 =
     Inr (\<lparr>shape = [2], elems = [Fin (1 / 2), Fin (1 / 4)]\<rparr>,
          ex_logistic\<lparr>cgens := [\<lparr>shape = [2], elems = [Fin 1, Fin (3 / 4)]\<rparr>,
                                \<lparr>shape = [2], elems = [Fin 0, Fin (3 / 4)]\<rparr>]\<rparr>)
   \<and> Tent_evolve ex_tent 0 =
     Inr (\<lparr>shape = [2], elems = [Fin (1 / 2), Fin (1 / 4)]\<rparr>,
          ex_tent\<lparr>cgens := [\<lparr>shape = [2], elems = [Fin (50000 / 50001), Fin (25000 / 49999)]\<rparr>,
                            \<lparr>shape = [2], elems = [Fin 0, Fin (3 / 4)]\<rparr>]\<rparr>)
   \<and> Lorenz_evolve euler_step ex_lims ex_lorenz 0 =
     Inr (\<lparr>shape = [1], elems = [Fin 0]\<rparr>,
          ex_lorenz\<lparr>cgens := [\<lparr>shape = [1], elems = [(Fin (- 18), Fin (- (3 / 5)), Fin (73 / 3))]\<rparr>,
                               \<lparr>shape = [1], elems = [(Fin 10, Fin 0, Fin (25 / 2))]\<rparr>]\<rparr>)
   \<and> (\<exists>k. py_index (length (cgens ex_logistic)) 0 = Inr k
         \<and> \<lparr>shape = [2], elems = [Fin (1 / 2), Fin (1 / 4)]\<rparr> = cgens ex_logistic ! k)
   \<and> (\<exists>k. py_index (length (cgens ex_tent)) 0 = Inr k
         \<and> \<lparr>shape = [2], elems = [Fin (1 / 2), Fin (1 / 4)]\<rparr> = cgens ex_tent ! k)
   \<and> (\<exists>k c lm. py_index (length (cgens ex_lorenz)) 0 = Inr k \<and> py_index 3 (comp ex_lorenz) = Inr c
         \<and> ex_lims (params ex_lorenz) = Some lm
         \<and> \<lparr>shape = [1], elems = [Fin 0]\<rparr> = np_map (export c lm) (cgens ex_lorenz ! k))"
  using evolve_frame [of ex_logistic 0 _ _ ex_tent _ _ euler_step ex_lims ex_lorenz _ _]
    ex_logistic_step ex_tent_step ex_lorenz_step
  by (intro conjI) blast+

text \<open>
  C3. For a Logistic generator with \<open>r = 4\<close> and for a Tent generator with
  \<open>mu = 0.49999\<close>: if every entry of the State Container is a finite value in
  \<open>[0, 1]\<close>, then a call of \<open>evolve\<close> returns only values in \<open>[0, 1]\<close> and leaves
  every entry in \<open>[0, 1]\<close>; and so does any sequence of calls of \<open>chaosPoints\<close>,
  however long and with whatever indices: every value of every produced array lies in
  \<open>[0, 1]\<close>.
\<close>

theorem unit_interval_invariant:
  "(r gl = Fin 4 \<longrightarrow> all_state in_unit gl \<longrightarrow>
      (Logistic_evolve gl gind = Inr (retl, gl') \<longrightarrow>
         all_elems in_unit retl \<and> all_state in_unit gl')
    \<and> (produce_many Logistic_evolve gl gnos = Inr (outsl, gl'') \<longrightarrow>
         list_all (all_elems in_unit) outsl \<and> all_state in_unit gl''))
   \<and> (mu gt = Fin (49999 / 100000) \<longrightarrow> all_state in_unit gt \<longrightarrow>
      (Tent_evolve gt gind = Inr (rett, gt') \<longrightarrow>
         all_elems in_unit rett \<and> all_state in_unit gt')
    \<and> (produce_many Tent_evolve gt gnos = Inr (outst, gt'') \<longrightarrow>
         list_all (all_elems in_unit) outst \<and> all_state in_unit gt''))"
proof (intro conjI impI)
  assume q: "r gl = Fin 4" "all_state in_unit gl"
  { assume "Logistic_evolve gl gind = Inr (retl, gl')"
    with Logistic_evolve_unit [of gl gind retl gl'] q
    show "all_elems in_unit retl" "all_state in_unit gl'" by simp_all }
  { assume "produce_many Logistic_evolve gl gnos = Inr (outsl, gl'')"
    with produce_many_invariant [of "\<lambda>g. r g = Fin 4 \<and> all_state in_unit g"
        Logistic_evolve in_unit gl gnos outsl gl'', OF Logistic_evolve_unit] q
    show "list_all (all_elems in_unit) outsl" "all_state in_unit gl''" by simp_all }
next
  assume q: "mu gt = Fin (49999 / 100000)" "all_state in_unit gt"
  { assume "Tent_evolve gt gind = Inr (rett, gt')"
    with Tent_evolve_unit [of gt gind rett gt'] q
    show "all_elems in_unit rett" "all_state in_unit gt'" by simp_all }
  { assume "produce_many Tent_evolve gt gnos = Inr (outst, gt'')"
    with produce_many_invariant [of "\<lambda>g. mu g = Fin (49999 / 100000) \<and> all_state in_unit g"
        Tent_evolve in_unit gt gnos outst gt'', OF Tent_evolve_unit] q
    show "list_all (all_elems in_unit) outst" "all_state in_unit gt''" by simp_all }
qed

theorem unit_interval_invariant_witness:
  "r ex_logistic = Fin 4 \<and> all_state in_unit ex_logistic
   \<and> Logistic_evolve ex_logistic 0 =
     Inr (\<lparr>shape = [2], elems = [Fin (1 / 2), Fin (1 / 4)]\<rparr>,
          ex_logistic\<lparr>cgens := [\<lparr>shape = [2], elems = [Fin 1, Fin (3 / 4)]\<rparr>,
                                \<lparr>shape = [2], elems = [Fin 0, Fin (3 / 4)]\<rparr>]\<rparr>)
   \<and> produce_many Logistic_evolve ex_logistic [1, 2] =
     Inr ([\<lparr>shape = [2, 2], elems = [Fin (1 / 2), Fin (1 / 4), Fin 1, Fin (3 / 4)]\<rparr>,
           \<lparr>shape = [2, 2], elems = [Fin 0, Fin (3 / 4), Fin 0, Fin (3 / 4)]\<rparr>],
          ex_logistic\<lparr>cgens := [\<lparr>shape = [2], elems = [Fin 0, Fin (3 / 4)]\<rparr>,
                                \<lparr>shape = [2], elems = [Fin 0, Fin (3 / 4)]\<rparr>]\<rparr>)
   \<and> list_all (all_elems in_unit)
        [\<lparr>shape = [2, 2], elems = [Fin (1 / 2), Fin (1 / 4), Fin 1, Fin (3 / 4)]\<rparr>,
         \<lparr>shape = [2, 2], elems = [Fin 0, Fin (3 / 4), Fin 0, Fin (3 / 4)]\<rparr>]
   \<and> mu ex_tent = Fin (49999 / 100000) \<and> all_state in_unit ex_tent
   \<and> Tent_evolve ex_tent 0 =
     Inr (\<lparr>shape = [2], elems = [Fin (1 / 2), Fin (1 / 4)]\<rparr>,
          ex_tent\<lparr>cgens := [\<lparr>shape = [2], elems = [Fin (50000 / 50001), Fin (25000 / 49999)]\<rparr>,
                            \<lparr>shape = [2], elems = [Fin 0, Fin (3 / 4)]\<rparr>]\<rparr>)
   \<and> produce_many Tent_evolve ex_tent [1, 2] =
     Inr ([\<lparr>shape = [2, 2],
            elems = [Fin (1 / 2), Fin (1 / 4), Fin (50000 / 50001), Fin (25000 / 49999)]\<rparr>,
           \<lparr>shape = [2, 2], elems = [Fin 0, Fin (3 / 4), Fin 0, Fin (25000 / 50001)]\<rparr>],
          ex_tent\<lparr>cgens :=
            [\<lparr>shape = [2], elems = [Fin (100000 / 2500100001), Fin (833300000 / 833333333)]\<rparr>,
             \<lparr>shape = [2], elems = [Fin 0, Fin (2500100000 / 2500100001)]\<rparr>]\<rparr>)
   \<and> list_all (all_elems in_unit)
        [\<lparr>shape = [2, 2],
          elems = [Fin (1 / 2), Fin (1 / 4), Fin (50000 / 50001), Fin (25000 / 49999)]\<rparr>,
         \<lparr>shape = [2, 2], elems = [Fin 0, Fin (3 / 4), Fin 0, Fin (25000 / 50001)]\<rparr>]"
  using unit_interval_invariant [of ex_logistic 0 _ _ "[1, 2]" _ _ ex_tent]
    ex_unit ex_logistic_step ex_logistic_run ex_tent_step ex_tent_run
  by (intro conjI) blast+

text \<open>
  C6, as the specification states it, says that in cascade mode the array returned by
  \<^verbatim>\<open>chaosPoints(k)\<close> for \<open>k \<ge> 1\<close> has the owner shape, for every generator. For an owner
  shape with no particle this is false: the Logistic generator built for the owner
  shape \<open>(0, 2)\<close> is well formed, and \<^verbatim>\<open>chaosPoints(1)\<close> returns \<^verbatim>\<open>np.array([])\<close>, of
  shape \<open>(0,)\<close>, without calling \<^verbatim>\<open>evolve\<close>.
\<close>

theorem cascade_no_particles:
  "wf_gen empty_logistic \<and> cascade empty_logistic \<and> oshape empty_logistic = [0, 2]
   \<and> gens empty_logistic = 2
   \<and> chaosPoints Logistic_evolve empty_logistic 1 =
       Inr (\<lparr>shape = [0], elems = []\<rparr>, empty_logistic)
   \<and> shape \<lparr>shape = [0], elems = [] :: f64 list\<rparr> \<noteq> oshape empty_logistic"
  by (simp add: empty_logistic_eq wf_gen_def wf_slot_def cell_shape_def
      chaosPoints_def chaosPoints_gno_def np_array_def)

text \<open>
  C6, amended. For a well-formed generator in cascade mode with at least one particle
  and a generator index \<open>1 \<le> gno \<le> gens\<close>, \<open>chaosPoints gno\<close> returns an array of the
  owner shape. For the Logistic and the Tent generator its first row is the selected
  slot and row \<open>p + 1\<close> is the map applied elementwise to row \<open>p\<close>. For the Lorenz
  generator, whose state has three coordinates per cell, a row is not a function of
  the row before it: row \<open>p\<close> is the exported (normalised and clamped) coordinate of
  the three-coordinate state after \<open>p\<close> steps of the flow, so row \<open>p + 1\<close> comes from the
  flow applied to the state behind row \<open>p\<close>. With no particle (first axis of the owner
  shape 0), for any variant and any \<open>gno \<noteq> 0\<close>, the result is the empty array of shape
  \<open>(0,)\<close> and the generator is left as it was.
\<close>

theorem cascade_rows:
  "(wf_gen gl \<longrightarrow> cascade gl \<longrightarrow> oshape gl \<noteq> [] \<longrightarrow> 0 < hd (oshape gl) \<longrightarrow>
    1 \<le> gno \<longrightarrow> gno \<le> int (gens gl) \<longrightarrow>
      (\<exists>out gl'. chaosPoints Logistic_evolve gl gno = Inr (out, gl')
         \<and> shape out = oshape gl
         \<and> np_nth out 0 = cgens gl ! nat (gno - 1)
         \<and> (\<forall>p. Suc p < hd (oshape gl) \<longrightarrow>
               np_nth out (Suc p) = np_map (logistic_map (r gl)) (np_nth out p))))
   \<and> (wf_gen gt \<longrightarrow> cascade gt \<longrightarrow> oshape gt \<noteq> [] \<longrightarrow> 0 < hd (oshape gt) \<longrightarrow>
    1 \<le> gno \<longrightarrow> gno \<le> int (gens gt) \<longrightarrow>
      (\<exists>out gt'. chaosPoints Tent_evolve gt gno = Inr (out, gt')
         \<and> shape out = oshape gt
         \<and> np_nth out 0 = cgens gt ! nat (gno - 1)
         \<and> (\<forall>p. Suc p < hd (oshape gt) \<longrightarrow>
               np_nth out (Suc p) = np_map (tent_map (mu gt)) (np_nth out p))))
   \<and> (wf_gen gz \<longrightarrow> cascade gz \<longrightarrow> oshape gz \<noteq> [] \<longrightarrow> 0 < hd (oshape gz) \<longrightarrow>
    1 \<le> gno \<longrightarrow> gno \<le> int (gens gz) \<longrightarrow>
    gshape gz = cell_shape gz @ [3] \<longrightarrow> py_index 3 (comp gz) = Inr c \<longrightarrow>
    lims (params gz) = Some lm \<longrightarrow>
      (\<exists>out gz'. chaosPoints (Lorenz_evolve ode lims) gz gno = Inr (out, gz')
         \<and> shape out = oshape gz
         \<and> (\<forall>p. p < hd (oshape gz) \<longrightarrow>
               np_nth out p =
                 np_map (export c lm)
                   (np_map (ode (params gz) (h gz) 1 ^^ p) (cgens gz ! nat (gno - 1))))))
   \<and> (cascade ge \<longrightarrow> oshape ge \<noteq> [] \<longrightarrow> hd (oshape ge) = 0 \<longrightarrow> gno \<noteq> 0 \<longrightarrow>
        chaosPoints ev ge gno = Inr (\<lparr>shape = [0], elems = []\<rparr>, ge))"
proof (intro conjI impI)
  assume wf: "wf_gen gl" and c: "cascade gl" "oshape gl \<noteq> []" "0 < hd (oshape gl)"
    and g: "1 \<le> gno" "gno \<le> int (gens gl)"
  let ?k = "nat (gno - 1)"
  let ?f = "logistic_map (r gl)"
  let ?out = "cascade_out (hd (oshape gl)) (\<lambda>x. x) ?f (cgens gl ! ?k)"
  have len: "length (cgens gl) = gens gl" using wf by (simp add: wf_gen_def)
  have i: "py_index (length (cgens gl)) (gno - 1) = Inr ?k"
    using g len by (simp add: py_index_pos)
  have k: "?k < length (cgens gl)" by (rule py_index_bound [OF i])
  have "chaosPoints_gno Logistic_evolve gl gno =
      Inr (?out, gl\<lparr>cgens := (cgens gl)[?k := slot_next True (oshape gl) ?f (cgens gl ! ?k)]\<rparr>)"
    using Logistic_chaosPoints_gno [OF i] c by (simp add: slot_out_def)
  then have 1: "chaosPoints Logistic_evolve gl gno =
      Inr (?out, gl\<lparr>cgens := (cgens gl)[?k := slot_next True (oshape gl) ?f (cgens gl ! ?k)]\<rparr>)"
    using g by (simp add: chaosPoints_def)
  have 2: "shape ?out = oshape gl" using wf c k by (rule cascade_out_shape)
  have row: "np_nth ?out p = np_map (\<lambda>x. (?f ^^ p) x) (cgens gl ! ?k)" if "p < hd (oshape gl)" for p
    using wf_gen_slot(2) [OF wf k] that by (rule np_nth_cascade_out)
  have 3: "np_nth ?out 0 = cgens gl ! ?k"
    using row [OF c(3)] by (simp add: np_map_def)
  have 4: "np_nth ?out (Suc p) = np_map ?f (np_nth ?out p)" if "Suc p < hd (oshape gl)" for p
    using row [OF that] row [of p] that by (simp add: np_map_def)
  from 1 2 3 4 show "\<exists>out gl'. chaosPoints Logistic_evolve gl gno = Inr (out, gl')
         \<and> shape out = oshape gl
         \<and> np_nth out 0 = cgens gl ! nat (gno - 1)
         \<and> (\<forall>p. Suc p < hd (oshape gl) \<longrightarrow>
               np_nth out (Suc p) = np_map (logistic_map (r gl)) (np_nth out p))"
    by blast
next
  assume wf: "wf_gen gt" and c: "cascade gt" "oshape gt \<noteq> []" "0 < hd (oshape gt)"
    and g: "1 \<le> gno" "gno \<le> int (gens gt)"
  let ?k = "nat (gno - 1)"
  let ?f = "tent_map (mu gt)"
  let ?out = "cascade_out (hd (oshape gt)) (\<lambda>x. x) ?f (cgens gt ! ?k)"
  have len: "length (cgens gt) = gens gt" using wf by (simp add: wf_gen_def)
  have i: "py_index (length (cgens gt)) (gno - 1) = Inr ?k"
    using g len by (simp add: py_index_pos)
  have k: "?k < length (cgens gt)" by (rule py_index_bound [OF i])
  have "chaosPoints_gno Tent_evolve gt gno =
      Inr (?out, gt\<lparr>cgens := (cgens gt)[?k := slot_next True (oshape gt) ?f (cgens gt ! ?k)]\<rparr>)"
    using Tent_chaosPoints_gno [OF i] c by (simp add: slot_out_def)
  then have 1: "chaosPoints Tent_evolve gt gno =
      Inr (?out, gt\<lparr>cgens := (cgens gt)[?k := slot_next True (oshape gt) ?f (cgens gt ! ?k)]\<rparr>)"
    using g by (simp add: chaosPoints_def)
  have 2: "shape ?out = oshape gt" using wf c k by (rule cascade_out_shape)
  have row: "np_nth ?out p = np_map (\<lambda>x. (?f ^^ p) x) (cgens gt ! ?k)" if "p < hd (oshape gt)" for p
    using wf_gen_slot(2) [OF wf k] that by (rule np_nth_cascade_out)
  have 3: "np_nth ?out 0 = cgens gt ! ?k"
    using row [OF c(3)] by (simp add: np_map_def)
  have 4: "np_nth ?out (Suc p) = np_map ?f (np_nth ?out p)" if "Suc p < hd (oshape gt)" for p
    using row [OF that] row [of p] that by (simp add: np_map_def)
  from 1 2 3 4 show "\<exists>out gt'. chaosPoints Tent_evolve gt gno = Inr (out, gt')
         \<and> shape out = oshape gt
         \<and> np_nth out 0 = cgens gt ! nat (gno - 1)
         \<and> (\<forall>p. Suc p < hd (oshape gt) \<longrightarrow>
               np_nth out (Suc p) = np_map (tent_map (mu gt)) (np_nth out p))"
    by blast
next
  assume wf: "wf_gen gz" and c: "cascade gz" "oshape gz \<noteq> []" "0 < hd (oshape gz)"
    and g: "1 \<le> gno" "gno \<le> int (gens gz)"
    and z: "gshape gz = cell_shape gz @ [3]" "py_index 3 (comp gz) = Inr c"
      "lims (params gz) = Some lm"
  let ?k = "nat (gno - 1)"
  let ?f = "ode (params gz) (h gz) 1"
  let ?out = "cascade_out (hd (oshape gz)) (export c lm) ?f (cgens gz ! ?k)"
  have len: "length (cgens gz) = gens gz" using wf by (simp add: wf_gen_def)
  have i: "py_index (length (cgens gz)) (gno - 1) = Inr ?k"
    using g len by (simp add: py_index_pos)
  have k: "?k < length (cgens gz)" by (rule py_index_bound [OF i])
  have ls: "list_all (\<lambda>a. length (elems a) = prod_list (butlast (gshape gz))) (cgens gz)"
    using wf z(1) by (simp add: wf_gen_def wf_slot_def list_all_iff)
  have "chaosPoints_gno (Lorenz_evolve ode lims) gz gno =
      Inr (?out, gz\<lparr>cgens := (cgens gz)[?k := slot_next True (oshape gz) ?f (cgens gz ! ?k)]\<rparr>)"
    using Lorenz_chaosPoints_gno [where ode = ode and lims = lims and g = gz, OF i z(2,3) ls] c
    by (simp add: slot_out_def)
  then have 1: "chaosPoints (Lorenz_evolve ode lims) gz gno =
      Inr (?out, gz\<lparr>cgens := (cgens gz)[?k := slot_next True (oshape gz) ?f (cgens gz ! ?k)]\<rparr>)"
    using g by (simp add: chaosPoints_def)
  have 2: "shape ?out = oshape gz" using wf c k by (rule cascade_out_shape)
  have row: "np_nth ?out p = np_map (export c lm) (np_map (?f ^^ p) (cgens gz ! ?k))"
    if "p < hd (oshape gz)" for p
    using np_nth_cascade_out [OF wf_gen_slot(2) [OF wf k] that, of "export c lm" ?f]
    by (simp add: np_map_def)
  from 1 2 row show "\<exists>out gz'. chaosPoints (Lorenz_evolve ode lims) gz gno = Inr (out, gz')
         \<and> shape out = oshape gz
         \<and> (\<forall>p. p < hd (oshape gz) \<longrightarrow>
               np_nth out p =
                 np_map (export c lm)
                   (np_map (ode (params gz) (h gz) 1 ^^ p) (cgens gz ! nat (gno - 1))))"
    by blast
next
  assume "cascade ge" "oshape ge \<noteq> []" "hd (oshape ge) = 0" "gno \<noteq> 0"
  then show "chaosPoints ev ge gno = Inr (\<lparr>shape = [0], elems = []\<rparr>, ge)"
    by (rule chaosPoints_no_particles)
qed

theorem cascade_rows_witness:
  "wf_gen ex_logistic \<and> cascade ex_logistic \<and> oshape ex_logistic \<noteq> []
   \<and> 0 < hd (oshape ex_logistic) \<and> (1 :: int) \<le> 1 \<and> 1 \<le> int (gens ex_logistic)
   \<and> (\<exists>out g'. chaosPoints Logistic_evolve ex_logistic 1 = Inr (out, g')
        \<and> shape out = oshape ex_logistic
        \<and> np_nth out (Suc 0) = np_map (logistic_map (r ex_logistic)) (np_nth out 0))
   \<and> wf_gen ex_tent \<and> cascade ex_tent \<and> oshape ex_tent \<noteq> []
   \<and> 0 < hd (oshape ex_tent) \<and> 1 \<le> int (gens ex_tent)
   \<and> (\<exists>out g'. chaosPoints Tent_evolve ex_tent 1 = Inr (out, g')
        \<and> shape out = oshape ex_tent
        \<and> np_nth out (Suc 0) = np_map (tent_map (mu ex_tent)) (np_nth out 0))
   \<and> wf_gen ex_lorenz \<and> cascade ex_lorenz \<and> oshape ex_lorenz \<noteq> []
   \<and> 0 < hd (oshape ex_lorenz) \<and> 1 \<le> int (gens ex_lorenz)
   \<and> gshape ex_lorenz = cell_shape ex_lorenz @ [3] \<and> py_index 3 (comp ex_lorenz) = Inr 0
   \<and> ex_lims (params ex_lorenz) = Some (ex_box ex_params)
   \<and> (\<exists>out g'. chaosPoints (Lorenz_evolve euler_step ex_lims) ex_lorenz 1 = Inr (out, g')
        \<and> shape out = oshape ex_lorenz
        \<and> np_nth out (Suc 0) =
            np_map (export 0 (ex_box ex_params))
              (np_map (euler_step (params ex_lorenz) (h ex_lorenz) 1 ^^ Suc 0)
                (cgens ex_lorenz ! nat (1 - 1))))
   \<and> cascade empty_logistic \<and> oshape empty_logistic \<noteq> [] \<and> hd (oshape empty_logistic) = 0
   \<and> (1 :: int) \<noteq> 0
   \<and> chaosPoints Logistic_evolve empty_logistic 1 =
       Inr (\<lparr>shape = [0], elems = []\<rparr>, empty_logistic)
   \<and> chaosPoints Logistic_evolve ex_logistic 1 =
       Inr (\<lparr>shape = [2, 2], elems = [Fin (1 / 2), Fin (1 / 4), Fin 1, Fin (3 / 4)]\<rparr>,
            ex_logistic\<lparr>cgens := [\<lparr>shape = [2], elems = [Fin 0, Fin (3 / 4)]\<rparr>,
                                  \<lparr>shape = [2], elems = [Fin 0, Fin (3 / 4)]\<rparr>]\<rparr>)
   \<and> chaosPoints (Lorenz_evolve euler_step ex_lims) ex_lorenz 1 =
       Inr (\<lparr>shape = [2, 1], elems = [Fin 0, Fin (1 / 20)]\<rparr>,
            ex_lorenz\<lparr>cgens :=
              [\<lparr>shape = [1],
                elems = [(Fin (- (813 / 50)), Fin (- (627 / 500)), Fin (53533 / 2250))]\<rparr>,
               \<lparr>shape = [1], elems = [(Fin 10, Fin 0, Fin (25 / 2))]\<rparr>]\<rparr>)"
proof -
  have s: "Suc 0 < hd (oshape ex_logistic)" "Suc 0 < hd (oshape ex_tent)"
    "Suc 0 < hd (oshape ex_lorenz)"
    by (simp_all add: ex_logistic_eq ex_tent_eq ex_lorenz_def)
  have one: "(1 :: int) \<le> 1" by simp
  have nz: "(1 :: int) \<noteq> 0" by simp
  note t = cascade_rows [of ex_logistic 1 ex_tent ex_lorenz 0 ex_lims "ex_box ex_params" euler_step
      empty_logistic Logistic_evolve]
  from t ex_wf one s have
    "\<exists>out g'. chaosPoints Logistic_evolve ex_logistic 1 = Inr (out, g')
        \<and> shape out = oshape ex_logistic
        \<and> np_nth out (Suc 0) = np_map (logistic_map (r ex_logistic)) (np_nth out 0)"
    by blast
  moreover from t ex_wf one s have
    "\<exists>out g'. chaosPoints Tent_evolve ex_tent 1 = Inr (out, g')
        \<and> shape out = oshape ex_tent
        \<and> np_nth out (Suc 0) = np_map (tent_map (mu ex_tent)) (np_nth out 0)"
    by blast
  moreover from t ex_wf one s have
    "\<exists>out g'. chaosPoints (Lorenz_evolve euler_step ex_lims) ex_lorenz 1 = Inr (out, g')
        \<and> shape out = oshape ex_lorenz
        \<and> np_nth out (Suc 0) =
            np_map (export 0 (ex_box ex_params))
              (np_map (euler_step (params ex_lorenz) (h ex_lorenz) 1 ^^ Suc 0)
                (cgens ex_lorenz ! nat (1 - 1)))"
    by blast
  moreover from t empty_logistic_wf nz have
    "chaosPoints Logistic_evolve empty_logistic 1 =
       Inr (\<lparr>shape = [0], elems = []\<rparr>, empty_logistic)"
    by blast
  ultimately show ?thesis
    using ex_wf one nz empty_logistic_wf ex_logistic_one ex_lorenz_one by (intro conjI)
qed

text \<open>
  C7. For a well-formed generator of any of the three variants (with a nonempty owner
  shape in cascade mode), \<^verbatim>\<open>chaosPoints(0)\<close> returns the stack, in slot order, of
  what \<^verbatim>\<open>chaosPoints(1)\<close>, ..., \<^verbatim>\<open>chaosPoints(gens)\<close> return when executed in that
  order, its shape is \<open>(gens,)\<close> followed by the shape of one generator's output, and
  every slot is advanced by exactly one such call.
\<close>

theorem chaosPoints_zero_all:
  "(wf_gen gl \<longrightarrow> (cascade gl \<longrightarrow> oshape gl \<noteq> []) \<longrightarrow>
      all_generators_once Logistic_evolve gl)
   \<and> (wf_gen gt \<longrightarrow> (cascade gt \<longrightarrow> oshape gt \<noteq> []) \<longrightarrow>
      all_generators_once Tent_evolve gt)
   \<and> (wf_gen gz \<longrightarrow> (cascade gz \<longrightarrow> oshape gz \<noteq> []) \<longrightarrow>
      gshape gz = cell_shape gz @ [3] \<longrightarrow> py_index 3 (comp gz) = Inr c \<longrightarrow>
      lims (params gz) = Some lm \<longrightarrow>
      all_generators_once (Lorenz_evolve ode lims) gz)"
proof (intro conjI impI)
  assume wf: "wf_gen gl" and o: "cascade gl \<longrightarrow> oshape gl \<noteq> []"
  show "all_generators_once Logistic_evolve gl"
  proof (rule chaosPoints_zero [where I = "\<lambda>cs. length cs = gens gl"
        and out = "slot_out (cascade gl) (oshape gl) (\<lambda>x. x) (logistic_map (r gl))"
        and adv = "slot_next (cascade gl) (oshape gl) (logistic_map (r gl))"])
    fix cs :: "f64 ndarray list" and i
    assume "length cs = gens gl" and "i < gens gl"
    then have "py_index (length (cgens (gl\<lparr>cgens := cs\<rparr>))) (int i + 1 - 1) = Inr i"
      by (simp add: py_index_nat)
    from Logistic_chaosPoints_gno [OF this] o \<open>length cs = gens gl\<close>
    show "chaosPoints_gno Logistic_evolve (gl\<lparr>cgens := cs\<rparr>) (int i + 1) =
        Inr (slot_out (cascade gl) (oshape gl) (\<lambda>x. x) (logistic_map (r gl)) (cs ! i),
             gl\<lparr>cgens := cs[i := slot_next (cascade gl) (oshape gl) (logistic_map (r gl)) (cs ! i)]\<rparr>)
      \<and> length (cs[i := slot_next (cascade gl) (oshape gl) (logistic_map (r gl)) (cs ! i)]) = gens gl"
      by simp
  next
    show "length (cgens gl) = gens gl" using wf by (simp add: wf_gen_def)
  next
    show "list_all (\<lambda>a. shape (slot_out (cascade gl) (oshape gl) (\<lambda>x. x) (logistic_map (r gl)) a) = out_shape gl
       \<and> length (elems (slot_out (cascade gl) (oshape gl) (\<lambda>x. x) (logistic_map (r gl)) a))
           = prod_list (out_shape gl)) (cgens gl)"
      using wf o by (rule wf_gen_sh)
  qed
next
  assume wf: "wf_gen gt" and o: "cascade gt \<longrightarrow> oshape gt \<noteq> []"
  show "all_generators_once Tent_evolve gt"
  proof (rule chaosPoints_zero [where I = "\<lambda>cs. length cs = gens gt"
        and out = "slot_out (cascade gt) (oshape gt) (\<lambda>x. x) (tent_map (mu gt))"
        and adv = "slot_next (cascade gt) (oshape gt) (tent_map (mu gt))"])
    fix cs :: "f64 ndarray list" and i
    assume "length cs = gens gt" and "i < gens gt"
    then have "py_index (length (cgens (gt\<lparr>cgens := cs\<rparr>))) (int i + 1 - 1) = Inr i"
      by (simp add: py_index_nat)
    from Tent_chaosPoints_gno [OF this] o \<open>length cs = gens gt\<close>
    show "chaosPoints_gno Tent_evolve (gt\<lparr>cgens := cs\<rparr>) (int i + 1) =
        Inr (slot_out (cascade gt) (oshape gt) (\<lambda>x. x) (tent_map (mu gt)) (cs ! i),
             gt\<lparr>cgens := cs[i := slot_next (cascade gt) (oshape gt) (tent_map (mu gt)) (cs ! i)]\<rparr>)
      \<and> length (cs[i := slot_next (cascade gt) (oshape gt) (tent_map (mu gt)) (cs ! i)]) = gens gt"
      by simp
  next
    show "length (cgens gt) = gens gt" using wf by (simp add: wf_gen_def)
  next
    show "list_all (\<lambda>a. shape (slot_out (cascade gt) (oshape gt) (\<lambda>x. x) (tent_map (mu gt)) a) = out_shape gt
       \<and> length (elems (slot_out (cascade gt) (oshape gt) (\<lambda>x. x) (tent_map (mu gt)) a))
           = prod_list (out_shape gt)) (cgens gt)"
      using wf o by (rule wf_gen_sh)
  qed
next
  assume wf: "wf_gen gz" and o: "cascade gz \<longrightarrow> oshape gz \<noteq> []"
    and z: "gshape gz = cell_shape gz @ [3]" "py_index 3 (comp gz) = Inr c"
      "lims (params gz) = Some lm"
  let ?N = "prod_list (butlast (gshape gz))"
  let ?f = "ode (params gz) (h gz) 1"
  let ?I = "\<lambda>cs. length cs = gens gz \<and> list_all (\<lambda>a. length (elems a) = ?N) cs"
  show "all_generators_once (Lorenz_evolve ode lims) gz"
  proof (rule chaosPoints_zero [where I = ?I
        and out = "slot_out (cascade gz) (oshape gz) (export c lm) ?f"
        and adv = "slot_next (cascade gz) (oshape gz) ?f"])
    fix cs :: "vec3 ndarray list" and i
    assume I: "?I cs" and i: "i < gens gz"
    then have p: "py_index (length (cgens (gz\<lparr>cgens := cs\<rparr>))) (int i + 1 - 1) = Inr i"
      by (simp add: py_index_nat)
    have "chaosPoints_gno (Lorenz_evolve ode lims) (gz\<lparr>cgens := cs\<rparr>) (int i + 1) =
        Inr (slot_out (cascade gz) (oshape gz) (export c lm) ?f (cs ! i),
             gz\<lparr>cgens := cs[i := slot_next (cascade gz) (oshape gz) ?f (cs ! i)]\<rparr>)"
      using Lorenz_chaosPoints_gno [where ode = ode and lims = lims and g = "gz\<lparr>cgens := cs\<rparr>"
          and c = c and lm = lm, OF p] z(2,3) o I
      by simp
    moreover have "list_all (\<lambda>a. length (elems a) = ?N)
        (cs[i := slot_next (cascade gz) (oshape gz) ?f (cs ! i)])"
      using I i by (auto simp: list_all_length nth_list_update slot_next_def)
    ultimately show "chaosPoints_gno (Lorenz_evolve ode lims) (gz\<lparr>cgens := cs\<rparr>) (int i + 1) =
        Inr (slot_out (cascade gz) (oshape gz) (export c lm) ?f (cs ! i),
             gz\<lparr>cgens := cs[i := slot_next (cascade gz) (oshape gz) ?f (cs ! i)]\<rparr>)
      \<and> ?I (cs[i := slot_next (cascade gz) (oshape gz) ?f (cs ! i)])"
      using I by simp
  next
    fix cs :: "vec3 ndarray list" assume "?I cs"
    then show "length cs = gens gz" by simp
  next
    show "?I (cgens gz)"
      using wf z(1) by (simp add: wf_gen_def wf_slot_def list_all_iff)
  next
    show "list_all (\<lambda>a. shape (slot_out (cascade gz) (oshape gz) (export c lm) ?f a) = out_shape gz
       \<and> length (elems (slot_out (cascade gz) (oshape gz) (export c lm) ?f a))
           = prod_list (out_shape gz)) (cgens gz)"
      using wf o by (rule wf_gen_sh)
  qed
qed

theorem chaosPoints_zero_all_witness:
  "wf_gen ex_logistic \<and> oshape ex_logistic \<noteq> []
   \<and> all_generators_once Logistic_evolve ex_logistic
   \<and> chaosPoints Logistic_evolve ex_logistic 0 =
       Inr (\<lparr>shape = [2, 2, 2],
             elems = [Fin (1 / 2), Fin (1 / 4), Fin 1, Fin (3 / 4),
                      Fin 0, Fin (3 / 4), Fin 0, Fin (3 / 4)]\<rparr>,
            ex_logistic\<lparr>cgens := [\<lparr>shape = [2], elems = [Fin 0, Fin (3 / 4)]\<rparr>,
                                  \<lparr>shape = [2], elems = [Fin 0, Fin (3 / 4)]\<rparr>]\<rparr>)
   \<and> wf_gen ex_tent \<and> oshape ex_tent \<noteq> []
   \<and> all_generators_once Tent_evolve ex_tent
   \<and> wf_gen ex_lorenz \<and> oshape ex_lorenz \<noteq> []
   \<and> gshape ex_lorenz = cell_shape ex_lorenz @ [3] \<and> py_index 3 (comp ex_lorenz) = Inr 0
   \<and> ex_lims (params ex_lorenz) = Some (ex_box ex_params)
   \<and> all_generators_once (Lorenz_evolve euler_step ex_lims) ex_lorenz"
  using chaosPoints_zero_all [of ex_logistic ex_tent ex_lorenz 0 ex_lims "ex_box ex_params" euler_step]
    ex_wf ex_logistic_all
  by (intro conjI) blast+

text \<open>
  C9, as the specification states it: a call of \<^verbatim>\<open>chaosPoints\<close> between two calls of
  \<^verbatim>\<open>getCgens\<close> changes at least one tracked value. It fails when the evolved slot
  holds only fixed points of the map, here 0.75 and 0 for \<open>r = 4\<close>: the first
  snapshot leaves the generator as it is, and so does the call of \<^verbatim>\<open>chaosPoints\<close>, so
  the second snapshot is the first one again.
\<close>

theorem produce_changes_nothing:
  "getCgens plain_logistic =
     ([\<lparr>shape = [1, 2], elems = [Fin (1 / 2), Fin (1 / 4)]\<rparr>,
       \<lparr>shape = [1, 2], elems = [Fin (3 / 4), Fin 0]\<rparr>], plain_logistic)
   \<and> chaosPoints Logistic_evolve plain_logistic 2 =
     Inr (\<lparr>shape = [1, 2], elems = [Fin (3 / 4), Fin 0]\<rparr>, plain_logistic)"
  using plain_logistic_two by (simp add: getCgens_def plain_logistic_eq)

text \<open>
  C9, amended. \<^verbatim>\<open>getCgens\<close> returns the State Container and leaves the generator as
  it is, so two calls with nothing in between return equal arrays. After a call of
  \<^verbatim>\<open>chaosPoints\<close> in between, for any of the three variants and in either mode, the
  second snapshot is the first one with every evolved slot replaced by its image
  under the update of the variant, applied once, or once per particle in cascade
  mode: \<^verbatim>\<open>chaosPoints(gno)\<close> with \<open>gno \<noteq> 0\<close> replaces the slot \<open>k\<close> it selects and
  leaves every other slot and the number of slots as they were, \<^verbatim>\<open>chaosPoints(0)\<close>
  replaces every slot. The call need not change any value: when every entry of the
  evolved slot (for any index, of every slot) is a fixed point of the update, the
  second snapshot equals the first. For the Lorenz generator the update is the flow
  on the three-coordinate state, and the description of the new slot assumes a
  well-formed State Container, a valid component and cached limits.
\<close>

theorem snapshot_copy:
  "getCgens g = (cgens g, g)
   \<and> fst (getCgens (snd (getCgens g))) = fst (getCgens g)
   \<and> (chaosPoints Logistic_evolve gl gno = Inr (outl, gl') \<longrightarrow>
        (gno \<noteq> 0 \<longrightarrow> py_index (length (cgens gl)) (gno - 1) = Inr k \<longrightarrow>
           fst (getCgens gl') =
             (fst (getCgens gl))[k := slot_next (cascade gl) (oshape gl) (logistic_map (r gl))
                                       (cgens gl ! k)]
           \<and> length (fst (getCgens gl')) = length (fst (getCgens gl))
           \<and> (\<forall>j. j \<noteq> k \<longrightarrow> fst (getCgens gl') ! j = fst (getCgens gl) ! j)
           \<and> (all_elems (\<lambda>x. logistic_map (r gl) x = x) (cgens gl ! k) \<longrightarrow>
                fst (getCgens gl') = fst (getCgens gl)))
        \<and> (all_state (\<lambda>x. logistic_map (r gl) x = x) gl \<longrightarrow>
             fst (getCgens gl') = fst (getCgens gl)))
   \<and> (chaosPoints Logistic_evolve gl 0 = Inr (outl0, gl0) \<longrightarrow>
        wf_gen gl \<longrightarrow> (cascade gl \<longrightarrow> oshape gl \<noteq> []) \<longrightarrow>
        fst (getCgens gl0) =
          map (slot_next (cascade gl) (oshape gl) (logistic_map (r gl))) (fst (getCgens gl)))
   \<and> (chaosPoints Tent_evolve gt gno = Inr (outt, gt') \<longrightarrow>
        (gno \<noteq> 0 \<longrightarrow> py_index (length (cgens gt)) (gno - 1) = Inr k \<longrightarrow>
           fst (getCgens gt') =
             (fst (getCgens gt))[k := slot_next (cascade gt) (oshape gt) (tent_map (mu gt))
                                       (cgens gt ! k)]
           \<and> length (fst (getCgens gt')) = length (fst (getCgens gt))
           \<and> (\<forall>j. j \<noteq> k \<longrightarrow> fst (getCgens gt') ! j = fst (getCgens gt) ! j)
           \<and> (all_elems (\<lambda>x. tent_map (mu gt) x = x) (cgens gt ! k) \<longrightarrow>
                fst (getCgens gt') = fst (getCgens gt)))
        \<and> (all_state (\<lambda>x. tent_map (mu gt) x = x) gt \<longrightarrow>
             fst (getCgens gt') = fst (getCgens gt)))
   \<and> (chaosPoints Tent_evolve gt 0 = Inr (outt0, gt0) \<longrightarrow>
        wf_gen gt \<longrightarrow> (cascade gt \<longrightarrow> oshape gt \<noteq> []) \<longrightarrow>
        fst (getCgens gt0) =
          map (slot_next (cascade gt) (oshape gt) (tent_map (mu gt))) (fst (getCgens gt)))
   \<and> (chaosPoints (Lorenz_evolve ode lims) gz gno = Inr (outz, gz') \<longrightarrow>
        (gno \<noteq> 0 \<longrightarrow> py_index (length (cgens gz)) (gno - 1) = Inr k \<longrightarrow>
           (wf_gen gz \<longrightarrow> gshape gz = cell_shape gz @ [3] \<longrightarrow>
            py_index 3 (comp gz) = Inr c \<longrightarrow> lims (params gz) = Some lm \<longrightarrow>
              fst (getCgens gz') =
                (fst (getCgens gz))[k := slot_next (cascade gz) (oshape gz)
                                          (ode (params gz) (h gz) 1) (cgens gz ! k)])
           \<and> length (fst (getCgens gz')) = length (fst (getCgens gz))
           \<and> (\<forall>j. j \<noteq> k \<longrightarrow> fst (getCgens gz') ! j = fst (getCgens gz) ! j)
           \<and> (all_elems (\<lambda>v. ode (params gz) (h gz) 1 v = v) (cgens gz ! k) \<longrightarrow>
                fst (getCgens gz') = fst (getCgens gz)))
        \<and> (all_state (\<lambda>v. ode (params gz) (h gz) 1 v = v) gz \<longrightarrow>
             fst (getCgens gz') = fst (getCgens gz)))
   \<and> (chaosPoints (Lorenz_evolve ode lims) gz 0 = Inr (outz0, gz0) \<longrightarrow>
        wf_gen gz \<longrightarrow> (cascade gz \<longrightarrow> oshape gz \<noteq> []) \<longrightarrow>
        gshape gz = cell_shape gz @ [3] \<longrightarrow>
        py_index 3 (comp gz) = Inr c \<longrightarrow> lims (params gz) = Some lm \<longrightarrow>
        fst (getCgens gz0) =
          map (slot_next (cascade gz) (oshape gz) (ode (params gz) (h gz) 1))
            (fst (getCgens gz)))"
proof -
  have s1: "getCgens g = (cgens g, g)"
    and s2: "fst (getCgens (snd (getCgens g))) = fst (getCgens g)"
    by (simp_all add: getCgens_def)
  have l: "(gno \<noteq> 0 \<longrightarrow> py_index (length (cgens gl)) (gno - 1) = Inr k \<longrightarrow>
           fst (getCgens gl') =
             (fst (getCgens gl))[k := slot_next (cascade gl) (oshape gl) (logistic_map (r gl))
                                       (cgens gl ! k)]
           \<and> length (fst (getCgens gl')) = length (fst (getCgens gl))
           \<and> (\<forall>j. j \<noteq> k \<longrightarrow> fst (getCgens gl') ! j = fst (getCgens gl) ! j)
           \<and> (all_elems (\<lambda>x. logistic_map (r gl) x = x) (cgens gl ! k) \<longrightarrow>
                fst (getCgens gl') = fst (getCgens gl)))
        \<and> (all_state (\<lambda>x. logistic_map (r gl) x = x) gl \<longrightarrow>
             fst (getCgens gl') = fst (getCgens gl))"
    if run: "chaosPoints Logistic_evolve gl gno = Inr (outl, gl')"
    using produce_snapshot [where ev = Logistic_evolve and g = gl
        and Fx = "\<lambda>x. logistic_map (r gl) x = x" and k = k,
        OF Logistic_evolve_slot Logistic_evolve_fixed run]
      Logistic_gno_state [where g = gl and gno = gno and k = k, OF _ run]
    by (simp add: getCgens_def)
  have l0: "fst (getCgens gl0) =
          map (slot_next (cascade gl) (oshape gl) (logistic_map (r gl))) (fst (getCgens gl))"
    if "chaosPoints Logistic_evolve gl 0 = Inr (outl0, gl0)" "wf_gen gl"
      "cascade gl \<longrightarrow> oshape gl \<noteq> []"
    using Logistic_zero_state [OF that(2,3,1)] by (simp add: getCgens_def)
  have t: "(gno \<noteq> 0 \<longrightarrow> py_index (length (cgens gt)) (gno - 1) = Inr k \<longrightarrow>
           fst (getCgens gt') =
             (fst (getCgens gt))[k := slot_next (cascade gt) (oshape gt) (tent_map (mu gt))
                                       (cgens gt ! k)]
           \<and> length (fst (getCgens gt')) = length (fst (getCgens gt))
           \<and> (\<forall>j. j \<noteq> k \<longrightarrow> fst (getCgens gt') ! j = fst (getCgens gt) ! j)
           \<and> (all_elems (\<lambda>x. tent_map (mu gt) x = x) (cgens gt ! k) \<longrightarrow>
                fst (getCgens gt') = fst (getCgens gt)))
        \<and> (all_state (\<lambda>x. tent_map (mu gt) x = x) gt \<longrightarrow>
             fst (getCgens gt') = fst (getCgens gt))"
    if run: "chaosPoints Tent_evolve gt gno = Inr (outt, gt')"
    using produce_snapshot [where ev = Tent_evolve and g = gt
        and Fx = "\<lambda>x. tent_map (mu gt) x = x" and k = k,
        OF Tent_evolve_slot Tent_evolve_fixed run]
      Tent_gno_state [where g = gt and gno = gno and k = k, OF _ run]
    by (simp add: getCgens_def)
  have t0: "fst (getCgens gt0) =
          map (slot_next (cascade gt) (oshape gt) (tent_map (mu gt))) (fst (getCgens gt))"
    if "chaosPoints Tent_evolve gt 0 = Inr (outt0, gt0)" "wf_gen gt"
      "cascade gt \<longrightarrow> oshape gt \<noteq> []"
    using Tent_zero_state [OF that(2,3,1)] by (simp add: getCgens_def)
  have z: "(gno \<noteq> 0 \<longrightarrow> py_index (length (cgens gz)) (gno - 1) = Inr k \<longrightarrow>
           (wf_gen gz \<longrightarrow> gshape gz = cell_shape gz @ [3] \<longrightarrow>
            py_index 3 (comp gz) = Inr c \<longrightarrow> lims (params gz) = Some lm \<longrightarrow>
              fst (getCgens gz') =
                (fst (getCgens gz))[k := slot_next (cascade gz) (oshape gz)
                                          (ode (params gz) (h gz) 1) (cgens gz ! k)])
           \<and> length (fst (getCgens gz')) = length (fst (getCgens gz))
           \<and> (\<forall>j. j \<noteq> k \<longrightarrow> fst (getCgens gz') ! j = fst (getCgens gz) ! j)
           \<and> (all_elems (\<lambda>v. ode (params gz) (h gz) 1 v = v) (cgens gz ! k) \<longrightarrow>
                fst (getCgens gz') = fst (getCgens gz)))
        \<and> (all_state (\<lambda>v. ode (params gz) (h gz) 1 v = v) gz \<longrightarrow>
             fst (getCgens gz') = fst (getCgens gz))"
    if run: "chaosPoints (Lorenz_evolve ode lims) gz gno = Inr (outz, gz')"
    using produce_snapshot [where ev = "Lorenz_evolve ode lims" and g = gz
        and Fx = "\<lambda>v. ode (params gz) (h gz) 1 v = v" and k = k,
        OF Lorenz_evolve_slot Lorenz_evolve_fixed run]
      Lorenz_gno_state [where g = gz and gno = gno and k = k and ode = ode and lims = lims
        and c = c and lm = lm, OF _ run]
    by (simp add: getCgens_def)
  have z0: "fst (getCgens gz0) =
          map (slot_next (cascade gz) (oshape gz) (ode (params gz) (h gz) 1))
            (fst (getCgens gz))"
    if "chaosPoints (Lorenz_evolve ode lims) gz 0 = Inr (outz0, gz0)" "wf_gen gz"
      "cascade gz \<longrightarrow> oshape gz \<noteq> []" "gshape gz = cell_shape gz @ [3]"
      "py_index 3 (comp gz) = Inr c" "lims (params gz) = Some lm"
    using Lorenz_zero_state [where ode = ode and lims = lims and g = gz and c = c and lm = lm,
        OF that(2,3,4,5,6,1)]
    by (simp add: getCgens_def)
  from s1 s2 l l0 t t0 z z0 show ?thesis by blast
qed

theorem snapshot_copy_witness:
  "chaosPoints Logistic_evolve fixed_logistic 1 =
     Inr (\<lparr>shape = [2, 2], elems = [Fin (3 / 4), Fin 0, Fin (3 / 4), Fin 0]\<rparr>,
          fixed_logistic\<lparr>cgens := [\<lparr>shape = [2], elems = [Fin (3 / 4), Fin 0]\<rparr>,
                                  \<lparr>shape = [2], elems = [Fin (3 / 4), Fin 0]\<rparr>]\<rparr>)
   \<and> (1 :: int) \<noteq> 0
   \<and> py_index (length (cgens fixed_logistic)) (1 - 1) = Inr 0
   \<and> all_elems (\<lambda>x. logistic_map (r fixed_logistic) x = x) (cgens fixed_logistic ! 0)
   \<and> all_state (\<lambda>x. logistic_map (r fixed_logistic) x = x) fixed_logistic
   \<and> fst (getCgens (fixed_logistic\<lparr>cgens := [\<lparr>shape = [2], elems = [Fin (3 / 4), Fin 0]\<rparr>,
                                  \<lparr>shape = [2], elems = [Fin (3 / 4), Fin 0]\<rparr>]\<rparr>))
       = fst (getCgens fixed_logistic)
   \<and> chaosPoints Tent_evolve fixed_tent 1 =
     Inr (\<lparr>shape = [2, 2], elems = [Fin 0, Fin 0, Fin 0, Fin 0]\<rparr>,
          fixed_tent\<lparr>cgens := [\<lparr>shape = [2], elems = [Fin 0, Fin 0]\<rparr>,
                              \<lparr>shape = [2], elems = [Fin 0, Fin 0]\<rparr>]\<rparr>)
   \<and> py_index (length (cgens fixed_tent)) (1 - 1) = Inr 0
   \<and> all_elems (\<lambda>x. tent_map (mu fixed_tent) x = x) (cgens fixed_tent ! 0)
   \<and> all_state (\<lambda>x. tent_map (mu fixed_tent) x = x) fixed_tent
   \<and> fst (getCgens (fixed_tent\<lparr>cgens := [\<lparr>shape = [2], elems = [Fin 0, Fin 0]\<rparr>,
                              \<lparr>shape = [2], elems = [Fin 0, Fin 0]\<rparr>]\<rparr>))
       = fst (getCgens fixed_tent)
   \<and> chaosPoints (Lorenz_evolve euler_step ex_lims) fixed_lorenz 1 =
     Inr (\<lparr>shape = [2, 1], elems = [Fin (1 / 2), Fin (1 / 2)]\<rparr>,
          fixed_lorenz\<lparr>cgens := [\<lparr>shape = [1], elems = [(Fin 0, Fin 0, Fin 0)]\<rparr>,
                                \<lparr>shape = [1], elems = [(Fin 0, Fin 0, Fin 0)]\<rparr>]\<rparr>)
   \<and> py_index (length (cgens fixed_lorenz)) (1 - 1) = Inr 0
   \<and> all_elems (\<lambda>v. euler_step (params fixed_lorenz) (h fixed_lorenz) 1 v = v)
        (cgens fixed_lorenz ! 0)
   \<and> all_state (\<lambda>v. euler_step (params fixed_lorenz) (h fixed_lorenz) 1 v = v) fixed_lorenz
   \<and> fst (getCgens (fixed_lorenz\<lparr>cgens := [\<lparr>shape = [1], elems = [(Fin 0, Fin 0, Fin 0)]\<rparr>,
                                \<lparr>shape = [1], elems = [(Fin 0, Fin 0, Fin 0)]\<rparr>]\<rparr>))
       = fst (getCgens fixed_lorenz)
   \<and> getCgens fixed_logistic = (cgens fixed_logistic, fixed_logistic)
   \<and> chaosPoints Logistic_evolve fixed_logistic 0 =
     Inr (\<lparr>shape = [2, 2, 2],
           elems = [Fin (3 / 4), Fin 0, Fin (3 / 4), Fin 0, Fin (3 / 4), Fin 0, Fin (3 / 4), Fin 0]\<rparr>,
          fixed_logistic\<lparr>cgens := [\<lparr>shape = [2], elems = [Fin (3 / 4), Fin 0]\<rparr>,
                                  \<lparr>shape = [2], elems = [Fin (3 / 4), Fin 0]\<rparr>]\<rparr>)
   \<and> chaosPoints Tent_evolve fixed_tent 0 =
     Inr (\<lparr>shape = [2, 2, 2],
           elems = [Fin 0, Fin 0, Fin 0, Fin 0, Fin 0, Fin 0, Fin 0, Fin 0]\<rparr>,
          fixed_tent\<lparr>cgens := [\<lparr>shape = [2], elems = [Fin 0, Fin 0]\<rparr>,
                              \<lparr>shape = [2], elems = [Fin 0, Fin 0]\<rparr>]\<rparr>)
   \<and> chaosPoints (Lorenz_evolve euler_step ex_lims) fixed_lorenz 0 =
     Inr (\<lparr>shape = [2, 2, 1], elems = [Fin (1 / 2), Fin (1 / 2), Fin (1 / 2), Fin (1 / 2)]\<rparr>,
          fixed_lorenz\<lparr>cgens := [\<lparr>shape = [1], elems = [(Fin 0, Fin 0, Fin 0)]\<rparr>,
                                \<lparr>shape = [1], elems = [(Fin 0, Fin 0, Fin 0)]\<rparr>]\<rparr>)
   \<and> wf_gen fixed_logistic \<and> oshape fixed_logistic \<noteq> []
   \<and> wf_gen fixed_tent \<and> oshape fixed_tent \<noteq> []
   \<and> wf_gen fixed_lorenz \<and> oshape fixed_lorenz \<noteq> []
   \<and> gshape fixed_lorenz = cell_shape fixed_lorenz @ [3]
   \<and> py_index 3 (comp fixed_lorenz) = Inr 0
   \<and> ex_lims (params fixed_lorenz) = Some (ex_box ex_params)
   \<and> fst (getCgens (fixed_lorenz\<lparr>cgens := [\<lparr>shape = [1], elems = [(Fin 0, Fin 0, Fin 0)]\<rparr>,
                                \<lparr>shape = [1], elems = [(Fin 0, Fin 0, Fin 0)]\<rparr>]\<rparr>))
       = map (slot_next (cascade fixed_lorenz) (oshape fixed_lorenz)
               (euler_step (params fixed_lorenz) (h fixed_lorenz) 1))
           (fst (getCgens fixed_lorenz))
   \<and> chaosPoints Logistic_evolve ex_logistic 1 =
       Inr (\<lparr>shape = [2, 2], elems = [Fin (1 / 2), Fin (1 / 4), Fin 1, Fin (3 / 4)]\<rparr>,
            ex_logistic\<lparr>cgens := [\<lparr>shape = [2], elems = [Fin 0, Fin (3 / 4)]\<rparr>,
                                  \<lparr>shape = [2], elems = [Fin 0, Fin (3 / 4)]\<rparr>]\<rparr>)
   \<and> py_index (length (cgens ex_logistic)) (1 - 1) = Inr 0
   \<and> fst (getCgens (ex_logistic\<lparr>cgens := [\<lparr>shape = [2], elems = [Fin 0, Fin (3 / 4)]\<rparr>,
                                  \<lparr>shape = [2], elems = [Fin 0, Fin (3 / 4)]\<rparr>]\<rparr>))
       = (fst (getCgens ex_logistic))
           [0 := slot_next (cascade ex_logistic) (oshape ex_logistic)
                   (logistic_map (r ex_logistic)) (cgens ex_logistic ! 0)]
   \<and> fst (getCgens (ex_logistic\<lparr>cgens := [\<lparr>shape = [2], elems = [Fin 0, Fin (3 / 4)]\<rparr>,
                                  \<lparr>shape = [2], elems = [Fin 0, Fin (3 / 4)]\<rparr>]\<rparr>))
       \<noteq> fst (getCgens ex_logistic)"
proof -
  have nz: "(1 :: int) \<noteq> 0" by simp
  note t = snapshot_copy [where g = fixed_logistic and gl = fixed_logistic and gt = fixed_tent
      and gz = fixed_lorenz and gno = 1 and k = 0 and ode = euler_step and lims = ex_lims
      and c = 0 and lm = "ex_box ex_params"]
  note u = snapshot_copy [where gl = ex_logistic and gno = 1 and k = 0]
  from t fixed_logistic_one fixed_points(3)
  have a: "fst (getCgens (fixed_logistic\<lparr>cgens := [\<lparr>shape = [2], elems = [Fin (3 / 4), Fin 0]\<rparr>,
                                  \<lparr>shape = [2], elems = [Fin (3 / 4), Fin 0]\<rparr>]\<rparr>))
       = fst (getCgens fixed_logistic)"
    by blast
  from t fixed_tent_one fixed_points(6)
  have b: "fst (getCgens (fixed_tent\<lparr>cgens := [\<lparr>shape = [2], elems = [Fin 0, Fin 0]\<rparr>,
                              \<lparr>shape = [2], elems = [Fin 0, Fin 0]\<rparr>]\<rparr>))
       = fst (getCgens fixed_tent)"
    by blast
  from t fixed_lorenz_one fixed_points(9)
  have c: "fst (getCgens (fixed_lorenz\<lparr>cgens := [\<lparr>shape = [1], elems = [(Fin 0, Fin 0, Fin 0)]\<rparr>,
                                \<lparr>shape = [1], elems = [(Fin 0, Fin 0, Fin 0)]\<rparr>]\<rparr>))
       = fst (getCgens fixed_lorenz)"
    by blast
  from t have d: "getCgens fixed_logistic = (cgens fixed_logistic, fixed_logistic)" by blast
  from t fixed_lorenz_zero fixed_wf
  have e: "fst (getCgens (fixed_lorenz\<lparr>cgens := [\<lparr>shape = [1], elems = [(Fin 0, Fin 0, Fin 0)]\<rparr>,
                                \<lparr>shape = [1], elems = [(Fin 0, Fin 0, Fin 0)]\<rparr>]\<rparr>))
       = map (slot_next (cascade fixed_lorenz) (oshape fixed_lorenz)
               (euler_step (params fixed_lorenz) (h fixed_lorenz) 1))
           (fst (getCgens fixed_lorenz))"
    by blast
  have i: "py_index (length (cgens ex_logistic)) (1 - 1) = Inr 0"
    by (simp add: ex_logistic_eq py_index_def)
  from u ex_logistic_one i nz
  have f: "fst (getCgens (ex_logistic\<lparr>cgens := [\<lparr>shape = [2], elems = [Fin 0, Fin (3 / 4)]\<rparr>,
                                  \<lparr>shape = [2], elems = [Fin 0, Fin (3 / 4)]\<rparr>]\<rparr>))
       = (fst (getCgens ex_logistic))
           [0 := slot_next (cascade ex_logistic) (oshape ex_logistic)
                   (logistic_map (r ex_logistic)) (cgens ex_logistic ! 0)]"
    by blast
  have g: "fst (getCgens (ex_logistic\<lparr>cgens := [\<lparr>shape = [2], elems = [Fin 0, Fin (3 / 4)]\<rparr>,
                                  \<lparr>shape = [2], elems = [Fin 0, Fin (3 / 4)]\<rparr>]\<rparr>))
       \<noteq> fst (getCgens ex_logistic)"
    by (simp add: getCgens_def ex_logistic_eq)
  from a b c d e f g i nz fixed_points fixed_wf fixed_logistic_one fixed_tent_one fixed_lorenz_one
    fixed_logistic_zero fixed_tent_zero fixed_lorenz_zero ex_logistic_one
  show ?thesis by (intro conjI)
qed




end
